(* ===== verification/Prelude.thy ===== *)
theory Prelude
  imports Complex_Main "HOL-Library.AList" "HOL-Library.Multiset"
    "HOL-Library.Char_ord" "HOL-Library.List_Lexorder"
begin

text \<open>
  Shared vocabulary of the development: the Python values the application passes
  around and the builtins it calls on them.

  \<^item> A Python \<open>dict\<close> loaded from JSON is an association list \<open>('k, 'v) dict\<close>. The list
    order is the dictionary's insertion order, which the program observes (the order of
    \<open>venues.items()\<close> decides ties of the ranking). Keys of a dictionary are unique:
    \<open>dict_wf\<close>. \<open>d.get(k, x)\<close> is \<open>dict_get d k x\<close>, \<open>d.get(k)\<close> is \<open>map_of d k\<close>,
    \<open>d[k] = v\<close> is \<open>dict_set d k v\<close> (the library's \<open>AList.update\<close>: an existing key
    keeps its position, a new one goes last), \<open>d.pop(k, None)\<close> is \<open>dict_pop d k\<close>.
  \<^item> A Python \<open>float\<close> is a \<open>score\<close>, a rational number: every finite float is one, and
    the arithmetic of the model is exact. Rounding of floating-point operations is not
    modelled.
  \<^item> \<open>sorted(xs, key=f, reverse=True)\<close> is \<open>py_sorted_reverse f xs\<close>: a stable sort of
    the reversed list, reversed again, which is how the interpreter keeps equal keys in
    their original order.

  \<^item> A Python \<open>str\<close> is a \<open>string\<close>, a list of bytes; \<open>sorted\<close> on strings is the
    lexicographic order of the library on character codes. \<open>py_strip\<close> is \<open>str.strip()\<close>
    for the ASCII whitespace characters; whitespace beyond ASCII is not modelled.
  \<^item> A Streamlit input widget returns what the user set it to, or its default value
    when the user has not touched it: \<open>widget_value\<close>.
  \<^item> \<open>int(x)\<close> on a float is \<open>py_int\<close>, truncation towards zero.
  \<^item> \<open>dict_remap g d\<close> is what a loop \<open>for k, v in d.items(): d[k] = g(k, v)\<close> leaves
    in \<open>d\<close>; \<open>fold_own_items\<close> proves it of the loop.

  The lemmas are the generic facts the component theories share: evaluation rules for
  \<open>dict_get\<close>, preservation of \<open>dict_wf\<close>, sums over a dictionary against sums over the
  domain of its map, accumulating loops against \<open>sum_list\<close>, and the three properties
  of the descending sort (permutation, order, stability).
\<close>

section \<open>Fact collections\<close>

named_theorems dict_simps "evaluation and algebra of dictionary operations"
named_theorems wf_intros "preservation of well-formedness"

section \<open>Types and builtins\<close>

type_synonym ('k, 'v) dict = "('k \<times> 'v) list"

type_synonym score = rat

definition dict_wf :: "('k, 'v) dict \<Rightarrow> bool" where
  "dict_wf d \<longleftrightarrow> distinct (map fst d)"

definition dict_get :: "('k, 'v) dict \<Rightarrow> 'k \<Rightarrow> 'v \<Rightarrow> 'v" where
  "dict_get d k dflt = (case map_of d k of None \<Rightarrow> dflt | Some v \<Rightarrow> v)"

abbreviation dict_set :: "('k, 'v) dict \<Rightarrow> 'k \<Rightarrow> 'v \<Rightarrow> ('k, 'v) dict" where
  "dict_set d k v \<equiv> AList.update k v d"

abbreviation dict_pop :: "('k, 'v) dict \<Rightarrow> 'k \<Rightarrow> ('k, 'v) dict" where
  "dict_pop d k \<equiv> AList.delete k d"

abbreviation dict_keys :: "('k, 'v) dict \<Rightarrow> 'k list" where
  "dict_keys d \<equiv> map fst d"

definition section_or_empty :: "('k, 'v) dict option \<Rightarrow> ('k, 'v) dict" where
  "section_or_empty s = (case s of None \<Rightarrow> [] | Some d \<Rightarrow> d)"

definition dict_fill ::
  "('k \<Rightarrow> 'v option \<Rightarrow> 'v) \<Rightarrow> 'k list \<Rightarrow> ('k, 'v) dict \<Rightarrow> ('k, 'v) dict" where
  "dict_fill f ks d = fold (\<lambda>k d. dict_set d k (f k (map_of d k))) ks d"

definition py_sorted_reverse :: "('a \<Rightarrow> 'k::linorder) \<Rightarrow> 'a list \<Rightarrow> 'a list" where
  "py_sorted_reverse key xs = rev (sort_key key (rev xs))"

definition clamp01 :: "score \<Rightarrow> score" where
  "clamp01 x = max 0 (min 1 x)"

definition in_unit :: "score \<Rightarrow> bool" where
  "in_unit x \<longleftrightarrow> 0 \<le> x \<and> x \<le> 1"

definition is_space :: "char \<Rightarrow> bool" where
  "is_space c \<longleftrightarrow> c \<in> set [CHR 0x09, CHR 0x0A, CHR 0x0B, CHR 0x0C, CHR 0x0D,
     CHR 0x1C, CHR 0x1D, CHR 0x1E, CHR 0x1F, CHR '' '']"

definition py_strip :: "string \<Rightarrow> string" where
  "py_strip s = rev (dropWhile is_space (rev (dropWhile is_space s)))"

definition widget_value :: "'a option \<Rightarrow> 'a \<Rightarrow> 'a" where
  "widget_value user_set dflt = (case user_set of None \<Rightarrow> dflt | Some x \<Rightarrow> x)"

definition py_int :: "score \<Rightarrow> int" where
  "py_int x = (if 0 \<le> x then \<lfloor>x\<rfloor> else \<lceil>x\<rceil>)"

definition dict_remap :: "('k \<Rightarrow> 'v \<Rightarrow> 'w) \<Rightarrow> ('k, 'v) dict \<Rightarrow> ('k, 'w) dict" where
  "dict_remap g d = map (\<lambda>(k, v). (k, g k v)) d"

section \<open>Dictionary lookup\<close>

lemma dict_get_Nil [simp, dict_simps]: "dict_get [] k dflt = dflt"
  by (simp add: dict_get_def)

lemma dict_get_Cons [simp, dict_simps]:
  "dict_get ((k', v) # d) k dflt = (if k = k' then v else dict_get d k dflt)"
  by (simp add: dict_get_def)

lemma dict_get_absent [dict_simps]: "k \<notin> fst ` set d \<Longrightarrow> dict_get d k dflt = dflt"
  using map_of_eq_None_iff [of d k] by (simp add: dict_get_def)

lemma dict_get_present [dict_simps]:
  "dict_wf d \<Longrightarrow> (k, v) \<in> set d \<Longrightarrow> dict_get d k dflt = v"
  by (simp add: dict_get_def dict_wf_def)

lemma dict_get_set [dict_simps]:
  "dict_get (dict_set d k v) k' dflt = (if k' = k then v else dict_get d k' dflt)"
  by (simp add: dict_get_def update_conv')

lemma dict_get_pop [dict_simps]:
  "dict_get (dict_pop d k) k' dflt = (if k' = k then dflt else dict_get d k' dflt)"
  by (simp add: dict_get_def delete_conv')

lemma dict_get_cong_map_of:
  "map_of d k = map_of d' k \<Longrightarrow> dict_get d k dflt = dict_get d' k dflt"
  by (simp add: dict_get_def)

lemma dict_get_range:
  "P dflt \<Longrightarrow> list_all (\<lambda>(k, v). P v) d \<Longrightarrow> P (dict_get d k dflt)"
  by (induction d) (auto simp: dict_get_def)

lemma section_or_empty_simps [simp, dict_simps]:
  "section_or_empty None = []" "section_or_empty (Some d) = d"
  by (simp_all add: section_or_empty_def)

section \<open>Unique keys\<close>

lemma dict_wf_Nil [simp, wf_intros]: "dict_wf []"
  by (simp add: dict_wf_def)

lemma dict_wf_Cons [simp]:
  "dict_wf ((k, v) # d) \<longleftrightarrow> k \<notin> fst ` set d \<and> dict_wf d"
  by (simp add: dict_wf_def)

lemma dict_wf_set [wf_intros]: "dict_wf d \<Longrightarrow> dict_wf (dict_set d k v)"
  by (simp add: dict_wf_def distinct_update)

lemma dict_wf_pop [wf_intros]: "dict_wf d \<Longrightarrow> dict_wf (dict_pop d k)"
  by (simp add: dict_wf_def distinct_delete)

lemma dict_wf_map_values [wf_intros]:
  "dict_wf d \<Longrightarrow> dict_wf (map (\<lambda>(k, v). (k, f k v)) d)"
  by (simp add: dict_wf_def case_prod_unfold comp_def)

lemma dict_wf_filter [wf_intros]: "dict_wf d \<Longrightarrow> dict_wf (filter P d)"
  by (simp add: dict_wf_def distinct_map_filter)

lemma list_all_dict_set [wf_intros]:
  "list_all P d \<Longrightarrow> P (k, v) \<Longrightarrow> list_all P (dict_set d k v)"
  by (induction d) auto

lemma keys_dict_set:
  "set (dict_keys (dict_set d k v)) = insert k (set (dict_keys d))"
  using dom_update [of k v d] by simp

lemma dom_dict_set: "fst ` set (dict_set d k v) = insert k (fst ` set d)"
  by (simp add: dom_update)

lemma keys_dict_pop: "set (dict_keys (dict_pop d k)) = set (dict_keys d) - {k}"
  by (auto simp: delete_keys)

lemma dict_set_absent: "k \<notin> fst ` set d \<Longrightarrow> dict_set d k v = d @ [(k, v)]"
  by (induction d) auto

section \<open>Writing one key after another\<close>

text \<open>
  \<open>dict_fill f ks d\<close> is the loop \<open>for k in ks: d[k] = f(k, d.get(k))\<close>. When writing
  a key twice gives what writing it once gives, the result is known key by key.
\<close>

lemma dict_fill_simps [simp]:
  "dict_fill f [] d = d"
  "dict_fill f (k # ks) d = dict_fill f ks (dict_set d k (f k (map_of d k)))"
  by (simp_all add: dict_fill_def)

lemma dict_wf_fill [wf_intros]: "dict_wf d \<Longrightarrow> dict_wf (dict_fill f ks d)"
  by (induction ks arbitrary: d) (simp_all add: dict_wf_set)

lemma keys_dict_fill: "fst ` set (dict_fill f ks d) = fst ` set d \<union> set ks"
  by (induction ks arbitrary: d) (auto simp: dom_update)

lemma map_of_dict_fill:
  assumes "\<And>k old. k \<in> set ks \<Longrightarrow> f k (Some (f k old)) = f k old"
  shows "map_of (dict_fill f ks d) k
           = (if k \<in> set ks then Some (f k (map_of d k)) else map_of d k)"
  using assms by (induction ks arbitrary: d) (simp_all add: update_conv')

lemma set_dict_set_cases:
  "(k', v') \<in> set (dict_set d k v) \<Longrightarrow> (k', v') = (k, v) \<or> (k', v') \<in> set d"
  by (induction d) (auto split: if_splits)

lemma dict_fill_values:
  assumes "\<And>k v. (k, v) \<in> set d \<Longrightarrow> P v"
    and "\<And>k old. k \<in> set ks \<Longrightarrow> (\<And>v. old = Some v \<Longrightarrow> P v) \<Longrightarrow> P (f k old)"
    and "(k, v) \<in> set (dict_fill f ks d)"
  shows "P v"
  using assms
proof (induction ks arbitrary: d)
  case Nil
  then show ?case by simp
next
  case (Cons a ks)
  have new: "P (f a (map_of d a))"
    by (rule Cons.prems(2)) (auto dest: map_of_SomeD intro: Cons.prems(1))
  have "P v'" if "(k', v') \<in> set (dict_set d a (f a (map_of d a)))" for k' v'
    using set_dict_set_cases [OF that] new Cons.prems(1) by auto
  then show ?case
    using Cons.prems(2,3) by (intro Cons.IH [of "dict_set d a (f a (map_of d a))"]) auto
qed

lemma dict_fill_id:
  assumes "\<And>k. k \<in> set ks \<Longrightarrow> \<exists>v. map_of d k = Some v \<and> f k (Some v) = v"
  shows "dict_fill f ks d = d"
  using assms
proof (induction ks)
  case Nil
  then show ?case by simp
next
  case (Cons a ks)
  from Cons.prems [of a] obtain v where "map_of d a = Some v" and "f a (Some v) = v"
    by auto
  then have "dict_set d a (f a (map_of d a)) = d"
    by (simp add: update_triv)
  with Cons show ?case by simp
qed

section \<open>Sums over a dictionary\<close>

lemma fold_add_sum_list:
  fixes a :: "'a::comm_monoid_add"
  shows "fold (\<lambda>x acc. acc + f x) xs a = a + sum_list (map f xs)"
  by (induction xs arbitrary: a) (simp_all add: add.assoc)

lemma sum_list_dict_sum:
  fixes f :: "'k \<Rightarrow> 'v \<Rightarrow> 'a::comm_monoid_add"
  assumes "dict_wf d"
  shows "(\<Sum>(k, v)\<leftarrow>d. f k v) = (\<Sum>k\<in>dom (map_of d). f k (the (map_of d k)))"
proof -
  from assms have keys: "distinct (map fst d)"
    by (simp add: dict_wf_def)
  have "(\<Sum>(k, v)\<leftarrow>d. f k v) = (\<Sum>k\<leftarrow>map fst d. f k (the (map_of d k)))"
    using keys by (auto simp: comp_def intro!: arg_cong [where f = sum_list])
  also have "\<dots> = (\<Sum>k\<in>set (map fst d). f k (the (map_of d k)))"
    using keys by (rule sum_list_distinct_conv_sum_set)
  finally show ?thesis
    by (simp add: dom_map_of_conv_image_fst)
qed

lemma sum_list_bounds:
  fixes f :: "'a \<Rightarrow> score"
  assumes "\<And>x. x \<in> set xs \<Longrightarrow> 0 \<le> f x \<and> f x \<le> c"
  shows "0 \<le> sum_list (map f xs) \<and> sum_list (map f xs) \<le> of_nat (length xs) * c"
  using assms by (induction xs) (auto simp: algebra_simps intro: add_mono)

lemma sum_list_less_iff:
  fixes f g :: "'a \<Rightarrow> score"
  assumes "\<And>x. x \<in> set xs \<Longrightarrow> f x \<le> g x"
  shows "sum_list (map f xs) \<le> sum_list (map g xs)
     \<and> (sum_list (map f xs) < sum_list (map g xs) \<longleftrightarrow> (\<exists>x \<in> set xs. f x < g x))"
  using assms
proof (induction xs)
  case Nil
  show ?case by simp
next
  case (Cons a xs)
  then have "f a \<le> g a" and "sum_list (map f xs) \<le> sum_list (map g xs)"
    and "sum_list (map f xs) < sum_list (map g xs) \<longleftrightarrow> (\<exists>x \<in> set xs. f x < g x)"
    by simp_all
  then show ?case
    by (auto simp: add_mono add_le_less_mono add_less_le_mono)
qed

section \<open>The descending stable sort\<close>

lemma mset_py_sorted_reverse [simp]: "mset (py_sorted_reverse key xs) = mset xs"
  by (simp add: py_sorted_reverse_def)

lemma set_py_sorted_reverse [simp]: "set (py_sorted_reverse key xs) = set xs"
  by (simp add: py_sorted_reverse_def)

lemma length_py_sorted_reverse [simp]: "length (py_sorted_reverse key xs) = length xs"
  by (simp add: py_sorted_reverse_def)

lemma py_sorted_reverse_Nil [simp]: "py_sorted_reverse key [] = []"
  by (simp add: py_sorted_reverse_def)

lemma distinct_map_py_sorted_reverse [simp]:
  "distinct (map f (py_sorted_reverse key xs)) \<longleftrightarrow> distinct (map f xs)"
  by (rule mset_eq_imp_distinct_iff) simp

lemma sorted_py_sorted_reverse:
  "sorted_wrt (\<lambda>x y. key y \<le> key x) (py_sorted_reverse key xs)"
proof -
  have "sorted_wrt (\<lambda>x y. key x \<le> key y) (sort_key key (rev xs))"
    using sorted_sort_key [of key "rev xs"] by (simp add: sorted_wrt_map)
  then show ?thesis
    by (simp add: py_sorted_reverse_def sorted_wrt_rev)
qed

lemma stable_py_sorted_reverse:
  "filter (\<lambda>y. key y = k) (py_sorted_reverse key xs) = filter (\<lambda>y. key y = k) xs"
  by (simp add: py_sorted_reverse_def sort_key_stable flip: rev_filter)

lemma py_sorted_reverse_id:
  "sorted_wrt (\<lambda>x y. key y \<le> key x) xs \<Longrightarrow> py_sorted_reverse key xs = xs"
proof -
  assume "sorted_wrt (\<lambda>x y. key y \<le> key x) xs"
  then have "sorted (map key (rev xs))"
    by (simp add: sorted_wrt_map sorted_wrt_rev flip: rev_map)
  then have "sort_key key (rev xs) = rev xs"
    by (rule sort_key_id_if_sorted)
  then show ?thesis
    by (simp add: py_sorted_reverse_def)
qed

section \<open>Stripping and widgets\<close>

lemma is_space_simps [simp]:
  "is_space CHR '' ''" "is_space CHR 0x0A" "is_space CHR 0x09"
  by (simp_all add: is_space_def)

lemma py_strip_Nil [simp]: "py_strip [] = []"
  by (simp add: py_strip_def)

lemma dropWhile_all_iff: "(\<forall>x\<in>set (dropWhile P s). P x) \<longleftrightarrow> dropWhile P s = []"
  by (metis dropWhile_eq_Nil_conv dropWhile_idem)

lemma py_strip_eq_Nil_iff: "py_strip s = [] \<longleftrightarrow> (\<forall>c \<in> set s. is_space c)"
  by (simp add: py_strip_def dropWhile_all_iff)

lemma py_strip_ends:
  assumes "py_strip s \<noteq> []"
  shows "\<not> is_space (hd (py_strip s))" and "\<not> is_space (last (py_strip s))"
proof -
  show "\<not> is_space (hd (py_strip s))"
    by (metis (no_types, lifting) assms dropWhile_eq_Nil_conv dropWhile_last hd_dropWhile
        last_rev py_strip_def py_strip_eq_Nil_iff rev_swap)
  from assms have "dropWhile is_space (rev (dropWhile is_space s)) \<noteq> []"
    by (simp add: py_strip_def)
  then have "\<not> is_space (hd (dropWhile is_space (rev (dropWhile is_space s))))"
    by (rule hd_dropWhile)
  then show "\<not> is_space (last (py_strip s))"
    by (simp add: py_strip_def last_rev)
qed

lemma py_strip_no_space:
  "s \<noteq> [] \<Longrightarrow> \<not> is_space (hd s) \<Longrightarrow> \<not> is_space (last s) \<Longrightarrow> py_strip s = s"
  by (metis dropWhile_eq_self_iff hd_rev py_strip_def rev_swap)

lemma py_strip_idem [simp]: "py_strip (py_strip s) = py_strip s"
  by (cases "py_strip s = []") (simp_all add: py_strip_no_space py_strip_ends)

lemma widget_value_simps [simp]:
  "widget_value None d = d" "widget_value (Some x) d = x"
  by (simp_all add: widget_value_def)

section \<open>Clamping\<close>

lemma clamp01_in_unit [simp]: "in_unit (clamp01 x)"
  by (simp add: clamp01_def in_unit_def)

lemma clamp01_id [simp]: "in_unit x \<Longrightarrow> clamp01 x = x"
  by (simp add: clamp01_def in_unit_def)

lemma clamp01_cases:
  "clamp01 x = (if x < 0 then 0 else if 1 < x then 1 else x)"
  by (simp add: clamp01_def)

lemma clamp01_mono: "x \<le> y \<Longrightarrow> clamp01 x \<le> clamp01 y"
  by (auto simp: clamp01_def max_def min_def)

section \<open>Truncation\<close>

lemma py_int_of_int [simp]: "py_int (of_int n) = n"
  by (simp add: py_int_def)

lemma py_int_tenths [simp]: "py_int (of_int n / 10 * 10) = n"
  by (simp add: py_int_def)

lemma py_int_times_ten [simp]: "py_int (of_int n * 10) = 10 * n"
  using py_int_of_int [of "10 * n"] by (simp add: mult.commute)

lemma py_int_range: "0 \<le> x \<Longrightarrow> x \<le> of_int n \<Longrightarrow> 0 \<le> py_int x \<and> py_int x \<le> n"
  by (simp add: py_int_def floor_le_iff)

lemma py_int_unit: "in_unit x \<Longrightarrow> 0 \<le> py_int (x * 10) \<and> py_int (x * 10) \<le> 10"
  using py_int_range [of "x * 10" 10] by (simp add: in_unit_def)

section \<open>Rewriting the values of a dictionary in a loop over its own items\<close>

lemma dict_set_middle:
  "k \<notin> fst ` set xs \<Longrightarrow> dict_set (xs @ (k, v) # ys) k w = xs @ (k, w) # ys"
  by (induction xs) auto

lemma fold_own_items_aux:
  "distinct (map fst (pre @ suf)) \<Longrightarrow>
   fold (\<lambda>(k, v) acc. dict_set acc k (g k v)) suf (pre @ suf) = pre @ dict_remap g suf"
proof (induction suf arbitrary: pre)
  case Nil
  then show ?case by (simp add: dict_remap_def)
next
  case (Cons a suf)
  obtain k v where a: "a = (k, v)" by (cases a)
  from Cons.prems have "k \<notin> fst ` set pre" by (auto simp: a)
  then have "dict_set (pre @ (k, v) # suf) k (g k v) = (pre @ [(k, g k v)]) @ suf"
    by (simp add: dict_set_middle)
  moreover have "distinct (map fst ((pre @ [(k, g k v)]) @ suf))"
    using Cons.prems by (auto simp: a)
  ultimately show ?case
    using Cons.IH [of "pre @ [(k, g k v)]"] by (simp add: a dict_remap_def)
qed

lemma fold_own_items:
  "dict_wf d \<Longrightarrow> fold (\<lambda>(k, v) acc. dict_set acc k (g k v)) d d = dict_remap g d"
  using fold_own_items_aux [of "[]" d g] by (simp add: dict_wf_def)

lemma keys_dict_remap [simp]: "dict_keys (dict_remap g d) = dict_keys d"
  by (simp add: dict_remap_def case_prod_unfold)

lemma dict_wf_remap [simp]: "dict_wf (dict_remap g d) = dict_wf d"
  by (simp add: dict_wf_def)

lemma map_of_dict_remap: "map_of (dict_remap g d) k = map_option (g k) (map_of d k)"
  by (induction d) (auto simp: dict_remap_def)

lemma dict_remap_Nil [simp]: "dict_remap g [] = []"
  by (simp add: dict_remap_def)

lemma dict_remap_Cons [simp]: "dict_remap g ((k, v) # d) = (k, g k v) # dict_remap g d"
  by (simp add: dict_remap_def)

lemma fold_items_into_aux:
  "distinct (map fst acc @ map fst d) \<Longrightarrow>
   fold (\<lambda>(k, v) acc. dict_set acc k (g k v)) d acc = acc @ dict_remap g d"
proof (induction d arbitrary: acc)
  case Nil
  then show ?case by simp
next
  case (Cons a d)
  obtain k v where a: "a = (k, v)" by (cases a)
  from Cons.prems have "k \<notin> fst ` set acc" by (auto simp: a)
  then have "dict_set acc k (g k v) = acc @ [(k, g k v)]"
    by (rule dict_set_absent)
  moreover have "distinct (map fst (acc @ [(k, g k v)]) @ map fst d)"
    using Cons.prems by (auto simp: a)
  ultimately show ?case
    using Cons.IH [of "acc @ [(k, g k v)]"] by (simp add: a)
qed

lemma fold_items_into_empty:
  "dict_wf d \<Longrightarrow> fold (\<lambda>(k, v) acc. dict_set acc k (g k v)) d [] = dict_remap g d"
  using fold_items_into_aux [of "[]" d g] by (simp add: dict_wf_def)

lemma dict_remap_values:
  "(k, w) \<in> set (dict_remap g d) \<longleftrightarrow> (\<exists>v. (k, v) \<in> set d \<and> w = g k v)"
  by (auto simp: dict_remap_def)

lemma dict_remap_remap: "dict_remap g (dict_remap h d) = dict_remap (\<lambda>k v. g k (h k v)) d"
  by (simp add: dict_remap_def case_prod_unfold)

lemma dict_remap_id: "(\<And>k v. (k, v) \<in> set d \<Longrightarrow> g k v = v) \<Longrightarrow> dict_remap g d = d"
  by (induction d) auto

end
