(* ===== verification/Profile.thy ===== *)
theory Profile
  imports Prelude
begin

text \<open>
  The data model: a profile as the application reads it from JSON, the venue collection,
  and the invariants the specification states for them.

  A profile is a dictionary with up to three sections, \<open>"scalars"\<close>, \<open>"tags"\<close> and
  \<open>"categoricals"\<close>. The code never subscripts a section directly when it reads a profile:
  it writes \<open>profile.get("tags", {})\<close>, so a profile may lack a section. The record keeps
  that: a field is \<open>None\<close> for an absent section, and \<open>get_tags p\<close> is the section or the
  empty dictionary. \<open>empty_sections\<close> is the literal the scenario view and the venue
  manager start from.

  \<open>wf_profile\<close> collects the invariants of the specified data model: unique keys in
  every section, scalar values in \<open>[0, 1]\<close>, tag flags \<open>0\<close> or \<open>1\<close>, selections without
  repeated options. No function of the program checks them; the theorems say which
  operation needs which part, and which operations establish or break them.
\<close>

section \<open>Profiles and venue collections\<close>

record profile =
  scalars :: "(string, score) dict option"
  tags :: "(string, int) dict option"
  categoricals :: "(string, string list) dict option"

type_synonym venues = "(string, profile) dict"

definition empty_sections :: profile where
  "empty_sections = \<lparr>scalars = Some [], tags = Some [], categoricals = Some []\<rparr>"

abbreviation get_scalars :: "profile \<Rightarrow> (string, score) dict" where
  "get_scalars p \<equiv> section_or_empty (scalars p)"

abbreviation get_tags :: "profile \<Rightarrow> (string, int) dict" where
  "get_tags p \<equiv> section_or_empty (tags p)"

abbreviation get_categoricals :: "profile \<Rightarrow> (string, string list) dict" where
  "get_categoricals p \<equiv> section_or_empty (categoricals p)"

section \<open>Invariants of the data model\<close>

definition wf_scalars :: "(string, score) dict \<Rightarrow> bool" where
  "wf_scalars d \<longleftrightarrow> dict_wf d \<and> list_all (\<lambda>(k, v). in_unit v) d"

definition wf_tags :: "(string, int) dict \<Rightarrow> bool" where
  "wf_tags d \<longleftrightarrow> dict_wf d \<and> list_all (\<lambda>(k, v). v = 0 \<or> v = 1) d"

definition wf_categoricals :: "(string, string list) dict \<Rightarrow> bool" where
  "wf_categoricals d \<longleftrightarrow> dict_wf d \<and> list_all (\<lambda>(k, vs). distinct vs) d"

definition wf_profile :: "profile \<Rightarrow> bool" where
  "wf_profile p \<longleftrightarrow>
     wf_scalars (get_scalars p) \<and> wf_tags (get_tags p) \<and> wf_categoricals (get_categoricals p)"

definition wf_venues :: "venues \<Rightarrow> bool" where
  "wf_venues vs \<longleftrightarrow> dict_wf vs \<and> list_all (\<lambda>(name, p). wf_profile p) vs"

section \<open>Evaluation and structure of the invariants\<close>

lemma wf_scalars_Nil [simp, wf_intros]: "wf_scalars []"
  by (simp add: wf_scalars_def)

lemma wf_tags_Nil [simp, wf_intros]: "wf_tags []"
  by (simp add: wf_tags_def)

lemma wf_categoricals_Nil [simp, wf_intros]: "wf_categoricals []"
  by (simp add: wf_categoricals_def)

lemma wf_scalars_Cons [simp]:
  "wf_scalars ((k, v) # d) \<longleftrightarrow> k \<notin> fst ` set d \<and> in_unit v \<and> wf_scalars d"
  by (auto simp: wf_scalars_def)

lemma wf_tags_Cons [simp]:
  "wf_tags ((k, v) # d) \<longleftrightarrow> k \<notin> fst ` set d \<and> (v = 0 \<or> v = 1) \<and> wf_tags d"
  by (auto simp: wf_tags_def)

lemma wf_categoricals_Cons [simp]:
  "wf_categoricals ((k, vs) # d) \<longleftrightarrow> k \<notin> fst ` set d \<and> distinct vs \<and> wf_categoricals d"
  by (auto simp: wf_categoricals_def)

lemma wf_venues_Nil [simp, wf_intros]: "wf_venues []"
  by (simp add: wf_venues_def)

lemma wf_venues_Cons [simp]:
  "wf_venues ((name, p) # vs) \<longleftrightarrow> name \<notin> fst ` set vs \<and> wf_profile p \<and> wf_venues vs"
  by (auto simp: wf_venues_def)

lemma wf_empty_sections [simp, wf_intros]: "wf_profile empty_sections"
  by (simp add: wf_profile_def empty_sections_def)

lemma wf_scalarsD:
  "wf_scalars d \<Longrightarrow> dict_wf d"
  "wf_scalars d \<Longrightarrow> (k, v) \<in> set d \<Longrightarrow> in_unit v"
  by (auto simp: wf_scalars_def list_all_iff)

lemma wf_categoricalsD:
  "wf_categoricals d \<Longrightarrow> dict_wf d"
  "wf_categoricals d \<Longrightarrow> (k, vs) \<in> set d \<Longrightarrow> distinct vs"
  by (auto simp: wf_categoricals_def list_all_iff)

lemma wf_tagsD:
  "wf_tags d \<Longrightarrow> dict_wf d"
  "wf_tags d \<Longrightarrow> (k, v) \<in> set d \<Longrightarrow> v = 0 \<or> v = 1"
  by (auto simp: wf_tags_def list_all_iff)

lemma wf_scalars_get: "wf_scalars d \<Longrightarrow> in_unit (dict_get d k 0)"
  by (rule dict_get_range) (simp_all add: in_unit_def wf_scalars_def)

lemma wf_venues_lookup:
  "wf_venues vs \<Longrightarrow> map_of vs name = Some p \<Longrightarrow> wf_profile p"
  by (auto simp: wf_venues_def list_all_iff dest: map_of_SomeD)

lemma wf_venues_set [wf_intros]:
  "wf_venues vs \<Longrightarrow> wf_profile p \<Longrightarrow> wf_venues (dict_set vs name p)"
proof (induction vs)
  case Nil
  then show ?case by simp
next
  case (Cons a vs)
  then show ?case
    by (cases a) (auto simp: dom_update)
qed

lemma wf_venues_pop [wf_intros]: "wf_venues vs \<Longrightarrow> wf_venues (dict_pop vs name)"
  using dict_wf_pop [of vs name]
  by (auto simp: wf_venues_def list_all_iff AList.delete_eq)

section \<open>Loops that write into one section of a profile\<close>

text \<open>
  A loop \<open>for k, v in xs: p[section][k] = g(k, v)\<close> on a profile is the same loop on the
  section.
\<close>

lemma fold_scalars_section:
  "fold (\<lambda>(k, v) p. p\<lparr>scalars := Some (dict_set (get_scalars p) k (g k v))\<rparr>) xs p
     = (if xs = [] then p
        else p\<lparr>scalars := Some (fold (\<lambda>(k, v) d. dict_set d k (g k v)) xs (get_scalars p))\<rparr>)"
  by (induction xs arbitrary: p) (auto simp: case_prod_unfold)

lemma fold_tags_section:
  "fold (\<lambda>(k, v) p. p\<lparr>tags := Some (dict_set (get_tags p) k (g k v))\<rparr>) xs p
     = (if xs = [] then p
        else p\<lparr>tags := Some (fold (\<lambda>(k, v) d. dict_set d k (g k v)) xs (get_tags p))\<rparr>)"
  by (induction xs arbitrary: p) (auto simp: case_prod_unfold)

lemma fold_categoricals_section:
  "fold (\<lambda>(k, v) p. p\<lparr>categoricals := Some (dict_set (get_categoricals p) k (g k v))\<rparr>) xs p
     = (if xs = [] then p
        else p\<lparr>categoricals :=
               Some (fold (\<lambda>(k, v) d. dict_set d k (g k v)) xs (get_categoricals p))\<rparr>)"
  by (induction xs arbitrary: p) (auto simp: case_prod_unfold)

lemmas fold_sections = fold_scalars_section fold_tags_section fold_categoricals_section

end
