(* ===== verification/Legacy_Match.thy ===== *)
theory Legacy_Match
  imports Profile
begin

text \<open>
  The flat scoring of \<open>affinari_match.py\<close> and \<open>streamlit_app.py\<close>. Both scripts hold the
  same three steps over a profile without sections, a dictionary from trait to number:

  \<^item> \<open>session_profile\<close>: every trait of the base profile, its value plus the context
    modifier of that trait (\<open>0\<close> when the modifier names no such trait), clamped into
    \<open>[0, 1]\<close> by \<open>max(0.0, min(1.0, x))\<close>;
  \<^item> \<open>match_score_flat\<close>: the sum over the traits of the user profile of the user's
    value times the venue's value, \<open>0\<close> for a trait the venue lacks (the scripts call it
    \<open>match_score\<close>, the name \<open>bu1.py\<close> gives to the sectioned function);
  \<^item> \<open>score_all\<close> and \<open>rank_flat\<close>: one pair (name, score) per venue, every venue
    included, sorted by score in descending order.

  \<open>slider_modifier\<close> is the loop of \<open>streamlit_app.py\<close> that builds the context modifier
  from one slider per trait of the base profile; what the user set the slider of a trait
  to is an argument of the model, and the widget keeps it between \<open>-1\<close> and \<open>1\<close>.
  The scripts as whole runs, with the files they read and the rounding of the printed
  values, are in \<open>Legacy_Scripts\<close>.
\<close>

section \<open>The code\<close>

definition session_profile ::
  "(string, score) dict \<Rightarrow> (string, score) dict \<Rightarrow> (string, score) dict" where
  "session_profile base_profile context_modifier =
     map (\<lambda>k. (k, clamp01 (the (map_of base_profile k) + dict_get context_modifier k 0)))
       (dict_keys base_profile)"

definition slider_modifier ::
  "(string, score) dict \<Rightarrow> (string \<Rightarrow> score) \<Rightarrow> (string, score) dict" where
  "slider_modifier base_profile slider =
     fold (\<lambda>(k, v) context_modifier. dict_set context_modifier k (slider k)) base_profile []"

definition match_score_flat :: "(string, score) dict \<Rightarrow> (string, score) dict \<Rightarrow> score" where
  "match_score_flat user_profile venue_profile =
     (\<Sum>k\<leftarrow>dict_keys user_profile. the (map_of user_profile k) * dict_get venue_profile k 0)"

fun score_all ::
  "(string, score) dict \<Rightarrow> (string, (string, score) dict) dict \<Rightarrow> (string \<times> score) list
     \<Rightarrow> (string \<times> score) list" where
  "score_all sp [] scores = scores"
| "score_all sp ((name, profile) # rest) scores =
     score_all sp rest (scores @ [(name, match_score_flat sp profile)])"

definition rank_flat ::
  "(string, score) dict \<Rightarrow> (string, (string, score) dict) dict \<Rightarrow> (string \<times> score) list" where
  "rank_flat sp venues = py_sorted_reverse snd (score_all sp venues [])"

section \<open>Example data\<close>

definition ex_flat_user :: "(string, score) dict" where
  "ex_flat_user = [(''ambiance'', 8/10), (''price'', 5/10)]"

definition ex_flat_venues :: "(string, (string, score) dict) dict" where
  "ex_flat_venues = [(''B'', [(''ambiance'', 3/10), (''price'', 1)]),
     (''A'', [(''ambiance'', 1), (''price'', 2/10)])]"

section \<open>The session profile\<close>

lemma the_map_of_key:
  "dict_wf d \<Longrightarrow> (k, v) \<in> set d \<Longrightarrow> the (map_of d k) = v"
  by (simp add: dict_wf_def)

lemma session_profile_items:
  assumes "dict_wf base"
  shows "session_profile base modifier
           = map (\<lambda>(k, v). (k, clamp01 (v + dict_get modifier k 0))) base"
  unfolding session_profile_def map_map
  by (rule map_cong) (auto simp: the_map_of_key [OF assms])

lemma keys_session_profile [simp]:
  "dict_keys (session_profile base modifier) = dict_keys base"
  by (simp add: session_profile_def comp_def)

lemma session_profile_values:
  "(k, v) \<in> set (session_profile base modifier) \<Longrightarrow> in_unit v"
  by (auto simp: session_profile_def)

lemma session_profile_get:
  assumes "dict_wf base" and "(k, v) \<in> set base"
  shows "dict_get (session_profile base modifier) k 0 = clamp01 (v + dict_get modifier k 0)"
proof -
  have "dict_wf (session_profile base modifier)"
    by (simp add: dict_wf_def) (use assms(1) in \<open>simp add: dict_wf_def\<close>)
  moreover have "(k, clamp01 (v + dict_get modifier k 0)) \<in> set (session_profile base modifier)"
    using assms by (force simp: session_profile_items)
  ultimately show ?thesis
    by (rule dict_get_present)
qed

section \<open>The slider loop\<close>

lemma map_of_fold_dict_set:
  "map_of (fold (\<lambda>(k, v) m. dict_set m k (f k)) d acc) k
     = (if k \<in> fst ` set d then Some (f k) else map_of acc k)"
  by (induction d arbitrary: acc) (auto simp: update_conv')

lemma dict_wf_fold_dict_set:
  "dict_wf acc \<Longrightarrow> dict_wf (fold (\<lambda>(k, v) m. dict_set m k (f k)) d acc)"
  by (induction d arbitrary: acc) (auto simp: dict_wf_set)

lemma slider_modifier_get:
  "dict_get (slider_modifier base slider) k 0 = (if k \<in> fst ` set base then slider k else 0)"
  by (simp add: slider_modifier_def dict_get_def map_of_fold_dict_set)

section \<open>The flat score\<close>

lemma match_score_flat_items:
  assumes "dict_wf user"
  shows "match_score_flat user venue = (\<Sum>(k, v)\<leftarrow>user. v * dict_get venue k 0)"
  unfolding match_score_flat_def map_map
  by (rule arg_cong [where f = sum_list], rule map_cong)
     (auto simp: the_map_of_key [OF assms])

lemma score_all_eq:
  "score_all sp venues scores
     = scores @ map (\<lambda>(name, profile). (name, match_score_flat sp profile)) venues"
  by (induction sp venues scores rule: score_all.induct) simp_all

lemma names_score_all: "map fst (score_all sp venues []) = dict_keys venues"
  by (simp add: score_all_eq case_prod_unfold comp_def)

lemma rank_flat_eq:
  "rank_flat sp venues
     = py_sorted_reverse snd (map (\<lambda>(name, profile). (name, match_score_flat sp profile)) venues)"
  by (simp add: rank_flat_def score_all_eq)

lemma ex_flat_scores:
  "score_all ex_flat_user ex_flat_venues [] = [(''B'', 37/50), (''A'', 9/10)]"
  by (simp add: ex_flat_user_def ex_flat_venues_def match_score_flat_def)

lemma ex_rank_flat: "rank_flat ex_flat_user ex_flat_venues = [(''A'', 9/10), (''B'', 37/50)]"
  by (simp add: rank_flat_def ex_flat_scores py_sorted_reverse_def)

section \<open>Properties of the flat scoring\<close>

text \<open>C35. Clamping establishes the scalar invariant: whatever numbers the base profile
  and the context modifier hold, the session profile has the traits of the base profile,
  in the same order, each with a value in \<open>[0, 1]\<close>; with unique traits in the base
  profile it is a well-formed scalar section.\<close>

theorem session_profile_wf:
  assumes "dict_wf base"
  shows "wf_scalars (session_profile base modifier)
         \<and> dict_keys (session_profile base modifier) = dict_keys base"
  using assms session_profile_values [of _ _ base modifier]
  by (auto simp: wf_scalars_def dict_wf_def list_all_iff)

theorem session_profile_wf_witness:
  "session_profile [(''ambiance'', 8/10), (''price'', 5/10), (''noise'', 3/10)]
     [(''ambiance'', 1/2), (''noise'', -1), (''view'', 1)]
     = [(''ambiance'', 1), (''price'', 1/2), (''noise'', 0)]
   \<and> wf_scalars [(''ambiance'', 1), (''price'', 1/2), (''noise'', 0)]"
  using session_profile_wf [of "[(''ambiance'', 8/10), (''price'', 5/10), (''noise'', 3/10)]"
      "[(''ambiance'', 1/2), (''noise'', -1), (''view'', 1)]"]
  by (simp add: session_profile_def clamp01_def)

text \<open>The value of a session trait: with unique traits in the base profile, the
  session value of a trait is the base value plus its modifier, cut to \<open>0\<close> below and to
  \<open>1\<close> above; a modifier for a trait the base profile lacks has no effect, and a base
  profile in range with no modifier is the session profile.\<close>

theorem session_profile_value:
  assumes "dict_wf base" and "(k, v) \<in> set base"
  shows "dict_get (session_profile base modifier) k 0
           = (let x = v + dict_get modifier k 0 in if x < 0 then 0 else if 1 < x then 1 else x)
         \<and> (k' \<notin> fst ` set base \<longrightarrow> dict_get (session_profile base modifier) k' 0 = 0)
         \<and> (wf_scalars base \<longrightarrow> session_profile base [] = base)"
proof -
  have "session_profile base [] = base" if "wf_scalars base"
    unfolding session_profile_items [OF assms(1)]
    by (rule map_idI) (auto dest: wf_scalarsD(2) [OF that])
  moreover have "dict_get (session_profile base modifier) k' 0 = 0" if "k' \<notin> fst ` set base"
    using that by (intro dict_get_absent) (simp add: session_profile_def image_iff)
  ultimately show ?thesis
    by (simp add: session_profile_get [OF assms] clamp01_cases Let_def)
qed

theorem session_profile_value_witness:
  "dict_get (session_profile ex_flat_user [(''price'', 7/10)]) ''price'' 0 = 1
   \<and> dict_get (session_profile ex_flat_user [(''price'', 7/10)]) ''view'' 0 = 0
   \<and> session_profile ex_flat_user [] = ex_flat_user"
  using session_profile_value [of ex_flat_user "''price''" "5/10" "[(''price'', 7/10)]" "''view''"]
  by (simp add: ex_flat_user_def in_unit_def)

text \<open>The slider loop of the context explorer: the modifier it builds has exactly
  the traits of the base profile, and with unique traits the session value of a trait is
  its base value plus the position of its slider, clamped.\<close>

theorem slider_session_value:
  assumes "dict_wf base" and "(k, v) \<in> set base"
  shows "dict_get (session_profile base (slider_modifier base slider)) k 0
           = clamp01 (v + slider k)
         \<and> fst ` set (slider_modifier base slider) = fst ` set base
         \<and> dict_wf (slider_modifier base slider)"
proof -
  have "k \<in> fst ` set base"
    using assms(2) by force
  moreover have "fst ` set (slider_modifier base slider) = fst ` set base"
    using map_of_fold_dict_set [of slider base "[]"]
    by (auto simp: slider_modifier_def simp flip: dom_map_of_conv_image_fst
        split: if_splits)
  ultimately show ?thesis
    by (simp add: session_profile_get [OF assms] slider_modifier_get)
       (simp add: slider_modifier_def dict_wf_fold_dict_set)
qed

theorem slider_session_value_witness:
  "dict_get (session_profile ex_flat_user
      (slider_modifier ex_flat_user (\<lambda>k. if k = ''price'' then - 1 else 1/10))) ''ambiance'' 0
     = 9/10
   \<and> dict_get (session_profile ex_flat_user
      (slider_modifier ex_flat_user (\<lambda>k. if k = ''price'' then - 1 else 1/10))) ''price'' 0
     = 0"
  using slider_session_value [of ex_flat_user "''ambiance''" "8/10"
      "\<lambda>k. if k = ''price'' then - 1 else 1/10"]
    slider_session_value [of ex_flat_user "''price''" "5/10"
      "\<lambda>k. if k = ''price'' then - 1 else 1/10"]
  by (simp add: ex_flat_user_def clamp01_def)

text \<open>The flat ranking lists every venue: it holds exactly one pair per venue of the
  collection, the venue's name with its flat score, in descending order of score, equal
  scores in the order of the collection. No venue is ever left out.\<close>

theorem rank_flat_total:
  "mset (rank_flat sp venues)
     = mset (map (\<lambda>(name, profile). (name, match_score_flat sp profile)) venues)
   \<and> sorted_wrt (\<lambda>x y. snd y \<le> snd x) (rank_flat sp venues)
   \<and> map fst (filter (\<lambda>x. snd x = s) (rank_flat sp venues))
       = map fst (filter (\<lambda>(name, profile). match_score_flat sp profile = s) venues)"
proof -
  have "map fst (filter (\<lambda>x. snd x = s)
          (map (\<lambda>(name, profile). (name, match_score_flat sp profile)) venues))
      = map fst (filter (\<lambda>(name, profile). match_score_flat sp profile = s) venues)"
    by (induction venues) auto
  then show ?thesis
    by (simp add: rank_flat_eq stable_py_sorted_reverse sorted_py_sorted_reverse)
qed

theorem rank_flat_total_witness:
  "mset [(''A'', 9/10 :: score), (''B'', 37/50)] = mset [(''B'', 37/50), (''A'', 9/10)]
   \<and> sorted_wrt (\<lambda>x y. snd y \<le> snd x) [(''A'', 9/10 :: score), (''B'', 37/50)]"
  using rank_flat_total [of ex_flat_user ex_flat_venues]
  by (simp add: ex_rank_flat) (simp add: ex_flat_user_def ex_flat_venues_def match_score_flat_def)

end
