(* ===== verification/Storage.thy ===== *)
theory Storage
  imports Profile
begin

text \<open>
  The JSON files of the application and the functions of \<open>helpers.py\<close> that read and
  write them.

  The code names its files by literal paths and expects a fixed shape in each. The model
  is a record \<open>store\<close> with one field per file, of the type the code reads from it, and
  \<open>None\<close> for a file that does not exist. \<open>load_json\<close> takes the slot of the file: a
  missing file is the \<open>FileNotFoundError\<close> that \<open>open\<close> raises, returned as a value.
  \<open>save_json\<close> returns the content of the slot after the write. The three option
  loaders are \<open>load_json\<close> at their file.

  Files whose content is not JSON of the expected shape are outside the model.
\<close>

section \<open>Errors and the store\<close>

datatype error = File_Not_Found string

record store =
  venues_json :: "venues option"
  scalars_json :: "string list option"
  tags_json :: "string list option"
  categoricals_json :: "(string, string list) dict option"

section \<open>helpers.py\<close>

definition load_json :: "string \<Rightarrow> 'a option \<Rightarrow> error + 'a" where
  "load_json filename slot =
     (case slot of None \<Rightarrow> Inl (File_Not_Found filename) | Some data \<Rightarrow> Inr data)"

definition save_json :: "string \<Rightarrow> 'a \<Rightarrow> 'a option" where
  "save_json filename data = Some data"

definition load_categorical_options :: "store \<Rightarrow> error + (string, string list) dict" where
  "load_categorical_options fs = load_json ''categoricals.json'' (categoricals_json fs)"

definition load_scalar_traits :: "store \<Rightarrow> error + string list" where
  "load_scalar_traits fs = load_json ''scalars.json'' (scalars_json fs)"

definition load_tag_options :: "store \<Rightarrow> error + string list" where
  "load_tag_options fs = load_json ''tags.json'' (tags_json fs)"

section \<open>Reading and writing\<close>

lemma load_json_simps [simp]:
  "load_json filename None = Inl (File_Not_Found filename)"
  "load_json filename (Some data) = Inr data"
  by (simp_all add: load_json_def)

lemma load_json_save_json [simp]: "load_json filename (save_json filename data) = Inr data"
  by (simp add: save_json_def)

lemma load_json_Inr_iff: "load_json filename slot = Inr data \<longleftrightarrow> slot = Some data"
  by (cases slot) simp_all

lemma load_json_Inl_iff:
  "load_json filename slot = Inl e \<longleftrightarrow> slot = None \<and> e = File_Not_Found filename"
  by (cases slot) auto

lemmas loaders_def =
  load_categorical_options_def load_scalar_traits_def load_tag_options_def

end
