(* ===== verification/Legacy_Scripts.thy ===== *)
theory Legacy_Scripts
  imports Legacy_Match Storage
begin

text \<open>
  The two flat scripts as whole runs. \<open>affinari_match.py\<close> reads \<open>base_profile.json\<close>,
  \<open>context_modifier.json\<close> and \<open>venues.json\<close>, and prints the session profile rounded to
  two decimals and every venue with its score, best first. \<open>streamlit_app.py\<close> reads
  \<open>base_profile.json\<close> and \<open>venues.json\<close>, takes the context modifier from one slider per
  trait, and shows the same two things. A run is a function from the files (and the
  sliders) to what is shown, or to the error of the first file that is missing.

  \<open>py_round\<close> is \<open>round(x, ndigits)\<close> on exact numbers: the nearest multiple of
  \<open>10 ^ -ndigits\<close>, the even one of two that are equally near. The scores are shown
  with \<open>:.2f\<close>; that formatting is left out and the output holds the scores themselves.
\<close>

section \<open>Files and output\<close>

record legacy_files =
  flat_base_profile_json :: "(string, score) dict option"
  context_modifier_json :: "(string, score) dict option"
  flat_venues_json :: "(string, (string, score) dict) dict option"

record flat_output =
  session_shown :: "(string, score) dict"
  scores_shown :: "(string \<times> score) list"

section \<open>The code\<close>

definition round_half_even :: "score \<Rightarrow> int" where
  "round_half_even x =
     (let f = \<lfloor>x\<rfloor>; r = x - of_int f
      in if r < 1/2 then f else if 1/2 < r then f + 1 else if even f then f else f + 1)"

definition py_round :: "score \<Rightarrow> nat \<Rightarrow> score" where
  "py_round x ndigits = of_int (round_half_even (x * 10 ^ ndigits)) / 10 ^ ndigits"

definition rounded_profile :: "(string, score) dict \<Rightarrow> (string, score) dict" where
  "rounded_profile sp = map (\<lambda>(k, v). (k, py_round v 2)) sp"

definition comprehension_scores ::
  "(string, score) dict \<Rightarrow> (string, (string, score) dict) dict \<Rightarrow> (string \<times> score) list" where
  "comprehension_scores sp venues =
     map (\<lambda>(name, profile). (name, match_score_flat sp profile)) venues"

definition affinari_match_script :: "legacy_files \<Rightarrow> error + flat_output" where
  "affinari_match_script fs =
     (case load_json ''base_profile.json'' (flat_base_profile_json fs) of
        Inl e \<Rightarrow> Inl e
      | Inr base_profile \<Rightarrow>
     (case load_json ''context_modifier.json'' (context_modifier_json fs) of
        Inl e \<Rightarrow> Inl e
      | Inr context_modifier \<Rightarrow>
     let session_profile = session_profile base_profile context_modifier
     in case load_json ''venues.json'' (flat_venues_json fs) of
          Inl e \<Rightarrow> Inl e
        | Inr venues \<Rightarrow>
            Inr \<lparr>session_shown = rounded_profile session_profile,
                 scores_shown = py_sorted_reverse snd (score_all session_profile venues [])\<rparr>))"

definition streamlit_app_script ::
  "legacy_files \<Rightarrow> (string \<rightharpoonup> score) \<Rightarrow> error + flat_output" where
  "streamlit_app_script fs sliders =
     (case load_json ''base_profile.json'' (flat_base_profile_json fs) of
        Inl e \<Rightarrow> Inl e
      | Inr base_profile \<Rightarrow>
     (case load_json ''venues.json'' (flat_venues_json fs) of
        Inl e \<Rightarrow> Inl e
      | Inr venues \<Rightarrow>
     let context_modifier = slider_modifier base_profile (\<lambda>k. widget_value (sliders k) 0);
         session_profile = session_profile base_profile context_modifier;
         scores = comprehension_scores session_profile venues;
         scores = py_sorted_reverse snd scores
     in Inr \<lparr>session_shown = rounded_profile session_profile, scores_shown = scores\<rparr>))"

section \<open>Example files\<close>

definition ex_legacy_files :: legacy_files where
  "ex_legacy_files = \<lparr>flat_base_profile_json = Some [(''ambiance'', 4/5), (''price'', 131/200)],
     context_modifier_json = Some [(''price'', - 1/10), (''view'', 1)],
     flat_venues_json = Some ex_flat_venues\<rparr>"

lemmas legacy_eval = affinari_match_script_def streamlit_app_script_def rounded_profile_def
  comprehension_scores_def py_round_def round_half_even_def session_profile_def
  slider_modifier_def match_score_flat_def clamp01_def py_sorted_reverse_def Let_def

section \<open>Rounding\<close>

lemma round_half_even_of_int [simp]: "round_half_even (of_int n) = n"
  by (simp add: round_half_even_def)

lemma round_half_even_near: "\<bar>of_int (round_half_even x) - x\<bar> \<le> 1/2"
proof -
  have "of_int \<lfloor>x\<rfloor> \<le> x" "x < of_int \<lfloor>x\<rfloor> + 1"
    by linarith+
  then show ?thesis
    by (auto simp: round_half_even_def Let_def abs_le_iff)
qed

lemma round_half_even_mono: "x \<le> y \<Longrightarrow> round_half_even x \<le> round_half_even y"
proof -
  assume le: "x \<le> y"
  then have floors: "\<lfloor>x\<rfloor> \<le> \<lfloor>y\<rfloor>"
    by (rule floor_mono)
  show ?thesis
  proof (cases "\<lfloor>x\<rfloor> = \<lfloor>y\<rfloor>")
    case True
    with le show ?thesis
      by (auto simp: round_half_even_def Let_def)
  next
    case False
    with floors have "\<lfloor>x\<rfloor> + 1 \<le> \<lfloor>y\<rfloor>"
      by simp
    moreover have "round_half_even x \<le> \<lfloor>x\<rfloor> + 1" "\<lfloor>y\<rfloor> \<le> round_half_even y"
      by (simp_all add: round_half_even_def Let_def)
    ultimately show ?thesis
      by linarith
  qed
qed

lemma py_round_near: "\<bar>py_round x n - x\<bar> \<le> 1 / (2 * 10 ^ n)"
proof -
  have "\<bar>py_round x n - x\<bar> = \<bar>of_int (round_half_even (x * 10 ^ n)) - x * 10 ^ n\<bar> / 10 ^ n"
    by (simp add: py_round_def field_simps abs_divide flip: abs_mult)
  also have "\<dots> \<le> (1/2) / 10 ^ n"
    by (intro divide_right_mono round_half_even_near) simp
  finally show ?thesis
    by simp
qed

lemma py_round_mono: "x \<le> y \<Longrightarrow> py_round x n \<le> py_round y n"
  by (simp add: py_round_def divide_right_mono round_half_even_mono)

lemma py_round_of_int [simp]: "py_round (of_int k) n = of_int k"
proof -
  have "of_int k * 10 ^ n = (of_int (k * 10 ^ n) :: score)"
    by simp
  then show ?thesis
    unfolding py_round_def by (simp only: round_half_even_of_int) simp
qed

lemma py_round_in_unit: "in_unit x \<Longrightarrow> in_unit (py_round x n)"
  using py_round_mono [of 0 x n] py_round_mono [of x 1 n] py_round_of_int [of 0 n]
    py_round_of_int [of 1 n]
  by (simp add: in_unit_def)

lemma py_round_idem [simp]: "py_round (py_round x n) n = py_round x n"
  by (simp add: py_round_def)

lemma ex_floor: "\<lfloor>111 / 2 :: score\<rfloor> = 55"
  by (rule floor_unique) simp_all

section \<open>The two runs\<close>

lemma session_profile_cong:
  assumes "\<And>k. k \<in> set (dict_keys base) \<Longrightarrow> dict_get m k 0 = dict_get m' k 0"
  shows "session_profile base m = session_profile base m'"
  unfolding session_profile_def by (rule map_cong) (simp_all add: assms)

lemma comprehension_scores_eq: "comprehension_scores sp venues = score_all sp venues []"
  by (simp add: comprehension_scores_def score_all_eq)

lemma rounded_profile_keys [simp]: "dict_keys (rounded_profile sp) = dict_keys sp"
  by (simp add: rounded_profile_def case_prod_unfold comp_def)

lemma affinari_match_script_eq:
  assumes "flat_base_profile_json fs = Some base" and "context_modifier_json fs = Some modifier"
    and "flat_venues_json fs = Some venues"
  shows "affinari_match_script fs =
     Inr \<lparr>session_shown = rounded_profile (session_profile base modifier),
          scores_shown = rank_flat (session_profile base modifier) venues\<rparr>"
  using assms by (simp add: affinari_match_script_def rank_flat_def Let_def)

lemma streamlit_app_script_eq:
  assumes "flat_base_profile_json fs = Some base" and "flat_venues_json fs = Some venues"
  shows "streamlit_app_script fs sliders =
     (let sp = session_profile base (slider_modifier base (\<lambda>k. widget_value (sliders k) 0))
      in Inr \<lparr>session_shown = rounded_profile sp, scores_shown = rank_flat sp venues\<rparr>)"
  using assms by (simp add: streamlit_app_script_def rank_flat_def comprehension_scores_eq)

lemma affinari_match_script_Inl:
  "affinari_match_script fs = Inl e \<longleftrightarrow>
     (flat_base_profile_json fs = None \<and> e = File_Not_Found ''base_profile.json'')
     \<or> (flat_base_profile_json fs \<noteq> None \<and> context_modifier_json fs = None
         \<and> e = File_Not_Found ''context_modifier.json'')
     \<or> (flat_base_profile_json fs \<noteq> None \<and> context_modifier_json fs \<noteq> None
         \<and> flat_venues_json fs = None \<and> e = File_Not_Found ''venues.json'')"
  by (auto simp: affinari_match_script_def load_json_def Let_def split: option.splits)

lemma streamlit_app_script_Inl:
  "streamlit_app_script fs sliders = Inl e \<longleftrightarrow>
     (flat_base_profile_json fs = None \<and> e = File_Not_Found ''base_profile.json'')
     \<or> (flat_base_profile_json fs \<noteq> None \<and> flat_venues_json fs = None
         \<and> e = File_Not_Found ''venues.json'')"
  by (auto simp: streamlit_app_script_def load_json_def Let_def split: option.splits)

lemma list_all2_rounded_profile:
  "list_all2 (\<lambda>(k, v) (k', x). k' = k \<and> v = py_round x 2) (rounded_profile sp) sp"
  by (induction sp) (auto simp: rounded_profile_def)

section \<open>Properties of the flat scripts\<close>

text \<open>C34. The two flat scripts agree: when the sliders of the context explorer stand
  where \<open>context_modifier.json\<close> has its values for the traits of the base profile
  (\<open>0\<close> for a trait the file does not name; entries of the file for other traits do not
  matter), \<open>streamlit_app.py\<close> shows exactly what \<open>affinari_match.py\<close> prints: the same
  rounded session profile and the same ranking, or the same error when the venue file
  is missing.\<close>

theorem legacy_scripts_agree:
  assumes "flat_base_profile_json fs = Some base" and "context_modifier_json fs = Some modifier"
    and "list_all (\<lambda>k. widget_value (sliders k) 0 = dict_get modifier k 0) (dict_keys base)"
  shows "streamlit_app_script fs sliders = affinari_match_script fs"
proof (cases "flat_venues_json fs")
  case None
  with assms(1,2) show ?thesis
    by (simp add: affinari_match_script_def streamlit_app_script_def)
next
  case (Some venues)
  have "session_profile base (slider_modifier base (\<lambda>k. widget_value (sliders k) 0))
      = session_profile base modifier"
    using assms(3) by (intro session_profile_cong) (auto simp: slider_modifier_get list_all_iff)
  with assms(1,2) Some show ?thesis
    by (simp add: affinari_match_script_eq streamlit_app_script_eq Let_def)
qed

theorem legacy_scripts_agree_witness:
  "streamlit_app_script ex_legacy_files [''price'' \<mapsto> - 1/10]
     = Inr \<lparr>session_shown = [(''ambiance'', 4/5), (''price'', 14/25)],
          scores_shown = [(''A'', 911/1000), (''B'', 159/200)]\<rparr>
   \<and> affinari_match_script ex_legacy_files
     = Inr \<lparr>session_shown = [(''ambiance'', 4/5), (''price'', 14/25)],
          scores_shown = [(''A'', 911/1000), (''B'', 159/200)]\<rparr>"
proof -
  have "affinari_match_script ex_legacy_files
     = Inr \<lparr>session_shown = [(''ambiance'', 4/5), (''price'', 14/25)],
          scores_shown = [(''A'', 911/1000), (''B'', 159/200)]\<rparr>"
    by (simp add: ex_legacy_files_def ex_flat_venues_def legacy_eval ex_floor)
  with legacy_scripts_agree [of ex_legacy_files _ _ "[''price'' \<mapsto> - 1/10]"]
  show ?thesis
    by (simp add: ex_legacy_files_def dict_get_def)
qed

text \<open>C36. What the command-line script prints: with the three files in place the run
  succeeds; the profile it prints has the traits of the base profile in their order,
  each value a multiple of \<open>0.01\<close> in \<open>[0, 1]\<close> within \<open>0.005\<close> of the session value; the
  ranking is the flat ranking of every venue for the unrounded session profile.\<close>

theorem cli_output_rounded:
  assumes "flat_base_profile_json fs = Some base" and "context_modifier_json fs = Some modifier"
    and "flat_venues_json fs = Some venues"
  shows "\<exists>out. affinari_match_script fs = Inr out
     \<and> dict_keys (session_shown out) = dict_keys base
     \<and> list_all2 (\<lambda>(k, v) (k', x). k' = k \<and> in_unit v \<and> \<bar>v - x\<bar> \<le> 1/200 \<and> v * 100 \<in> \<int>)
           (session_shown out) (session_profile base modifier)
     \<and> scores_shown out = rank_flat (session_profile base modifier) venues"
proof -
  let ?sp = "session_profile base modifier"
  have "py_round x 2 * 100 \<in> \<int>" for x
    by (simp add: py_round_def)
  moreover have "\<bar>py_round x 2 - x\<bar> \<le> 1/200" for x
    using py_round_near [of x 2] by simp
  moreover have "in_unit (snd (?sp ! i))" if "i < length ?sp" for i
    using nth_mem [OF that] session_profile_values [of "fst (?sp ! i)" "snd (?sp ! i)" base modifier]
    by simp
  ultimately have "list_all2 (\<lambda>(k, v) (k', x). k' = k \<and> in_unit v \<and> \<bar>v - x\<bar> \<le> 1/200 \<and> v * 100 \<in> \<int>)
      (rounded_profile ?sp) ?sp"
    using list_all2_rounded_profile [of ?sp]
    by (auto simp: list_all2_conv_all_nth case_prod_unfold intro!: py_round_in_unit)
  then show ?thesis
    by (simp add: affinari_match_script_eq [OF assms])
qed

theorem cli_output_rounded_witness:
  "affinari_match_script ex_legacy_files
     = Inr \<lparr>session_shown = [(''ambiance'', 4/5), (''price'', 14/25)],
          scores_shown = [(''A'', 911/1000), (''B'', 159/200)]\<rparr>
   \<and> session_profile [(''ambiance'', 4/5), (''price'', 131/200)] [(''price'', - 1/10), (''view'', 1)]
     = [(''ambiance'', 4/5), (''price'', 111/200)]"
proof -
  have "affinari_match_script ex_legacy_files
     = Inr \<lparr>session_shown = [(''ambiance'', 4/5), (''price'', 14/25)],
          scores_shown = [(''A'', 911/1000), (''B'', 159/200)]\<rparr>"
    by (simp add: ex_legacy_files_def ex_flat_venues_def legacy_eval ex_floor)
  moreover have "session_profile [(''ambiance'', 4/5), (''price'', 131/200)]
      [(''price'', - 1/10), (''view'', 1)] = [(''ambiance'', 4/5), (''price'', 111/200)]"
    by (simp add: legacy_eval dict_get_def)
  ultimately show ?thesis
    using cli_output_rounded [of ex_legacy_files _ _ ex_flat_venues]
    by (simp add: ex_legacy_files_def)
qed

end
