(* ===== verification/Venue_Manager.thy ===== *)
theory Venue_Manager
  imports Storage
begin

text \<open>
  The vendor's screen, \<open>venue_manager.py\<close>: one run of \<open>venue_management_view\<close> as a
  function from the store and the user's input to the new store and the message shown.

  \<^item> \<open>load_venues\<close> and \<open>save_venues\<close> read and write \<open>venues.json\<close>; a missing file
    reads as the empty collection.
  \<^item> \<open>vm_input\<close> is what the user did in this run: the entry picked in the select box,
    the text typed as venue name, the sliders, check boxes and multi-selects touched,
    and the button pressed. A widget the user did not touch returns its default
    (\<open>widget_value\<close>), which the code computes from the venue being edited.
  \<^item> \<open>edit_scalars\<close>, \<open>edit_tags\<close> and \<open>edit_categoricals\<close> are the three widget loops;
    each writes one key per configured trait, tag or category into the venue data,
    creating the section when the venue lacks it (\<open>setdefault\<close>).
  \<^item> \<open>venue_management_view\<close> composes them in the order of the source. The venue data
    being edited is the object stored in the loaded collection when the picked name is a
    venue: the loops change it in place, so the collection that \<open>Save\<close> writes holds the
    edited data under the picked name too. The model writes that aliasing out
    (\<open>edited_in_place\<close>).

  The run ends with \<open>Inl\<close> of an error when an option file is missing. Otherwise it
  returns the store, changed only by \<open>Save\<close> with a name that is not blank and by
  \<open>Delete\<close> of a picked venue, and the message.
\<close>

section \<open>Input and output\<close>

datatype button = No_Button | Save_Venue | Delete_Venue

record vm_input =
  picked :: string
  name_typed :: "string option"
  sliders :: "string \<rightharpoonup> score"
  checkboxes :: "string \<rightharpoonup> bool"
  multiselects :: "string \<rightharpoonup> string list"
  pressed :: button

datatype vm_message = Enter_Name_Warning | Saved_Message string | Deleted_Message string

section \<open>The code\<close>

definition add_new_venue :: string where
  "add_new_venue = ''Add new venue...''"

definition load_venues :: "store \<Rightarrow> venues" where
  "load_venues fs = (case venues_json fs of None \<Rightarrow> [] | Some venues \<Rightarrow> venues)"

definition save_venues :: "store \<Rightarrow> venues \<Rightarrow> store" where
  "save_venues fs venues = fs\<lparr>venues_json := Some venues\<rparr>"

definition venue_options :: "venues \<Rightarrow> string list" where
  "venue_options venues = add_new_venue # sort (dict_keys venues)"

definition edit_scalars :: "vm_input \<Rightarrow> string list \<Rightarrow> profile \<Rightarrow> profile" where
  "edit_scalars inp scalar_traits venue_data =
     fold (\<lambda>trait venue_data.
        let default_val = dict_get (get_scalars venue_data) trait (1/2)
        in venue_data\<lparr>scalars := Some (dict_set (get_scalars venue_data) trait
             (widget_value (sliders inp trait) default_val))\<rparr>)
       scalar_traits venue_data"

definition edit_tags :: "vm_input \<Rightarrow> string list \<Rightarrow> profile \<Rightarrow> profile" where
  "edit_tags inp tag_options venue_data =
     fold (\<lambda>tag venue_data.
        let dflt = dict_get (get_tags venue_data) tag 0
        in venue_data\<lparr>tags := Some (dict_set (get_tags venue_data) tag
             (if widget_value (checkboxes inp tag) (dflt = 1) then 1 else 0))\<rparr>)
       tag_options venue_data"

definition edit_categoricals ::
  "vm_input \<Rightarrow> (string, string list) dict \<Rightarrow> profile \<Rightarrow> profile" where
  "edit_categoricals inp category_options venue_data =
     fold (\<lambda>(cat, choices) venue_data.
        let selected = widget_value (multiselects inp cat)
              (dict_get (get_categoricals venue_data) cat [])
        in venue_data\<lparr>categoricals := Some (dict_set (get_categoricals venue_data) cat selected)\<rparr>)
       category_options venue_data"

definition edited_in_place :: "venues \<Rightarrow> string \<Rightarrow> profile \<Rightarrow> venues" where
  "edited_in_place venues selected_name venue_data =
     (if selected_name \<in> set (dict_keys venues) then dict_set venues selected_name venue_data
      else venues)"

definition venue_management_view ::
  "store \<Rightarrow> vm_input \<Rightarrow> error + (store \<times> vm_message option)" where
  "venue_management_view fs inp =
     (let venues = load_venues fs;
          selected_name = picked inp;
          is_new = (selected_name = add_new_venue);
          venue_name = (if is_new then [] else selected_name);
          venue_data = dict_get venues selected_name empty_sections;
          venue_name = widget_value (name_typed inp) venue_name
      in case load_scalar_traits fs of Inl e \<Rightarrow> Inl e | Inr scalar_traits \<Rightarrow>
         let venue_data = edit_scalars inp scalar_traits venue_data
         in case load_tag_options fs of Inl e \<Rightarrow> Inl e | Inr tag_options \<Rightarrow>
         let venue_data = edit_tags inp tag_options venue_data
         in case load_categorical_options fs of Inl e \<Rightarrow> Inl e | Inr category_options \<Rightarrow>
         let venue_data = edit_categoricals inp category_options venue_data;
             venues = edited_in_place venues selected_name venue_data
         in if pressed inp = Save_Venue then
              if py_strip venue_name = [] then Inr (fs, Some Enter_Name_Warning)
              else Inr (save_venues fs (dict_set venues (py_strip venue_name) venue_data),
                        Some (Saved_Message venue_name))
            else if \<not> is_new \<and> pressed inp = Delete_Venue then
              Inr (save_venues fs (dict_pop venues selected_name),
                   Some (Deleted_Message selected_name))
            else Inr (fs, None))"

section \<open>Reference definitions\<close>

definition slider_value :: "vm_input \<Rightarrow> string \<Rightarrow> score option \<Rightarrow> score" where
  "slider_value inp trait old =
     widget_value (sliders inp trait) (case old of None \<Rightarrow> 1/2 | Some v \<Rightarrow> v)"

definition checkbox_value :: "vm_input \<Rightarrow> string \<Rightarrow> int option \<Rightarrow> int" where
  "checkbox_value inp tag old =
     (if widget_value (checkboxes inp tag) ((case old of None \<Rightarrow> 0 | Some v \<Rightarrow> v) = 1)
      then 1 else 0)"

definition multiselect_value :: "vm_input \<Rightarrow> string \<Rightarrow> string list option \<Rightarrow> string list" where
  "multiselect_value inp cat old =
     widget_value (multiselects inp cat) (case old of None \<Rightarrow> [] | Some v \<Rightarrow> v)"

definition edit_venue ::
  "vm_input \<Rightarrow> string list \<Rightarrow> string list \<Rightarrow> (string, string list) dict \<Rightarrow> profile \<Rightarrow> profile"
  where
  "edit_venue inp scalar_traits tag_options category_options venue_data =
     edit_categoricals inp category_options
       (edit_tags inp tag_options (edit_scalars inp scalar_traits venue_data))"

definition valid_input :: "vm_input \<Rightarrow> bool" where
  "valid_input inp \<longleftrightarrow>
     (\<forall>x \<in> ran (sliders inp). in_unit x) \<and> (\<forall>sel \<in> ran (multiselects inp). distinct sel)"

definition configured :: "store \<Rightarrow> string list \<Rightarrow> string list \<Rightarrow> (string, string list) dict \<Rightarrow> bool"
  where
  "configured fs scalar_traits tag_options category_options \<longleftrightarrow>
     scalars_json fs = Some scalar_traits \<and> tags_json fs = Some tag_options
     \<and> categoricals_json fs = Some category_options"

section \<open>Example store and inputs\<close>

definition ex_store :: store where
  "ex_store = \<lparr>venues_json = Some [(''A'', \<lparr>scalars = Some [(''ambiance'', 1), (''price'', 1/5)],
        tags = Some [(''quiet'', 1)], categoricals = Some [(''music'', [''jazz''])]\<rparr>),
      (''B'', \<lparr>scalars = Some [(''ambiance'', 3/10)], tags = None, categoricals = None\<rparr>)],
     scalars_json = Some [''ambiance'', ''price''], tags_json = Some [''quiet''],
     categoricals_json = Some [(''music'', [''jazz'', ''rock''])]\<rparr>"

definition ex_untouched :: vm_input where
  "ex_untouched = \<lparr>picked = ''A'', name_typed = None, sliders = Map.empty,
     checkboxes = Map.empty, multiselects = Map.empty, pressed = No_Button\<rparr>"

definition ex_rename :: vm_input where
  "ex_rename = ex_untouched\<lparr>name_typed := Some ''  A2 '', sliders := [''price'' \<mapsto> 1],
     pressed := Save_Venue\<rparr>"

lemmas ex_vm_defs = ex_store_def ex_untouched_def ex_rename_def

lemmas vm_eval = venue_management_view_def load_venues_def save_venues_def loaders_def
  edit_scalars_def edit_tags_def edit_categoricals_def edited_in_place_def
  add_new_venue_def py_strip_def is_space_def empty_sections_def Let_def

section \<open>The widget loops\<close>

lemma edit_scalars_Nil [simp]: "edit_scalars inp [] vd = vd"
  by (simp add: edit_scalars_def)

lemma edit_scalars_Cons:
  "edit_scalars inp (t # ts) vd = edit_scalars inp ts
     (vd\<lparr>scalars := Some (dict_set (get_scalars vd) t (slider_value inp t (map_of (get_scalars vd) t)))\<rparr>)"
  by (simp add: edit_scalars_def slider_value_def dict_get_def Let_def)

lemma edit_tags_Nil [simp]: "edit_tags inp [] vd = vd"
  by (simp add: edit_tags_def)

lemma edit_tags_Cons:
  "edit_tags inp (t # ts) vd = edit_tags inp ts
     (vd\<lparr>tags := Some (dict_set (get_tags vd) t (checkbox_value inp t (map_of (get_tags vd) t)))\<rparr>)"
  by (simp add: edit_tags_def checkbox_value_def dict_get_def Let_def)

lemma edit_categoricals_Nil [simp]: "edit_categoricals inp [] vd = vd"
  by (simp add: edit_categoricals_def)

lemma edit_categoricals_Cons:
  "edit_categoricals inp ((c, choices) # cs) vd = edit_categoricals inp cs
     (vd\<lparr>categoricals := Some (dict_set (get_categoricals vd) c
        (multiselect_value inp c (map_of (get_categoricals vd) c)))\<rparr>)"
  by (simp add: edit_categoricals_def multiselect_value_def dict_get_def Let_def)

lemma edit_scalars_sections:
  "get_scalars (edit_scalars inp ts vd) = dict_fill (slider_value inp) ts (get_scalars vd)"
  "tags (edit_scalars inp ts vd) = tags vd"
  "categoricals (edit_scalars inp ts vd) = categoricals vd"
  by (induction ts arbitrary: vd) (simp_all add: edit_scalars_Cons)

lemma edit_tags_sections:
  "get_tags (edit_tags inp ts vd) = dict_fill (checkbox_value inp) ts (get_tags vd)"
  "scalars (edit_tags inp ts vd) = scalars vd"
  "categoricals (edit_tags inp ts vd) = categoricals vd"
  by (induction ts arbitrary: vd) (simp_all add: edit_tags_Cons)

lemma edit_categoricals_sections:
  "get_categoricals (edit_categoricals inp cs vd)
     = dict_fill (multiselect_value inp) (dict_keys cs) (get_categoricals vd)"
  "scalars (edit_categoricals inp cs vd) = scalars vd"
  "tags (edit_categoricals inp cs vd) = tags vd"
  by (induction cs arbitrary: vd) (auto simp: edit_categoricals_Cons)

lemmas edit_sections = edit_scalars_sections edit_tags_sections edit_categoricals_sections

lemma edit_venue_sections:
  "get_scalars (edit_venue inp ts tg cs vd) = dict_fill (slider_value inp) ts (get_scalars vd)"
  "get_tags (edit_venue inp ts tg cs vd) = dict_fill (checkbox_value inp) tg (get_tags vd)"
  "get_categoricals (edit_venue inp ts tg cs vd)
     = dict_fill (multiselect_value inp) (dict_keys cs) (get_categoricals vd)"
  by (simp_all add: edit_venue_def edit_sections)

section \<open>Widget values\<close>

lemma slider_value_idem: "slider_value inp t (Some (slider_value inp t old)) = slider_value inp t old"
  by (cases "sliders inp t") (simp_all add: slider_value_def)

lemma checkbox_value_idem:
  "checkbox_value inp t (Some (checkbox_value inp t old)) = checkbox_value inp t old"
  by (cases "checkboxes inp t") (simp_all add: checkbox_value_def)

lemma multiselect_value_idem:
  "multiselect_value inp c (Some (multiselect_value inp c old)) = multiselect_value inp c old"
  by (cases "multiselects inp c") (simp_all add: multiselect_value_def)

lemma slider_value_in_unit:
  "valid_input inp \<Longrightarrow> (\<And>v. old = Some v \<Longrightarrow> in_unit v) \<Longrightarrow> in_unit (slider_value inp t old)"
  by (cases "sliders inp t"; cases old)
     (auto simp: slider_value_def valid_input_def in_unit_def ran_def)

lemma checkbox_value_flag: "checkbox_value inp t old = 0 \<or> checkbox_value inp t old = 1"
  by (simp add: checkbox_value_def)

lemma multiselect_value_distinct:
  "valid_input inp \<Longrightarrow> (\<And>v. old = Some v \<Longrightarrow> distinct v) \<Longrightarrow>
     distinct (multiselect_value inp c old)"
  by (cases "multiselects inp c"; cases old)
     (auto simp: multiselect_value_def valid_input_def ran_def)

section \<open>Well-formedness of the edited venue\<close>

lemma wf_edit_venue:
  assumes "wf_profile vd" and "valid_input inp"
  shows "wf_profile (edit_venue inp ts tg cs vd)"
proof -
  from assms(1) have s: "wf_scalars (get_scalars vd)" and t: "wf_tags (get_tags vd)"
    and c: "wf_categoricals (get_categoricals vd)"
    by (simp_all add: wf_profile_def)
  have "in_unit v" if "(k, v) \<in> set (dict_fill (slider_value inp) ts (get_scalars vd))" for k v
    using wf_scalarsD(2) [OF s] slider_value_in_unit [OF assms(2)] that
    by (rule dict_fill_values)
  moreover have "v = 0 \<or> v = 1"
    if "(k, v) \<in> set (dict_fill (checkbox_value inp) tg (get_tags vd))" for k v
    using wf_tagsD(2) [OF t] checkbox_value_flag that
    by (rule dict_fill_values [where P = "\<lambda>v. v = 0 \<or> v = 1"])
  moreover have "distinct v"
    if "(k, v) \<in> set (dict_fill (multiselect_value inp) (dict_keys cs) (get_categoricals vd))"
    for k v
    using wf_categoricalsD(2) [OF c] multiselect_value_distinct [OF assms(2)] that
    by (rule dict_fill_values)
  ultimately show ?thesis
    using wf_scalarsD(1) [OF s] wf_tagsD(1) [OF t] wf_categoricalsD(1) [OF c]
    by (auto simp: wf_profile_def edit_venue_sections wf_scalars_def wf_tags_def
        wf_categoricals_def list_all_iff dict_wf_fill)
qed

section \<open>The store and the aliased venue\<close>

lemma load_save_venues [simp]: "load_venues (save_venues fs venues) = venues"
  by (simp add: load_venues_def save_venues_def)

lemma save_venues_other_files [simp]:
  "scalars_json (save_venues fs venues) = scalars_json fs"
  "tags_json (save_venues fs venues) = tags_json fs"
  "categoricals_json (save_venues fs venues) = categoricals_json fs"
  by (simp_all add: save_venues_def)

lemma pop_edited_in_place [simp]:
  "dict_pop (edited_in_place venues name vd) name = dict_pop venues name"
  by (simp add: edited_in_place_def delete_update_same)

lemma map_of_edited_in_place:
  "map_of (edited_in_place venues name vd) k
     = (if k = name \<and> name \<in> fst ` set venues then Some vd else map_of venues k)"
  by (auto simp: edited_in_place_def update_conv')

lemma wf_edited_in_place [wf_intros]:
  "wf_venues venues \<Longrightarrow> wf_profile vd \<Longrightarrow> wf_venues (edited_in_place venues name vd)"
  by (simp add: edited_in_place_def wf_venues_set)

lemma wf_picked_venue:
  "wf_venues venues \<Longrightarrow> wf_profile (dict_get venues name empty_sections)"
  by (auto simp: dict_get_def split: option.split dest: wf_venues_lookup)

lemma venue_management_view_eq:
  assumes "configured fs ts tg cs"
  shows "venue_management_view fs inp =
     (let venues = load_venues fs;
          vd = edit_venue inp ts tg cs (dict_get venues (picked inp) empty_sections);
          name = widget_value (name_typed inp)
                   (if picked inp = add_new_venue then [] else picked inp)
      in if pressed inp = Save_Venue then
           if py_strip name = [] then Inr (fs, Some Enter_Name_Warning)
           else Inr (save_venues fs
                  (dict_set (edited_in_place venues (picked inp) vd) (py_strip name) vd),
                  Some (Saved_Message name))
         else if picked inp \<noteq> add_new_venue \<and> pressed inp = Delete_Venue then
           Inr (save_venues fs (dict_pop venues (picked inp)), Some (Deleted_Message (picked inp)))
         else Inr (fs, None))"
  using assms
  by (simp add: venue_management_view_def configured_def loaders_def edit_venue_def Let_def)

lemma venue_management_view_configured:
  "venue_management_view fs inp = Inr r \<Longrightarrow> \<exists>ts tg cs. configured fs ts tg cs"
  by (auto simp: venue_management_view_def loaders_def Let_def load_json_def configured_def
      split: option.splits)

section \<open>Untouched widgets\<close>

lemma section_of_lookup:
  "map_of (section_or_empty s) k = Some v \<Longrightarrow> s = Some (section_or_empty s)"
  by (cases s) simp_all

lemma edit_scalars_id:
  assumes "\<And>t. t \<in> set ts \<Longrightarrow>
    \<exists>v. map_of (get_scalars vd) t = Some v \<and> slider_value inp t (Some v) = v"
  shows "edit_scalars inp ts vd = vd"
  using assms
proof (induction ts)
  case Nil
  then show ?case by simp
next
  case (Cons t ts)
  from Cons.prems [of t] obtain v where v: "map_of (get_scalars vd) t = Some v"
    and "slider_value inp t (Some v) = v" by auto
  then have "vd\<lparr>scalars := Some (dict_set (get_scalars vd) t
      (slider_value inp t (map_of (get_scalars vd) t)))\<rparr> = vd"
    using section_of_lookup [OF v] by (simp add: update_triv)
  with Cons show ?case by (simp add: edit_scalars_Cons)
qed

lemma edit_tags_id:
  assumes "\<And>t. t \<in> set ts \<Longrightarrow>
    \<exists>v. map_of (get_tags vd) t = Some v \<and> checkbox_value inp t (Some v) = v"
  shows "edit_tags inp ts vd = vd"
  using assms
proof (induction ts)
  case Nil
  then show ?case by simp
next
  case (Cons t ts)
  from Cons.prems [of t] obtain v where v: "map_of (get_tags vd) t = Some v"
    and "checkbox_value inp t (Some v) = v" by auto
  then have "vd\<lparr>tags := Some (dict_set (get_tags vd) t
      (checkbox_value inp t (map_of (get_tags vd) t)))\<rparr> = vd"
    using section_of_lookup [OF v] by (simp add: update_triv)
  with Cons show ?case by (simp add: edit_tags_Cons)
qed

lemma edit_categoricals_id:
  assumes "\<And>c. c \<in> fst ` set cs \<Longrightarrow>
    \<exists>v. map_of (get_categoricals vd) c = Some v \<and> multiselect_value inp c (Some v) = v"
  shows "edit_categoricals inp cs vd = vd"
  using assms
proof (induction cs)
  case Nil
  then show ?case by simp
next
  case (Cons a cs)
  obtain c choices where a: "a = (c, choices)" by (cases a)
  from Cons.prems [of c] a obtain v where v: "map_of (get_categoricals vd) c = Some v"
    and "multiselect_value inp c (Some v) = v" by auto
  then have "vd\<lparr>categoricals := Some (dict_set (get_categoricals vd) c
      (multiselect_value inp c (map_of (get_categoricals vd) c)))\<rparr> = vd"
    using section_of_lookup [OF v] by (simp add: update_triv)
  with Cons a show ?case by (simp add: edit_categoricals_Cons)
qed

lemma key_has_value: "k \<in> fst ` set d \<Longrightarrow> \<exists>v. map_of d k = Some v"
  using map_of_eq_None_iff [of d k] by (cases "map_of d k") auto

lemma save_loaded_venues: "load_venues fs \<noteq> [] \<Longrightarrow> save_venues fs (load_venues fs) = fs"
  by (cases "venues_json fs") (simp_all add: load_venues_def save_venues_def)

lemma edit_venue_untouched:
  assumes "wf_tags (get_tags vd)"
    and "set ts \<subseteq> fst ` set (get_scalars vd)" and "set tg \<subseteq> fst ` set (get_tags vd)"
    and "fst ` set cs \<subseteq> fst ` set (get_categoricals vd)"
    and "sliders inp = Map.empty" and "checkboxes inp = Map.empty"
    and "multiselects inp = Map.empty"
  shows "edit_venue inp ts tg cs vd = vd"
proof -
  have "edit_scalars inp ts vd = vd"
  proof (rule edit_scalars_id)
    fix t assume "t \<in> set ts"
    with assms(2) have "t \<in> fst ` set (get_scalars vd)" by (rule subsetD)
    then obtain v where "map_of (get_scalars vd) t = Some v"
      by (rule key_has_value [THEN exE])
    with assms(5) show "\<exists>v. map_of (get_scalars vd) t = Some v \<and> slider_value inp t (Some v) = v"
      by (simp add: slider_value_def)
  qed
  moreover have "edit_tags inp tg vd = vd"
  proof (rule edit_tags_id)
    fix t assume "t \<in> set tg"
    with assms(3) have "t \<in> fst ` set (get_tags vd)" by (rule subsetD)
    then obtain v where v: "map_of (get_tags vd) t = Some v"
      by (rule key_has_value [THEN exE])
    then have "v = 0 \<or> v = 1"
      using wf_tagsD(2) [OF assms(1)] by (blast dest: map_of_SomeD)
    with v assms(6) show "\<exists>v. map_of (get_tags vd) t = Some v \<and> checkbox_value inp t (Some v) = v"
      by (auto simp: checkbox_value_def)
  qed
  moreover have "edit_categoricals inp cs vd = vd"
  proof (rule edit_categoricals_id)
    fix c assume "c \<in> fst ` set cs"
    with assms(4) have "c \<in> fst ` set (get_categoricals vd)" by (rule subsetD)
    then obtain v where "map_of (get_categoricals vd) c = Some v"
      by (rule key_has_value [THEN exE])
    with assms(7)
    show "\<exists>v. map_of (get_categoricals vd) c = Some v \<and> multiselect_value inp c (Some v) = v"
      by (simp add: multiselect_value_def)
  qed
  ultimately show ?thesis
    by (simp add: edit_venue_def)
qed

section \<open>Example runs\<close>

lemma ex_configured:
  "configured ex_store [''ambiance'', ''price''] [''quiet''] [(''music'', [''jazz'', ''rock''])]"
  by (simp add: configured_def ex_store_def)

lemma ex_view_rename:
  "venue_management_view ex_store ex_rename =
     Inr (ex_store\<lparr>venues_json := Some
        [(''A'', \<lparr>scalars = Some [(''ambiance'', 1), (''price'', 1)],
            tags = Some [(''quiet'', 1)], categoricals = Some [(''music'', [''jazz''])]\<rparr>),
         (''B'', \<lparr>scalars = Some [(''ambiance'', 3/10)], tags = None, categoricals = None\<rparr>),
         (''A2'', \<lparr>scalars = Some [(''ambiance'', 1), (''price'', 1)],
            tags = Some [(''quiet'', 1)], categoricals = Some [(''music'', [''jazz''])]\<rparr>)]\<rparr>,
       Some (Saved_Message ''  A2 ''))"
  by (simp add: vm_eval ex_vm_defs)

lemma ex_view_delete:
  "venue_management_view ex_store (ex_untouched\<lparr>pressed := Delete_Venue\<rparr>) =
     Inr (ex_store\<lparr>venues_json := Some
        [(''B'', \<lparr>scalars = Some [(''ambiance'', 3/10)], tags = None, categoricals = None\<rparr>)]\<rparr>,
       Some (Deleted_Message ''A''))"
  by (simp add: vm_eval ex_vm_defs)

lemma ex_view_untouched_save:
  "venue_management_view ex_store (ex_untouched\<lparr>pressed := Save_Venue\<rparr>) =
     Inr (ex_store, Some (Saved_Message ''A''))"
  by (simp add: vm_eval ex_vm_defs)

lemma ex_wf: "wf_venues (load_venues ex_store)" "valid_input ex_rename" "valid_input ex_untouched"
  by (simp_all add: load_venues_def ex_vm_defs wf_profile_def in_unit_def valid_input_def)

lemma ex_view_sentinel:
  "venue_management_view ex_store
      (ex_untouched\<lparr>picked := add_new_venue, name_typed := Some add_new_venue,
         pressed := Save_Venue\<rparr>) =
     Inr (ex_store\<lparr>venues_json := Some (load_venues ex_store @
        [(add_new_venue, \<lparr>scalars = Some [(''ambiance'', 1/2), (''price'', 1/2)],
            tags = Some [(''quiet'', 0)], categoricals = Some [(''music'', [])]\<rparr>)])\<rparr>,
       Some (Saved_Message add_new_venue))"
  by (simp add: vm_eval ex_vm_defs)

section \<open>Well-formed venue files\<close>

text \<open>
  A run of the venue manager on a well-formed venue file, with slider values in
  \<open>[0, 1]\<close> and selections without repeated options, leaves a well-formed venue file,
  whichever venue is picked and whichever button is pressed; and it never writes an
  option file.
\<close>

lemma venue_management_view_wf:
  assumes "wf_venues (load_venues fs)" and "valid_input inp"
    and "venue_management_view fs inp = Inr (fs', msg)"
  shows "wf_venues (load_venues fs')"
proof -
  from assms(3) obtain ts tg cs where conf: "configured fs ts tg cs"
    by (blast dest: venue_management_view_configured)
  let ?vd = "edit_venue inp ts tg cs (dict_get (load_venues fs) (picked inp) empty_sections)"
  have "wf_profile ?vd"
    using assms(1,2) by (intro wf_edit_venue wf_picked_venue)
  then have "wf_venues (dict_set (edited_in_place (load_venues fs) (picked inp) ?vd) k ?vd)" for k
    using assms(1) by (intro wf_intros)
  moreover have "wf_venues (dict_pop (load_venues fs) (picked inp))"
    using assms(1) by (rule wf_venues_pop)
  ultimately show ?thesis
    using assms(1,3) by (auto simp: venue_management_view_eq [OF conf] Let_def split: if_splits)
qed

lemma venue_management_view_other_files:
  assumes "venue_management_view fs inp = Inr (fs', msg)"
  shows "scalars_json fs' = scalars_json fs" and "tags_json fs' = tags_json fs"
    and "categoricals_json fs' = categoricals_json fs"
proof -
  from assms obtain ts tg cs where conf: "configured fs ts tg cs"
    by (blast dest: venue_management_view_configured)
  from assms show "scalars_json fs' = scalars_json fs" "tags_json fs' = tags_json fs"
    "categoricals_json fs' = categoricals_json fs"
    by (auto simp: venue_management_view_eq [OF conf] Let_def save_venues_def split: if_splits)
qed

lemma venue_management_view_keeps_venue_file:
  assumes "venue_management_view fs inp = Inr (fs', msg)" and "venues_json fs \<noteq> None"
  shows "venues_json fs' \<noteq> None"
proof -
  from assms(1) obtain ts tg cs where conf: "configured fs ts tg cs"
    by (blast dest: venue_management_view_configured)
  from assms show ?thesis
    by (auto simp: venue_management_view_eq [OF conf] Let_def save_venues_def split: if_splits)
qed

lemma venue_management_view_succeeds:
  assumes "scalars_json fs \<noteq> None" and "tags_json fs \<noteq> None"
    and "categoricals_json fs \<noteq> None"
  shows "\<exists>fs' msg. venue_management_view fs inp = Inr (fs', msg)"
proof -
  from assms obtain ts tg cs where "configured fs ts tg cs"
    by (auto simp: configured_def)
  then show ?thesis
    by (simp add: venue_management_view_eq Let_def)
qed

lemma venue_management_view_saves:
  fixes fs inp ts tg cs
  defines "name \<equiv> widget_value (name_typed inp) (if picked inp = add_new_venue then [] else picked inp)"
  assumes "configured fs ts tg cs" and "pressed inp = Save_Venue" and "py_strip name \<noteq> []"
  shows "\<exists>fs'. venue_management_view fs inp = Inr (fs', Some (Saved_Message name))
     \<and> map_of (load_venues fs') (py_strip name)
         = Some (edit_venue inp ts tg cs (dict_get (load_venues fs) (picked inp) empty_sections))"
  using assms(3,4)
  by (simp add: venue_management_view_eq [OF assms(2)] name_def Let_def update_conv')

section \<open>Properties of the venue manager\<close>

text \<open>C15. Save: with a venue name that is not blank, the run writes the venue file and
  reports the save. In the new file the stripped name holds the edited venue data; so
  does the picked name when it is a venue of the file, because the widgets edit the
  loaded venue in place; every other venue is as before, and the option files are
  untouched. Saving an existing venue under another name therefore leaves two venues
  with the new data, and none with the old.\<close>

theorem venue_manager_save:
  fixes fs inp ts tg cs
  defines "venues \<equiv> load_venues fs"
    and "name \<equiv> widget_value (name_typed inp) (if picked inp = add_new_venue then [] else picked inp)"
  defines "vd \<equiv> edit_venue inp ts tg cs (dict_get venues (picked inp) empty_sections)"
  assumes "configured fs ts tg cs" and "pressed inp = Save_Venue" and "py_strip name \<noteq> []"
  shows "\<exists>fs'. venue_management_view fs inp = Inr (fs', Some (Saved_Message name))
           \<and> (\<forall>k. map_of (load_venues fs') k =
                 (if k = py_strip name \<or> (k = picked inp \<and> picked inp \<in> fst ` set venues)
                  then Some vd else map_of venues k))
           \<and> configured fs' ts tg cs"
  using assms(4-6) unfolding venues_def name_def vd_def
  by (auto simp: venue_management_view_eq [OF assms(4)] Let_def update_conv'
      map_of_edited_in_place configured_def)

theorem venue_manager_save_witness:
  "\<exists>fs'. venue_management_view ex_store ex_rename = Inr (fs', Some (Saved_Message ''  A2 ''))
     \<and> map_of (load_venues fs') ''A2'' = map_of (load_venues fs') ''A''
     \<and> map_of (load_venues fs') ''A'' \<noteq> map_of (load_venues ex_store) ''A''
     \<and> map_of (load_venues fs') ''B'' = map_of (load_venues ex_store) ''B''"
  using venue_manager_save [of ex_store _ _ _ ex_rename, OF ex_configured]
  by (simp add: ex_view_rename) (simp add: ex_vm_defs load_venues_def)

text \<open>C16. Delete: for a picked venue, the run writes the venue file without that venue,
  the others unchanged and in their order, and reports the deletion; the edits made in
  the widgets of the same run are discarded with it.\<close>

theorem venue_manager_delete:
  assumes "configured fs ts tg cs" and "pressed inp = Delete_Venue"
    and "picked inp \<noteq> add_new_venue"
  shows "\<exists>fs'. venue_management_view fs inp = Inr (fs', Some (Deleted_Message (picked inp)))
           \<and> load_venues fs' = filter (\<lambda>(name, p). name \<noteq> picked inp) (load_venues fs)
           \<and> picked inp \<notin> fst ` set (load_venues fs') \<and> configured fs' ts tg cs"
  using assms
  by (auto simp: venue_management_view_eq [OF assms(1)] Let_def AList.delete_eq configured_def
      case_prod_unfold intro!: filter_cong)

theorem venue_manager_delete_witness:
  "\<exists>fs'. venue_management_view ex_store (ex_untouched\<lparr>pressed := Delete_Venue\<rparr>)
       = Inr (fs', Some (Deleted_Message ''A''))
     \<and> load_venues fs'
       = [(''B'', \<lparr>scalars = Some [(''ambiance'', 3/10)], tags = None, categoricals = None\<rparr>)]"
  using venue_manager_delete [of ex_store _ _ _ "ex_untouched\<lparr>pressed := Delete_Venue\<rparr>",
      OF ex_configured]
  by (simp add: ex_view_delete) (simp add: ex_vm_defs load_venues_def)

text \<open>C17. Nothing else writes: a run in which no button is pressed, or \<open>Save\<close> is pressed
  with a name that is empty or all whitespace, or \<open>Delete\<close> is pressed while the entry for
  a new venue is picked, returns the store it was given; the blank name is answered with
  the warning, the other two with no message. Edits in the widgets alone are never
  persisted.\<close>

theorem venue_manager_no_change:
  assumes "venue_management_view fs inp = Inr (fs', msg)"
    and "pressed inp = No_Button
         \<or> (pressed inp = Save_Venue \<and> py_strip (widget_value (name_typed inp)
               (if picked inp = add_new_venue then [] else picked inp)) = [])
         \<or> (pressed inp = Delete_Venue \<and> picked inp = add_new_venue)"
  shows "fs' = fs \<and> msg = (if pressed inp = Save_Venue then Some Enter_Name_Warning else None)"
proof -
  from assms(1) obtain ts tg cs where conf: "configured fs ts tg cs"
    by (blast dest: venue_management_view_configured)
  from assms show ?thesis
    by (auto simp: venue_management_view_eq [OF conf] Let_def split: if_splits)
qed

theorem venue_manager_no_change_witness:
  "venue_management_view ex_store (ex_rename\<lparr>name_typed := Some ''   ''\<rparr>)
     = Inr (ex_store, Some Enter_Name_Warning)
   \<and> venue_management_view ex_store (ex_rename\<lparr>pressed := No_Button\<rparr>) = Inr (ex_store, None)"
proof -
  have "\<exists>r. venue_management_view ex_store (ex_rename\<lparr>name_typed := Some ''   ''\<rparr>) = Inr r"
    and "\<exists>r. venue_management_view ex_store (ex_rename\<lparr>pressed := No_Button\<rparr>) = Inr r"
    by (simp_all add: venue_management_view_eq [OF ex_configured] Let_def)
  then show ?thesis
    using venue_manager_no_change [of ex_store "ex_rename\<lparr>name_typed := Some ''   ''\<rparr>"]
      venue_manager_no_change [of ex_store "ex_rename\<lparr>pressed := No_Button\<rparr>"]
    by (auto simp: ex_vm_defs py_strip_def is_space_def)
qed

text \<open>C37. The name of the select box entry for a new venue can be saved as a venue name,
  and a venue stored under it stays: the view treats the picked entry as "new", so
  \<open>Delete\<close> is never offered for it, and after any run of the venue manager the file
  still holds a venue of that name.\<close>

theorem sentinel_venue_is_permanent:
  assumes "add_new_venue \<in> fst ` set (load_venues fs)"
    and "venue_management_view fs inp = Inr (fs', msg)"
  shows "add_new_venue \<in> fst ` set (load_venues fs')"
proof -
  from assms(2) obtain ts tg cs where conf: "configured fs ts tg cs"
    by (blast dest: venue_management_view_configured)
  have "add_new_venue \<in> fst ` set (dict_set (edited_in_place (load_venues fs) p vd) k vd)" for p vd k
    using assms(1) by (auto simp: dom_update edited_in_place_def)
  moreover have "add_new_venue \<in> fst ` set (dict_pop (load_venues fs) p)" if "p \<noteq> add_new_venue" for p
    using assms(1) that keys_dict_pop [where d = "load_venues fs" and k = p] by auto
  ultimately show ?thesis
    using assms by (auto simp: venue_management_view_eq [OF conf] Let_def split: if_splits)
qed

theorem sentinel_venue_is_permanent_witness:
  "\<exists>fs'. venue_management_view ex_store
        (ex_untouched\<lparr>picked := add_new_venue, name_typed := Some add_new_venue,
           pressed := Save_Venue\<rparr>) = Inr (fs', Some (Saved_Message add_new_venue))
     \<and> add_new_venue \<in> fst ` set (load_venues fs')
     \<and> venue_management_view fs' (ex_untouched\<lparr>picked := add_new_venue,
           pressed := Delete_Venue\<rparr>) = Inr (fs', None)"
proof -
  let ?fs' = "ex_store\<lparr>venues_json := Some (load_venues ex_store @
        [(add_new_venue, \<lparr>scalars = Some [(''ambiance'', 1/2), (''price'', 1/2)],
            tags = Some [(''quiet'', 0)], categoricals = Some [(''music'', [])]\<rparr>)])\<rparr>"
  have stored: "add_new_venue \<in> fst ` set (load_venues ?fs')"
    by (simp add: load_venues_def)
  have run: "venue_management_view ?fs' (ex_untouched\<lparr>picked := add_new_venue,
      pressed := Delete_Venue\<rparr>) = Inr (?fs', None)"
    by (simp add: vm_eval ex_vm_defs)
  from sentinel_venue_is_permanent [OF stored run] ex_view_sentinel run show ?thesis
    by blast
qed

text \<open>C18. A missing option file ends the run with an error before anything is written,
  and the files are read in the order scalars, tags, categoricals: the error names
  \<open>scalars.json\<close> when it is missing, \<open>tags.json\<close> when only the traits could be read,
  \<open>categoricals.json\<close> when both could, and there is no other \<open>FileNotFoundError\<close>. A
  missing venue file is not an error.\<close>

theorem venue_manager_errors:
  "venue_management_view fs inp = Inl e \<longleftrightarrow>
     (scalars_json fs = None \<and> e = File_Not_Found ''scalars.json'')
     \<or> (scalars_json fs \<noteq> None \<and> tags_json fs = None \<and> e = File_Not_Found ''tags.json'')
     \<or> (scalars_json fs \<noteq> None \<and> tags_json fs \<noteq> None \<and> categoricals_json fs = None
         \<and> e = File_Not_Found ''categoricals.json'')"
  by (auto simp: venue_management_view_def loaders_def Let_def load_json_def
      split: option.splits)

theorem venue_manager_errors_witness:
  "venue_management_view (ex_store\<lparr>tags_json := None, categoricals_json := None\<rparr>) ex_rename
     = Inl (File_Not_Found ''tags.json'')
   \<and> (\<exists>r. venue_management_view (ex_store\<lparr>venues_json := None\<rparr>) ex_rename = Inr r)"
  using venue_manager_errors [of "ex_store\<lparr>tags_json := None, categoricals_json := None\<rparr>"
      ex_rename "File_Not_Found ''tags.json''"]
  by (simp add: ex_vm_defs) (simp add: vm_eval ex_vm_defs)

text \<open>What the widget loops store: after the slider loop every configured trait has
  the value the user set, or, for an untouched slider, the venue's value, or \<open>0.5\<close> when
  the venue had none; after the check box loop every configured tag is \<open>1\<close> or \<open>0\<close> as
  the box is ticked, an untouched box being ticked exactly when the venue's flag was
  \<open>1\<close>; after the multi-select loop every configured category has the user's selection,
  or the venue's own. Keys that are not configured keep their values.\<close>

theorem edit_loops_values:
  "map_of (get_scalars (edit_scalars inp ts vd)) k =
     (if k \<in> set ts then Some (widget_value (sliders inp k) (dict_get (get_scalars vd) k (1/2)))
      else map_of (get_scalars vd) k)
   \<and> map_of (get_tags (edit_tags inp tg vd)) k =
     (if k \<in> set tg
      then Some (if widget_value (checkboxes inp k) (dict_get (get_tags vd) k 0 = 1) then 1 else 0)
      else map_of (get_tags vd) k)
   \<and> map_of (get_categoricals (edit_categoricals inp cs vd)) k =
     (if k \<in> fst ` set cs
      then Some (widget_value (multiselects inp k) (dict_get (get_categoricals vd) k []))
      else map_of (get_categoricals vd) k)"
  by (simp add: edit_sections map_of_dict_fill slider_value_idem checkbox_value_idem
      multiselect_value_idem)
     (simp add: slider_value_def checkbox_value_def multiselect_value_def dict_get_def)

theorem edit_loops_values_witness:
  "map_of (get_scalars (edit_scalars ex_rename [''ambiance'', ''price'', ''view''] empty_sections))
      ''price'' = Some 1
   \<and> map_of (get_scalars (edit_scalars ex_rename [''ambiance'', ''price'', ''view''] empty_sections))
      ''view'' = Some (1/2)
   \<and> map_of (get_tags (edit_tags ex_rename [''quiet'']
      \<lparr>scalars = None, tags = Some [(''quiet'', 7), (''vip'', 1)], categoricals = None\<rparr>))
      ''quiet'' = Some 0"
  using edit_loops_values [of ex_rename "[''ambiance'', ''price'', ''view'']" empty_sections
      "''price''"]
    edit_loops_values [of ex_rename "[''ambiance'', ''price'', ''view'']" empty_sections
      "''view''"]
    edit_loops_values [where inp = ex_rename and k = "''quiet''" and tg = "[''quiet'']" and vd
      = "\<lparr>scalars = None, tags = Some [(''quiet'', 7), (''vip'', 1)], categoricals = None\<rparr>"]
  by (simp add: ex_vm_defs empty_sections_def)

text \<open>Saving without touching anything changes nothing: for a picked venue that has
  a value for every configured trait, tag and category, whose tag flags are \<open>0\<close> or \<open>1\<close>,
  and whose name has no surrounding whitespace, a run in which no widget is touched and
  \<open>Save\<close> is pressed writes back the store as it was.\<close>

theorem untouched_save_is_identity:
  assumes "configured fs ts tg cs" and "map_of (load_venues fs) (picked inp) = Some vd"
    and "wf_tags (get_tags vd)"
    and "set ts \<subseteq> fst ` set (get_scalars vd)" and "set tg \<subseteq> fst ` set (get_tags vd)"
    and "fst ` set cs \<subseteq> fst ` set (get_categoricals vd)"
    and "sliders inp = Map.empty" and "checkboxes inp = Map.empty"
    and "multiselects inp = Map.empty" and "name_typed inp = None"
    and "picked inp \<noteq> add_new_venue" and "picked inp \<noteq> []"
    and "py_strip (picked inp) = picked inp"
    and "pressed inp = Save_Venue"
  shows "venue_management_view fs inp = Inr (fs, Some (Saved_Message (picked inp)))"
proof -
  have vd: "edit_venue inp ts tg cs (dict_get (load_venues fs) (picked inp) empty_sections) = vd"
    using assms(2) edit_venue_untouched [OF assms(3-9)] by (simp add: dict_get_def)
  have "picked inp \<in> set (dict_keys (load_venues fs))"
    using assms(2) by (force dest: map_of_SomeD)
  then have "edited_in_place (load_venues fs) (picked inp) vd = load_venues fs"
    using assms(2) by (simp add: edited_in_place_def update_triv)
  moreover have "load_venues fs \<noteq> []"
    using assms(2) by auto
  ultimately show ?thesis
    using assms(2,10-14)
    by (simp add: venue_management_view_eq [OF assms(1)] vd update_triv save_loaded_venues)
qed

theorem untouched_save_is_identity_witness:
  "venue_management_view ex_store (ex_untouched\<lparr>pressed := Save_Venue\<rparr>)
     = Inr (ex_store, Some (Saved_Message ''A''))"
  using untouched_save_is_identity [of ex_store _ _ _ "ex_untouched\<lparr>pressed := Save_Venue\<rparr>",
      OF ex_configured]
  by (simp add: ex_vm_defs load_venues_def add_new_venue_def py_strip_def is_space_def)


end
