(* ===== verification/User_Files.thy ===== *)
theory User_Files
  imports Storage
begin

text \<open>
  The files below \<open>users/\<close> and \<open>defaults/\<close> and the user profile functions of
  \<open>bu1.py\<close>: \<open>get_user_list\<close>, \<open>load_user_profile\<close>, \<open>save_user_profile\<close>,
  \<open>create_new_user\<close>.

  A user is a directory \<open>users/<name>\<close> holding \<open>base_profile.json\<close> and a directory
  \<open>templates\<close> of scenario templates; either may be missing. \<open>files\<close> is the whole file
  system of the application: the files of the working directory (\<open>store\<close>), the
  directory \<open>users\<close> in listing order, and \<open>defaults/base_profile.json\<close>. Every entry
  of \<open>users\<close> is taken to be a directory, and names are taken to contain no path
  separator, so that a name is one entry of the directory. \<open>os.listdir\<close> promises no
  order; the model lists the entries in the order in which they were made.

  A function that can fail after it has changed the file system returns the new file
  system together with the error: \<open>create_new_user\<close> makes the directory before it reads
  the default profile.

  \<open>profile_store\<close> is the abstract view, a map from user names to profiles; the three
  functions that read and write profiles are lookup and point update on it.
\<close>

section \<open>The file system\<close>

record user_dir =
  base_profile_json :: "profile option"
  templates_dir :: "(string, profile) dict option"

record files =
  app_files :: store
  users_dir :: "(string, user_dir) dict option"
  default_profile_json :: "profile option"

definition user_dirs :: "files \<Rightarrow> (string, user_dir) dict" where
  "user_dirs fs = section_or_empty (users_dir fs)"

definition user_dir_of :: "files \<Rightarrow> string \<Rightarrow> user_dir option" where
  "user_dir_of fs username = map_of (user_dirs fs) username"

definition new_dir :: user_dir where
  "new_dir = \<lparr>base_profile_json = None, templates_dir = None\<rparr>"

definition put_user_dir :: "files \<Rightarrow> string \<Rightarrow> user_dir \<Rightarrow> files" where
  "put_user_dir fs username d = fs\<lparr>users_dir := Some (dict_set (user_dirs fs) username d)\<rparr>"

definition makedirs_user :: "files \<Rightarrow> string \<Rightarrow> files" where
  "makedirs_user fs username =
     (case user_dir_of fs username of
        Some d \<Rightarrow> fs
      | None \<Rightarrow> put_user_dir fs username new_dir)"

section \<open>User profile handling\<close>

definition get_user_list :: "files \<Rightarrow> error + string list" where
  "get_user_list fs =
     (case users_dir fs of
        None \<Rightarrow> Inl (File_Not_Found ''users'')
      | Some users \<Rightarrow> Inr (dict_keys users))"

definition base_profile_path :: "string \<Rightarrow> string" where
  "base_profile_path username = ''users/'' @ username @ ''/base_profile.json''"

definition load_user_profile :: "files \<Rightarrow> string \<Rightarrow> error + profile" where
  "load_user_profile fs username =
     (let path = base_profile_path username
      in load_json path (Option.bind (user_dir_of fs username) base_profile_json))"

definition save_user_profile :: "files \<Rightarrow> string \<Rightarrow> profile \<Rightarrow> error + files" where
  "save_user_profile fs username profile =
     (let path = base_profile_path username
      in case user_dir_of fs username of
           None \<Rightarrow> Inl (File_Not_Found path)
         | Some d \<Rightarrow> Inr (put_user_dir fs username
                             (d\<lparr>base_profile_json := save_json path profile\<rparr>)))"

definition create_new_user :: "files \<Rightarrow> string \<Rightarrow> files \<times> (error + profile)" where
  "create_new_user fs username =
     (let fs = makedirs_user fs username
      in case load_json ''defaults/base_profile.json'' (default_profile_json fs) of
           Inl e \<Rightarrow> (fs, Inl e)
         | Inr default_profile \<Rightarrow>
             (case save_user_profile fs username default_profile of
                Inl e \<Rightarrow> (fs, Inl e)
              | Inr fs' \<Rightarrow> (fs', Inr default_profile)))"

section \<open>The profile store as a map\<close>

text \<open>
  What the rest of the application needs of these files is a store of profiles by user
  name. \<open>profile_store\<close> is that view of the file system: the profile a user name
  stands for, if any.
\<close>

definition profile_store :: "files \<Rightarrow> string \<rightharpoonup> profile" where
  "profile_store fs username = Option.bind (user_dir_of fs username) base_profile_json"

section \<open>Invariant and examples\<close>

definition wf_user_dir :: "user_dir \<Rightarrow> bool" where
  "wf_user_dir d \<longleftrightarrow> dict_wf (section_or_empty (templates_dir d))"

definition wf_files :: "files \<Rightarrow> bool" where
  "wf_files fs \<longleftrightarrow> dict_wf (user_dirs fs) \<and> list_all (\<lambda>(name, d). wf_user_dir d) (user_dirs fs)"

definition ex_default :: profile where
  "ex_default = \<lparr>scalars = Some [(''ambiance'', 1/2), (''price'', 1/2)],
     tags = Some [(''quiet'', 0), (''vip'', 0)], categoricals = Some []\<rparr>"

definition ex_files :: files where
  "ex_files = \<lparr>app_files = \<lparr>venues_json = Some [], scalars_json = Some [''ambiance'', ''price''],
        tags_json = Some [''quiet''], categoricals_json = Some [(''music'', [''jazz'', ''rock''])]\<rparr>,
     users_dir = Some [(''ann'', \<lparr>base_profile_json = Some empty_sections, templates_dir = None\<rparr>)],
     default_profile_json = Some ex_default\<rparr>"

lemmas user_files_eval = get_user_list_def load_user_profile_def save_user_profile_def
  create_new_user_def makedirs_user_def put_user_dir_def user_dir_of_def user_dirs_def
  new_dir_def base_profile_path_def Let_def

section \<open>Directories\<close>

lemma user_dirs_put [simp]:
  "user_dirs (put_user_dir fs username d) = dict_set (user_dirs fs) username d"
  by (simp add: put_user_dir_def user_dirs_def)

lemma put_user_dir_other [simp]:
  "app_files (put_user_dir fs username d) = app_files fs"
  "default_profile_json (put_user_dir fs username d) = default_profile_json fs"
  by (simp_all add: put_user_dir_def)

lemma user_dir_of_put [simp]:
  "user_dir_of (put_user_dir fs username d) name
     = (if name = username then Some d else user_dir_of fs name)"
  by (simp add: user_dir_of_def update_conv')

lemma get_user_list_put:
  "get_user_list (put_user_dir fs username d) = Inr (dict_keys (dict_set (user_dirs fs) username d))"
  by (simp add: get_user_list_def put_user_dir_def user_dirs_def)

lemma get_user_list_Inr:
  "get_user_list fs = Inr names \<Longrightarrow> names = dict_keys (user_dirs fs)"
  by (auto simp: get_user_list_def user_dirs_def split: option.splits)

lemma user_dir_of_eq_None_iff: "user_dir_of fs name = None \<longleftrightarrow> name \<notin> set (dict_keys (user_dirs fs))"
  by (simp add: user_dir_of_def map_of_eq_None_iff)

lemma wf_files_put [wf_intros]:
  "wf_files fs \<Longrightarrow> wf_user_dir d \<Longrightarrow> wf_files (put_user_dir fs username d)"
  by (simp add: wf_files_def dict_wf_set list_all_dict_set)

lemma wf_new_dir [simp, wf_intros]: "wf_user_dir new_dir"
  by (simp add: wf_user_dir_def new_dir_def)

lemma wf_files_lookup: "wf_files fs \<Longrightarrow> user_dir_of fs name = Some d \<Longrightarrow> wf_user_dir d"
  by (auto simp: wf_files_def user_dir_of_def list_all_iff dest: map_of_SomeD)

lemma wf_files_makedirs [wf_intros]: "wf_files fs \<Longrightarrow> wf_files (makedirs_user fs username)"
  by (simp add: makedirs_user_def wf_files_put split: option.splits)

lemma user_dir_of_makedirs:
  "user_dir_of (makedirs_user fs username) name
     = (if name = username \<and> user_dir_of fs username = None then Some new_dir
        else user_dir_of fs name)"
  by (auto simp: makedirs_user_def split: option.splits)

lemma makedirs_user_other [simp]:
  "app_files (makedirs_user fs username) = app_files fs"
  "default_profile_json (makedirs_user fs username) = default_profile_json fs"
  by (simp_all add: makedirs_user_def split: option.splits)

lemma keys_makedirs_user:
  "dict_keys (user_dirs (makedirs_user fs username))
     = (if username \<in> set (dict_keys (user_dirs fs)) then dict_keys (user_dirs fs)
        else dict_keys (user_dirs fs) @ [username])"
  using user_dir_of_eq_None_iff [of fs username]
  by (auto simp: makedirs_user_def dict_set_absent split: option.splits)

lemma set_keys_makedirs_user:
  "fst ` set (user_dirs (makedirs_user fs username)) = insert username (fst ` set (user_dirs fs))"
proof (cases "user_dir_of fs username")
  case None
  then show ?thesis
    by (simp add: makedirs_user_def dom_dict_set)
next
  case (Some d)
  then have "username \<in> fst ` set (user_dirs fs)"
    using user_dir_of_eq_None_iff [of fs username] by simp
  with Some show ?thesis
    by (auto simp: makedirs_user_def)
qed

section \<open>Loading and saving\<close>

lemma load_user_profile_eq:
  "load_user_profile fs username =
     (case user_dir_of fs username of
        None \<Rightarrow> Inl (File_Not_Found (base_profile_path username))
      | Some d \<Rightarrow> load_json (base_profile_path username) (base_profile_json d))"
  by (simp add: load_user_profile_def split: option.splits)

lemma save_user_profile_Inr:
  "save_user_profile fs username p = Inr fs' \<longleftrightarrow>
     (\<exists>d. user_dir_of fs username = Some d
          \<and> fs' = put_user_dir fs username (d\<lparr>base_profile_json := Some p\<rparr>))"
  by (auto simp: save_user_profile_def save_json_def Let_def split: option.splits)

lemma save_user_profile_Inl:
  "save_user_profile fs username p = Inl e \<longleftrightarrow>
     user_dir_of fs username = None \<and> e = File_Not_Found (base_profile_path username)"
  by (auto simp: save_user_profile_def Let_def split: option.splits)

lemma load_after_save:
  "save_user_profile fs username p = Inr fs' \<Longrightarrow>
     load_user_profile fs' name = (if name = username then Inr p else load_user_profile fs name)"
  by (auto simp: save_user_profile_Inr load_user_profile_eq)

lemma save_user_profile_other:
  assumes "save_user_profile fs username p = Inr fs'"
  shows "app_files fs' = app_files fs" and "default_profile_json fs' = default_profile_json fs"
    and "dict_keys (user_dirs fs') = dict_keys (user_dirs fs)"
    and "name \<noteq> username \<Longrightarrow> user_dir_of fs' name = user_dir_of fs name"
    and "map_option templates_dir (user_dir_of fs' name) = map_option templates_dir (user_dir_of fs name)"
proof -
  from assms obtain d where d: "user_dir_of fs username = Some d"
    and fs': "fs' = put_user_dir fs username (d\<lparr>base_profile_json := Some p\<rparr>)"
    by (auto simp: save_user_profile_Inr)
  from d have mem: "username \<in> fst ` set (user_dirs fs)"
    using user_dir_of_eq_None_iff [of fs username] by auto
  show "app_files fs' = app_files fs" "default_profile_json fs' = default_profile_json fs"
    by (simp_all add: fs')
  show "dict_keys (user_dirs fs') = dict_keys (user_dirs fs)"
    using mem by (simp add: fs' update_keys)
  show "name \<noteq> username \<Longrightarrow> user_dir_of fs' name = user_dir_of fs name"
    by (simp add: fs')
  show "map_option templates_dir (user_dir_of fs' name) = map_option templates_dir (user_dir_of fs name)"
    using d by (cases "name = username") (simp_all add: fs')
qed

lemma get_user_list_after_save:
  "save_user_profile fs username p = Inr fs' \<Longrightarrow> get_user_list fs' = Inr (dict_keys (user_dirs fs))"
  using save_user_profile_other(3) [of fs username p fs']
  by (auto simp: save_user_profile_Inr get_user_list_put)

lemma wf_files_save [wf_intros]:
  assumes "wf_files fs" and "save_user_profile fs username p = Inr fs'"
  shows "wf_files fs'"
proof -
  from assms(2) obtain d where d: "user_dir_of fs username = Some d"
    and fs': "fs' = put_user_dir fs username (d\<lparr>base_profile_json := Some p\<rparr>)"
    by (auto simp: save_user_profile_Inr)
  from wf_files_lookup [OF assms(1) d] have "wf_user_dir (d\<lparr>base_profile_json := Some p\<rparr>)"
    by (simp add: wf_user_dir_def)
  with assms(1) show ?thesis
    unfolding fs' by (rule wf_files_put)
qed

lemmas save_user_profile_frame = load_after_save get_user_list_after_save
  save_user_profile_other(1,2,5)

lemma profile_store_put [simp]:
  "profile_store (put_user_dir fs username d)
     = (profile_store fs)(username := base_profile_json d)"
  by (rule ext) (simp add: profile_store_def)

lemma profile_store_makedirs [simp]: "profile_store (makedirs_user fs username) = profile_store fs"
  by (rule ext) (auto simp: profile_store_def user_dir_of_makedirs new_dir_def)

lemma load_user_profile_store:
  "load_user_profile fs username = load_json (base_profile_path username) (profile_store fs username)"
  by (simp add: load_user_profile_def profile_store_def)

section \<open>Creating a user\<close>

lemma put_user_dir_twice [simp]:
  "put_user_dir (put_user_dir fs username d) username d' = put_user_dir fs username d'"
  by (simp add: put_user_dir_def user_dirs_def)

lemma put_user_dir_same:
  "user_dir_of fs username = Some d \<Longrightarrow> users_dir fs \<noteq> None \<Longrightarrow> put_user_dir fs username d = fs"
  by (auto simp: put_user_dir_def user_dir_of_def user_dirs_def update_triv)

lemma create_new_user_eq:
  "create_new_user fs username =
     (case default_profile_json fs of
        None \<Rightarrow> (makedirs_user fs username, Inl (File_Not_Found ''defaults/base_profile.json''))
      | Some dp \<Rightarrow>
          (put_user_dir fs username
             ((case user_dir_of fs username of None \<Rightarrow> new_dir | Some d \<Rightarrow> d)
                \<lparr>base_profile_json := Some dp\<rparr>), Inr dp))"
  by (auto simp: create_new_user_def save_user_profile_def makedirs_user_def save_json_def Let_def
      split: option.splits)

lemma create_new_user_frame:
  assumes "create_new_user fs username = (fs', r)"
  shows "app_files fs' = app_files fs" and "default_profile_json fs' = default_profile_json fs"
    and "fst ` set (user_dirs fs') = insert username (fst ` set (user_dirs fs))"
    and "name \<noteq> username \<Longrightarrow> user_dir_of fs' name = user_dir_of fs name"
    and "map_option templates_dir (user_dir_of fs' username)
           = Some (case user_dir_of fs username of None \<Rightarrow> None | Some d \<Rightarrow> templates_dir d)"
    and "wf_files fs \<Longrightarrow> wf_files fs'"
    and "default_profile_json fs = Some dp \<Longrightarrow> load_user_profile fs' username = Inr dp"
proof -
  let ?d = "case user_dir_of fs username of None \<Rightarrow> new_dir | Some d \<Rightarrow> d"
  from assms consider "fs' = makedirs_user fs username" "default_profile_json fs = None"
    | dp where "fs' = put_user_dir fs username (?d\<lparr>base_profile_json := Some dp\<rparr>)"
        "default_profile_json fs = Some dp"
    by (cases "default_profile_json fs") (auto simp: create_new_user_eq)
  then have "app_files fs' = app_files fs \<and> default_profile_json fs' = default_profile_json fs
    \<and> fst ` set (user_dirs fs') = insert username (fst ` set (user_dirs fs))
    \<and> (name \<noteq> username \<longrightarrow> user_dir_of fs' name = user_dir_of fs name)
    \<and> map_option templates_dir (user_dir_of fs' username)
           = Some (case user_dir_of fs username of None \<Rightarrow> None | Some d \<Rightarrow> templates_dir d)
    \<and> (wf_files fs \<longrightarrow> wf_files fs')
    \<and> (\<forall>dp. default_profile_json fs = Some dp \<longrightarrow> load_user_profile fs' username = Inr dp)"
  proof cases
    case 1
    then show ?thesis
      by (auto simp: set_keys_makedirs_user user_dir_of_makedirs wf_files_makedirs new_dir_def
          split: option.splits)
  next
    case 2
    have "wf_user_dir (?d\<lparr>base_profile_json := Some dp\<rparr>)" if "wf_files fs"
      using wf_files_lookup [OF that, of username]
      by (auto simp: wf_user_dir_def new_dir_def split: option.splits)
    with 2 show ?thesis
      by (auto simp: dom_dict_set wf_files_put load_user_profile_eq new_dir_def
          split: option.splits)
  qed
  then show "app_files fs' = app_files fs" "default_profile_json fs' = default_profile_json fs"
    "fst ` set (user_dirs fs') = insert username (fst ` set (user_dirs fs))"
    "name \<noteq> username \<Longrightarrow> user_dir_of fs' name = user_dir_of fs name"
    "map_option templates_dir (user_dir_of fs' username)
       = Some (case user_dir_of fs username of None \<Rightarrow> None | Some d \<Rightarrow> templates_dir d)"
    "wf_files fs \<Longrightarrow> wf_files fs'"
    "default_profile_json fs = Some dp \<Longrightarrow> load_user_profile fs' username = Inr dp"
    by blast+
qed

lemma ex_files_wf: "wf_files ex_files"
  by (simp add: wf_files_def wf_user_dir_def ex_files_def user_dirs_def)

text \<open>C28. Creating a user: when the default profile exists and the name is not in the
  listing, \<open>create_new_user\<close> returns the default profile, the listing is the old one
  with the new name (at its end, in the order of creation in which the model lists a
  directory), the new user's profile loads as the default profile, every other user
  loads as before, and the files of the working directory and the default profile are
  untouched; a well-formed file system stays well-formed.\<close>

theorem create_new_user_creates:
  assumes "default_profile_json fs = Some dp" and "get_user_list fs = Inr names"
    and "username \<notin> set names" and "create_new_user fs username = (fs', r)"
  shows "r = Inr dp \<and> get_user_list fs' = Inr (names @ [username])
         \<and> load_user_profile fs' username = Inr dp
         \<and> (\<forall>name. name \<noteq> username \<longrightarrow> load_user_profile fs' name = load_user_profile fs name)
         \<and> app_files fs' = app_files fs \<and> default_profile_json fs' = Some dp
         \<and> (wf_files fs \<longrightarrow> wf_files fs')"
proof -
  from assms(2) have names: "names = dict_keys (user_dirs fs)"
    by (rule get_user_list_Inr)
  with assms(3) have absent: "username \<notin> fst ` set (user_dirs fs)"
    by simp
  then have none: "user_dir_of fs username = None"
    by (simp add: user_dir_of_eq_None_iff)
  from assms(1,4) none have fs': "fs' = put_user_dir fs username (new_dir\<lparr>base_profile_json := Some dp\<rparr>)"
    and r: "r = Inr dp"
    by (simp_all add: create_new_user_eq)
  show ?thesis
    using absent assms(1)
    by (simp add: r fs' get_user_list_put dict_set_absent names load_user_profile_eq wf_files_put
        wf_user_dir_def new_dir_def)
qed

theorem create_new_user_creates_witness:
  "get_user_list (fst (create_new_user ex_files ''bob'')) = Inr [''ann'', ''bob'']
   \<and> load_user_profile (fst (create_new_user ex_files ''bob'')) ''bob'' = Inr ex_default
   \<and> load_user_profile (fst (create_new_user ex_files ''bob'')) ''ann'' = Inr empty_sections
   \<and> snd (create_new_user ex_files ''bob'') = Inr ex_default"
  using create_new_user_creates [of ex_files ex_default "[''ann'']" "''bob''"
      "fst (create_new_user ex_files ''bob'')" "snd (create_new_user ex_files ''bob'')"]
  by (simp add: ex_files_def get_user_list_def load_user_profile_eq user_dir_of_def user_dirs_def)

text \<open>C29. A creation that fails leaves half a user behind: when
  \<open>defaults/base_profile.json\<close> is missing, \<open>create_new_user\<close> fails with that file's
  \<open>FileNotFoundError\<close>, but the directory it made first stays. The name is in the
  listing from then on (the last entry, in the model's order of creation), its profile
  cannot be loaded, and nothing else has changed.\<close>

theorem create_new_user_half_done:
  assumes "default_profile_json fs = None" and "get_user_list fs = Inr names"
    and "username \<notin> set names" and "create_new_user fs username = (fs', r)"
  shows "r = Inl (File_Not_Found ''defaults/base_profile.json'')
         \<and> get_user_list fs' = Inr (names @ [username])
         \<and> load_user_profile fs' username = Inl (File_Not_Found (base_profile_path username))
         \<and> (\<forall>name. name \<noteq> username \<longrightarrow> user_dir_of fs' name = user_dir_of fs name)
         \<and> app_files fs' = app_files fs"
proof -
  from assms(2) have names: "names = dict_keys (user_dirs fs)"
    by (rule get_user_list_Inr)
  with assms(3) have absent: "username \<notin> fst ` set (user_dirs fs)"
    by simp
  then have none: "user_dir_of fs username = None"
    by (simp add: user_dir_of_eq_None_iff)
  from assms(1,4) none have fs': "fs' = put_user_dir fs username new_dir"
    and r: "r = Inl (File_Not_Found ''defaults/base_profile.json'')"
    by (simp_all add: create_new_user_eq makedirs_user_def)
  show ?thesis
    using absent
    by (simp add: r fs' get_user_list_put dict_set_absent names load_user_profile_eq new_dir_def)
qed

theorem create_new_user_half_done_witness:
  "snd (create_new_user (ex_files\<lparr>default_profile_json := None\<rparr>) ''bob'')
     = Inl (File_Not_Found ''defaults/base_profile.json'')
   \<and> get_user_list (fst (create_new_user (ex_files\<lparr>default_profile_json := None\<rparr>) ''bob''))
     = Inr [''ann'', ''bob'']
   \<and> load_user_profile (fst (create_new_user (ex_files\<lparr>default_profile_json := None\<rparr>) ''bob''))
       ''bob'' = Inl (File_Not_Found ''users/bob/base_profile.json'')"
  using create_new_user_half_done [of "ex_files\<lparr>default_profile_json := None\<rparr>" "[''ann'']"
      "''bob''" "fst (create_new_user (ex_files\<lparr>default_profile_json := None\<rparr>) ''bob'')"
      "snd (create_new_user (ex_files\<lparr>default_profile_json := None\<rparr>) ''bob'')"]
  by (simp add: ex_files_def get_user_list_def base_profile_path_def)

text \<open>Saving and loading a user profile: after a \<open>save_user_profile\<close> that
  succeeds (the user's directory exists) the profile loads back as saved, every other
  user loads as before, and the listing, all templates and the other files are
  unchanged.\<close>

theorem user_profile_roundtrip:
  assumes "save_user_profile fs username p = Inr fs'"
  shows "load_user_profile fs' username = Inr p
     \<and> (\<forall>name. name \<noteq> username \<longrightarrow> load_user_profile fs' name = load_user_profile fs name)
     \<and> get_user_list fs' = Inr (dict_keys (user_dirs fs))
     \<and> (\<forall>name. map_option templates_dir (user_dir_of fs' name)
                  = map_option templates_dir (user_dir_of fs name))
     \<and> app_files fs' = app_files fs \<and> default_profile_json fs' = default_profile_json fs"
  using assms by (simp add: save_user_profile_frame)

theorem user_profile_roundtrip_witness:
  "(\<exists>fs'. save_user_profile ex_files ''ann'' ex_default = Inr fs'
      \<and> load_user_profile fs' ''ann'' = Inr ex_default \<and> get_user_list fs' = Inr [''ann''])
   \<and> save_user_profile ex_files ''bob'' ex_default
       = Inl (File_Not_Found ''users/bob/base_profile.json'')"
proof -
  obtain fs' where fs': "save_user_profile ex_files ''ann'' ex_default = Inr fs'"
    by (simp add: save_user_profile_Inr ex_files_def user_dir_of_def user_dirs_def)
  from user_profile_roundtrip [OF fs'] fs' show ?thesis
    by (simp add: save_user_profile_Inl base_profile_path_def)
       (simp add: ex_files_def user_dir_of_def user_dirs_def)
qed

text \<open>C30. The user files implement a store of profiles by name: loading a user's
  profile is looking the name up in \<open>profile_store\<close>, with \<open>FileNotFoundError\<close> for a
  name that has no profile; a save that succeeds updates the store at that name and
  nowhere else, and it succeeds exactly for the listed users; creating a user with the
  default profile in place updates the store at the new name with the default profile,
  and without it leaves the store as it is.\<close>

theorem profile_store_refinement:
  "load_user_profile fs username =
     (case profile_store fs username of
        None \<Rightarrow> Inl (File_Not_Found (base_profile_path username))
      | Some p \<Rightarrow> Inr p)
   \<and> (save_user_profile fs username p = Inr fs' \<longrightarrow>
        profile_store fs' = (profile_store fs)(username \<mapsto> p))
   \<and> ((\<exists>fs'. save_user_profile fs username p = Inr fs')
        \<longleftrightarrow> username \<in> set (dict_keys (user_dirs fs)))
   \<and> (default_profile_json fs = Some dp \<longrightarrow>
        snd (create_new_user fs username) = Inr dp
        \<and> profile_store (fst (create_new_user fs username)) = (profile_store fs)(username \<mapsto> dp))
   \<and> (default_profile_json fs = None \<longrightarrow>
        profile_store (fst (create_new_user fs username)) = profile_store fs)"
proof -
  have "(\<exists>fs'. save_user_profile fs username p = Inr fs') \<longleftrightarrow> user_dir_of fs username \<noteq> None"
    by (auto simp: save_user_profile_Inr)
  then show ?thesis
    by (auto simp: load_user_profile_store save_user_profile_Inr create_new_user_eq
        user_dir_of_eq_None_iff split: option.splits)
qed

theorem profile_store_refinement_witness:
  "profile_store ex_files ''ann'' = Some empty_sections
   \<and> load_user_profile ex_files ''ann'' = Inr empty_sections
   \<and> profile_store (fst (create_new_user ex_files ''bob'')) ''bob'' = Some ex_default
   \<and> profile_store (fst (create_new_user ex_files ''bob'')) ''ann'' = Some empty_sections"
  using profile_store_refinement [of ex_files "''ann''" ex_default _ ex_default]
    profile_store_refinement [of ex_files "''bob''" ex_default _ ex_default]
  by (simp add: ex_files_def profile_store_def user_dir_of_def user_dirs_def)

end
