(* ===== verification/Preferences_View.thy ===== *)
theory Preferences_View
  imports User_Files
begin

text \<open>
  The preference screen, \<open>user_preferences_view\<close> of \<open>bu1.py\<close>: one run as a function
  from the file system, the user name and the user's input to the new file system and
  the message.

  The view loads the user's profile and walks it three times. The scalar loop and the
  tag loop run over the profile's own items and overwrite each value with what the
  widget returns (\<open>pref_scalars\<close>, \<open>pref_tags\<close>); the categorical loop runs over the
  configured categories and writes one selection per category, creating the section if
  the profile lacks it (\<open>pref_categoricals\<close>). \<open>Save Preferences\<close> writes the profile
  back.

  The number widget shows a stored weight \<open>v\<close> as the integer \<open>int(v * 10)\<close> on a scale
  from 0 to 10 and returns an integer. The scenario view divides what the widget
  returns by ten; this view stores it as it is.
\<close>

section \<open>Input and output\<close>

record pref_input =
  pref_numbers :: "string \<rightharpoonup> int"
  pref_checks :: "string \<rightharpoonup> bool"
  pref_selected :: "string \<rightharpoonup> string list"
  pref_save :: bool

datatype pref_message = Preferences_Saved

section \<open>The code\<close>

definition pref_scalars :: "pref_input \<Rightarrow> profile \<Rightarrow> profile" where
  "pref_scalars inp profile =
     fold (\<lambda>(trait, value) profile.
        profile\<lparr>scalars := Some (dict_set (get_scalars profile) trait
          (of_int (widget_value (pref_numbers inp trait) (py_int (value * 10)))))\<rparr>)
       (get_scalars profile) profile"

definition pref_tags :: "pref_input \<Rightarrow> profile \<Rightarrow> profile" where
  "pref_tags inp profile =
     fold (\<lambda>(tag, value) profile.
        profile\<lparr>tags := Some (dict_set (get_tags profile) tag
          (if widget_value (pref_checks inp tag) (value = 1) then 1 else 0))\<rparr>)
       (get_tags profile) profile"

definition pref_categoricals ::
  "pref_input \<Rightarrow> (string, string list) dict \<Rightarrow> profile \<Rightarrow> profile" where
  "pref_categoricals inp options profile =
     fold (\<lambda>(cat, choices) profile.
        let selected = widget_value (pref_selected inp cat)
              (dict_get (get_categoricals profile) cat [])
        in profile\<lparr>categoricals := Some (dict_set (get_categoricals profile) cat selected)\<rparr>)
       options profile"

definition user_preferences_view ::
  "files \<Rightarrow> string \<Rightarrow> pref_input \<Rightarrow> error + (files \<times> pref_message option)" where
  "user_preferences_view fs username inp =
     (case load_user_profile fs username of Inl e \<Rightarrow> Inl e | Inr profile \<Rightarrow>
      let profile = pref_scalars inp profile;
          profile = pref_tags inp profile
      in case load_categorical_options (app_files fs) of Inl e \<Rightarrow> Inl e | Inr options \<Rightarrow>
      let profile = pref_categoricals inp options profile
      in if pref_save inp then
           (case save_user_profile fs username profile of
              Inl e \<Rightarrow> Inl e
            | Inr fs' \<Rightarrow> Inr (fs', Some Preferences_Saved))
         else Inr (fs, None))"

section \<open>Reference definitions\<close>

definition number_shown :: "pref_input \<Rightarrow> string \<Rightarrow> score \<Rightarrow> int" where
  "number_shown inp trait value = widget_value (pref_numbers inp trait) (py_int (value * 10))"

definition check_shown :: "pref_input \<Rightarrow> string \<Rightarrow> int \<Rightarrow> int" where
  "check_shown inp tag value = (if widget_value (pref_checks inp tag) (value = 1) then 1 else 0)"

definition selection_shown :: "pref_input \<Rightarrow> string \<Rightarrow> string list option \<Rightarrow> string list" where
  "selection_shown inp cat old =
     widget_value (pref_selected inp cat) (case old of None \<Rightarrow> [] | Some sel \<Rightarrow> sel)"

definition edited_preferences ::
  "pref_input \<Rightarrow> (string, string list) dict \<Rightarrow> profile \<Rightarrow> profile" where
  "edited_preferences inp options p =
     \<lparr>scalars = map_option (dict_remap (\<lambda>trait value. of_int (number_shown inp trait value)))
                 (scalars p),
      tags = map_option (dict_remap (check_shown inp)) (tags p),
      categoricals = (if options = [] then categoricals p
         else Some (dict_fill (selection_shown inp) (dict_keys options) (get_categoricals p)))\<rparr>"

definition valid_pref_input :: "pref_input \<Rightarrow> bool" where
  "valid_pref_input inp \<longleftrightarrow>
     (\<forall>n \<in> ran (pref_numbers inp). 0 \<le> n \<and> n \<le> 10)
     \<and> (\<forall>sel \<in> ran (pref_selected inp). distinct sel)"

definition ex_user :: profile where
  "ex_user = \<lparr>scalars = Some [(''ambiance'', 1/2), (''price'', 3/10)],
     tags = Some [(''quiet'', 1)], categoricals = None\<rparr>"

definition ex_pref_files :: files where
  "ex_pref_files = ex_files\<lparr>users_dir := Some [(''ann'',
     \<lparr>base_profile_json = Some ex_user, templates_dir = None\<rparr>)]\<rparr>"

definition ex_pref_untouched :: pref_input where
  "ex_pref_untouched = \<lparr>pref_numbers = Map.empty, pref_checks = Map.empty,
     pref_selected = Map.empty, pref_save = True\<rparr>"

section \<open>The three loops\<close>

lemma pref_scalars_eq:
  assumes "dict_wf (get_scalars p)"
  shows "pref_scalars inp p
     = p\<lparr>scalars := map_option (dict_remap (\<lambda>trait value. of_int (number_shown inp trait value)))
                       (scalars p)\<rparr>"
proof (cases "get_scalars p = []")
  case True
  then show ?thesis
    by (cases "scalars p") (simp_all add: pref_scalars_def)
next
  case False
  then obtain d where d: "scalars p = Some d" "d \<noteq> []"
    by (cases "scalars p") auto
  with assms show ?thesis
    using fold_own_items [of d "\<lambda>trait value. of_int (number_shown inp trait value)"]
    by (simp add: pref_scalars_def fold_scalars_section number_shown_def)
qed

lemma pref_tags_eq:
  assumes "dict_wf (get_tags p)"
  shows "pref_tags inp p = p\<lparr>tags := map_option (dict_remap (check_shown inp)) (tags p)\<rparr>"
proof (cases "get_tags p = []")
  case True
  then show ?thesis
    by (cases "tags p") (simp_all add: pref_tags_def)
next
  case False
  then obtain d where d: "tags p = Some d" "d \<noteq> []"
    by (cases "tags p") auto
  with assms show ?thesis
    using fold_own_items [of d "check_shown inp"]
    by (simp add: pref_tags_def fold_tags_section check_shown_def [abs_def])
qed

lemma pref_categoricals_Nil [simp]: "pref_categoricals inp [] p = p"
  by (simp add: pref_categoricals_def)

lemma pref_categoricals_Cons:
  "pref_categoricals inp ((c, choices) # cs) p = pref_categoricals inp cs
     (p\<lparr>categoricals := Some (dict_set (get_categoricals p) c
        (selection_shown inp c (map_of (get_categoricals p) c)))\<rparr>)"
  by (simp add: pref_categoricals_def selection_shown_def dict_get_def Let_def)

lemma pref_categoricals_sections:
  "scalars (pref_categoricals inp cs p) = scalars p"
  "tags (pref_categoricals inp cs p) = tags p"
  "get_categoricals (pref_categoricals inp cs p)
     = dict_fill (selection_shown inp) (dict_keys cs) (get_categoricals p)"
  "categoricals (pref_categoricals inp cs p)
     = (if cs = [] then categoricals p
        else Some (dict_fill (selection_shown inp) (dict_keys cs) (get_categoricals p)))"
  by (induction cs arbitrary: p) (auto simp: pref_categoricals_Cons)

lemma pref_loops_eq:
  assumes "dict_wf (get_scalars p)" and "dict_wf (get_tags p)"
  shows "pref_categoricals inp options (pref_tags inp (pref_scalars inp p))
     = edited_preferences inp options p"
  using assms
  by (simp add: pref_tags_eq pref_scalars_eq edited_preferences_def pref_categoricals_sections
      profile.equality)

section \<open>The view\<close>

lemma load_user_profile_Inr:
  "load_user_profile fs username = Inr p \<longleftrightarrow>
     (\<exists>d. user_dir_of fs username = Some d \<and> base_profile_json d = Some p)"
  by (auto simp: load_user_profile_eq load_json_Inr_iff split: option.splits)

lemma user_preferences_view_eq:
  assumes "user_dir_of fs username = Some d" and "base_profile_json d = Some p"
    and "dict_wf (get_scalars p)" and "dict_wf (get_tags p)"
    and "categoricals_json (app_files fs) = Some options"
  shows "user_preferences_view fs username inp =
     (if pref_save inp
      then Inr (put_user_dir fs username
                  (d\<lparr>base_profile_json := Some (edited_preferences inp options p)\<rparr>),
                Some Preferences_Saved)
      else Inr (fs, None))"
  using assms
  by (simp add: user_preferences_view_def load_user_profile_eq load_categorical_options_def
      pref_loops_eq save_user_profile_def save_json_def Let_def)

lemma user_preferences_view_Inl:
  "user_preferences_view fs username inp = Inl e \<longleftrightarrow>
     load_user_profile fs username = Inl e
     \<or> (\<exists>p. load_user_profile fs username = Inr p) \<and> categoricals_json (app_files fs) = None
        \<and> e = File_Not_Found ''categoricals.json''"
proof (cases "load_user_profile fs username")
  case (Inl e')
  then show ?thesis
    by (auto simp: user_preferences_view_def)
next
  case (Inr p)
  then obtain d where "user_dir_of fs username = Some d"
    by (auto simp: load_user_profile_Inr)
  with Inr show ?thesis
    by (cases "categoricals_json (app_files fs)")
       (auto simp: user_preferences_view_def load_categorical_options_def save_user_profile_def
          Let_def)
qed

lemma map_of_edited_scalars:
  "map_of (get_scalars (edited_preferences inp options p)) trait
     = map_option (\<lambda>v. of_int (number_shown inp trait v)) (map_of (get_scalars p) trait)"
  by (cases "scalars p") (simp_all add: edited_preferences_def map_of_dict_remap)

lemma map_of_edited_tags:
  "map_of (get_tags (edited_preferences inp options p)) tag
     = map_option (check_shown inp tag) (map_of (get_tags p) tag)"
  by (cases "tags p") (simp_all add: edited_preferences_def map_of_dict_remap)

lemma keys_edited_preferences:
  "dict_keys (get_scalars (edited_preferences inp options p)) = dict_keys (get_scalars p)"
  "dict_keys (get_tags (edited_preferences inp options p)) = dict_keys (get_tags p)"
  "set (dict_keys (get_categoricals (edited_preferences inp options p)))
     = set (dict_keys (get_categoricals p)) \<union> set (dict_keys options)"
  by (cases "scalars p"; cases "tags p"; simp add: edited_preferences_def keys_dict_fill)+

lemma wf_tags_remap_checks: "dict_wf d \<Longrightarrow> wf_tags (dict_remap (check_shown inp) d)"
  by (simp add: wf_tags_def list_all_iff) (auto simp: dict_remap_def check_shown_def)

lemma ex_pref_view:
  "user_preferences_view ex_pref_files ''ann'' ex_pref_untouched
     = Inr (ex_pref_files\<lparr>users_dir := Some [(''ann'', \<lparr>base_profile_json = Some
          \<lparr>scalars = Some [(''ambiance'', 5), (''price'', 3)], tags = Some [(''quiet'', 1)],
           categoricals = Some [(''music'', [])]\<rparr>, templates_dir = None\<rparr>)]\<rparr>,
        Some Preferences_Saved)"
  by (simp add: user_preferences_view_def ex_pref_files_def ex_files_def ex_user_def
      ex_pref_untouched_def user_files_eval load_categorical_options_def pref_scalars_def
      pref_tags_def pref_categoricals_def py_int_def save_json_def)

lemma selection_shown_idem [simp]:
  "selection_shown inp c (Some (selection_shown inp c old)) = selection_shown inp c old"
  by (simp add: selection_shown_def widget_value_def split: option.splits)

lemma map_of_edited_categoricals:
  "map_of (get_categoricals (edited_preferences inp options p)) cat
     = (if cat \<in> set (dict_keys options)
        then Some (selection_shown inp cat (map_of (get_categoricals p) cat))
        else map_of (get_categoricals p) cat)"
  by (auto simp: edited_preferences_def map_of_dict_fill)

lemma user_preferences_view_frame:
  assumes "user_preferences_view fs username inp = Inr (fs', msg)"
  shows "app_files fs' = app_files fs" and "default_profile_json fs' = default_profile_json fs"
    and "dict_keys (user_dirs fs') = dict_keys (user_dirs fs)"
    and "name \<noteq> username \<Longrightarrow> load_user_profile fs' name = load_user_profile fs name"
    and "\<exists>p. load_user_profile fs' username = Inr p"
    and "map_option templates_dir (user_dir_of fs' name) = map_option templates_dir (user_dir_of fs name)"
    and "wf_files fs \<Longrightarrow> wf_files fs'"
proof -
  from assms obtain p where p: "load_user_profile fs username = Inr p"
    by (cases "load_user_profile fs username") (auto simp: user_preferences_view_def)
  from assms consider "fs' = fs" | p' where "save_user_profile fs username p' = Inr fs'"
    by (auto simp: user_preferences_view_def Let_def split: sum.splits if_splits)
  then have "app_files fs' = app_files fs \<and> default_profile_json fs' = default_profile_json fs
    \<and> dict_keys (user_dirs fs') = dict_keys (user_dirs fs)
    \<and> (name \<noteq> username \<longrightarrow> load_user_profile fs' name = load_user_profile fs name)
    \<and> (\<exists>p. load_user_profile fs' username = Inr p)
    \<and> map_option templates_dir (user_dir_of fs' name) = map_option templates_dir (user_dir_of fs name)
    \<and> (wf_files fs \<longrightarrow> wf_files fs')"
  proof cases
    case 1
    with p show ?thesis by simp
  next
    case 2
    then show ?thesis
      by (simp add: save_user_profile_other load_after_save wf_files_save)
  qed
  then show "app_files fs' = app_files fs" "default_profile_json fs' = default_profile_json fs"
    "dict_keys (user_dirs fs') = dict_keys (user_dirs fs)"
    "name \<noteq> username \<Longrightarrow> load_user_profile fs' name = load_user_profile fs name"
    "\<exists>p. load_user_profile fs' username = Inr p"
    "map_option templates_dir (user_dir_of fs' name) = map_option templates_dir (user_dir_of fs name)"
    "wf_files fs \<Longrightarrow> wf_files fs'"
    by blast+
qed

section \<open>Properties of the preference view\<close>

text \<open>C27. Saving preferences: for a user whose profile loads and with the category file
  in place, \<open>Save Preferences\<close> writes the profile the three loops produced to that
  user's \<open>base_profile.json\<close> and reports it; every other user's profile, the user
  listing, the files of the working directory and the default profile are unchanged.\<close>

theorem preferences_save_stores:
  assumes "load_user_profile fs username = Inr p"
    and "categoricals_json (app_files fs) = Some options" and "pref_save inp"
  shows "\<exists>fs'. user_preferences_view fs username inp = Inr (fs', Some Preferences_Saved)
     \<and> load_user_profile fs' username
         = Inr (pref_categoricals inp options (pref_tags inp (pref_scalars inp p)))
     \<and> (\<forall>name. name \<noteq> username \<longrightarrow> load_user_profile fs' name = load_user_profile fs name)
     \<and> get_user_list fs' = Inr (dict_keys (user_dirs fs))
     \<and> app_files fs' = app_files fs \<and> default_profile_json fs' = default_profile_json fs"
proof -
  let ?p = "pref_categoricals inp options (pref_tags inp (pref_scalars inp p))"
  from assms(1) obtain d where "user_dir_of fs username = Some d"
    by (auto simp: load_user_profile_Inr)
  then obtain fs' where fs': "save_user_profile fs username ?p = Inr fs'"
    by (auto simp: save_user_profile_Inr)
  then have "user_preferences_view fs username inp = Inr (fs', Some Preferences_Saved)"
    using assms by (simp add: user_preferences_view_def load_categorical_options_def)
  with fs' show ?thesis
    by (simp add: save_user_profile_frame)
qed

theorem preferences_save_stores_witness:
  "\<exists>fs'. user_preferences_view ex_pref_files ''ann'' ex_pref_untouched
           = Inr (fs', Some Preferences_Saved)
     \<and> load_user_profile fs' ''ann''
         = Inr \<lparr>scalars = Some [(''ambiance'', 5), (''price'', 3)], tags = Some [(''quiet'', 1)],
                categoricals = Some [(''music'', [])]\<rparr>"
proof -
  have "pref_categoricals ex_pref_untouched [(''music'', [''jazz'', ''rock''])]
          (pref_tags ex_pref_untouched (pref_scalars ex_pref_untouched ex_user))
        = \<lparr>scalars = Some [(''ambiance'', 5), (''price'', 3)], tags = Some [(''quiet'', 1)],
           categoricals = Some [(''music'', [])]\<rparr>"
    by (simp add: ex_user_def ex_pref_untouched_def pref_scalars_def pref_tags_def
        pref_categoricals_def py_int_def)
  with preferences_save_stores [of ex_pref_files "''ann''" ex_user
      "[(''music'', [''jazz'', ''rock''])]" ex_pref_untouched]
  show ?thesis
    by (auto simp: ex_pref_files_def ex_files_def ex_pref_untouched_def load_user_profile_eq
        user_dir_of_def user_dirs_def)
qed

text \<open>What the loops store, key by key, for a profile with unique keys: a scalar
  becomes the integer the number widget returns (the user's entry, or \<open>int(v * 10)\<close>
  of the stored value), a tag becomes \<open>1\<close> or \<open>0\<close> as the check box stands (ticked by
  default exactly when the stored flag is \<open>1\<close>), the keys of both sections stay as they
  are, every configured category gets the selection of its widget (by default the stored
  one, or none), and categories that are not configured keep their selection.\<close>

theorem preferences_values:
  assumes "dict_wf (get_scalars p)" and "dict_wf (get_tags p)"
    and "p' = pref_categoricals inp options (pref_tags inp (pref_scalars inp p))"
  shows "map_of (get_scalars p') trait
       = map_option (\<lambda>v. of_int (widget_value (pref_numbers inp trait) (py_int (v * 10))))
           (map_of (get_scalars p) trait)
     \<and> map_of (get_tags p') tag
       = map_option (\<lambda>v. if widget_value (pref_checks inp tag) (v = 1) then 1 else 0)
           (map_of (get_tags p) tag)
     \<and> dict_keys (get_scalars p') = dict_keys (get_scalars p)
     \<and> dict_keys (get_tags p') = dict_keys (get_tags p)
     \<and> map_of (get_categoricals p') cat
       = (if cat \<in> set (dict_keys options)
          then Some (widget_value (pref_selected inp cat) (dict_get (get_categoricals p) cat []))
          else map_of (get_categoricals p) cat)
     \<and> wf_tags (get_tags p')"
proof -
  have "wf_tags (get_tags (edited_preferences inp options p))"
    using assms(2) by (cases "tags p") (simp_all add: edited_preferences_def wf_tags_remap_checks)
  then show ?thesis
    unfolding assms(3) pref_loops_eq [OF assms(1,2)]
    by (simp add: map_of_edited_scalars map_of_edited_tags map_of_edited_categoricals
        keys_edited_preferences number_shown_def check_shown_def [abs_def] selection_shown_def
        dict_get_def)
qed

theorem preferences_values_witness:
  "map_of (get_scalars (pref_categoricals ex_pref_untouched [(''music'', [''jazz''])]
       (pref_tags ex_pref_untouched (pref_scalars ex_pref_untouched ex_user)))) ''price''
     = Some 3
   \<and> map_of (get_categoricals (pref_categoricals ex_pref_untouched [(''music'', [''jazz''])]
       (pref_tags ex_pref_untouched (pref_scalars ex_pref_untouched ex_user)))) ''music''
     = Some []"
  using preferences_values [of ex_user _ ex_pref_untouched "[(''music'', [''jazz''])]"
      "''price''" "''quiet''" "''music''", OF _ _ refl]
  by (simp add: ex_user_def ex_pref_untouched_def py_int_def)

text \<open>C26. The preference view stores weights on the wrong scale: the number widget
  works on the scale 0 to 10, and the scalar loop stores the integer it returns without
  dividing by ten. After the loop a weight shown as \<open>n\<close> is stored as \<open>n\<close>, so the
  profile leaves the range \<open>[0, 1]\<close> of the data model as soon as some \<open>n\<close> is 2 or
  more; and the default that the next visit hands to the widget for this weight,
  \<open>int(value * 10)\<close>, is \<open>10 n\<close>, above the widget's maximum of 10.\<close>

theorem preferences_store_unscaled:
  assumes "dict_wf (get_scalars p)" and "map_of (get_scalars p) trait = Some v"
    and "widget_value (pref_numbers inp trait) (py_int (v * 10)) = n"
  shows "map_of (get_scalars (pref_scalars inp p)) trait = Some (of_int n)
     \<and> (2 \<le> n \<longrightarrow> \<not> wf_profile (pref_scalars inp p))
     \<and> py_int (dict_get (get_scalars (pref_scalars inp p)) trait 0 * 10) = 10 * n"
proof -
  let ?p = "pref_scalars inp p"
  have stored: "map_of (get_scalars ?p) trait = Some (of_int n)"
    using assms by (cases "scalars p") (simp_all add: pref_scalars_eq map_of_dict_remap number_shown_def)
  have "\<not> wf_scalars (get_scalars ?p)" if "2 \<le> n"
  proof
    assume "wf_scalars (get_scalars ?p)"
    then have "in_unit (of_int n)"
      using stored by (auto dest: wf_scalarsD(2) map_of_SomeD)
    with that show False
      by (simp add: in_unit_def)
  qed
  then show ?thesis
    using stored by (simp add: wf_profile_def dict_get_def)
qed

theorem preferences_store_unscaled_witness:
  "map_of (get_scalars (pref_scalars ex_pref_untouched ex_user)) ''ambiance'' = Some 5
   \<and> \<not> wf_profile (pref_scalars ex_pref_untouched ex_user)
   \<and> py_int (dict_get (get_scalars (pref_scalars ex_pref_untouched ex_user)) ''ambiance'' 0 * 10)
       = 50"
  using preferences_store_unscaled [of ex_user "''ambiance''" "1/2" ex_pref_untouched 5]
  by (simp add: ex_user_def ex_pref_untouched_def py_int_def)

text \<open>Without \<open>Save Preferences\<close> nothing is written: a run in which the button is
  not pressed returns the file system as it was, whatever the widgets hold.\<close>

theorem preferences_without_save:
  assumes "\<not> pref_save inp" and "user_preferences_view fs username inp = Inr (fs', m)"
  shows "fs' = fs \<and> m = None"
  using assms
  by (auto simp: user_preferences_view_def Let_def split: sum.splits)

theorem preferences_without_save_witness:
  "user_preferences_view ex_pref_files ''ann'' (ex_pref_untouched\<lparr>pref_numbers := [''price'' \<mapsto> 9],
      pref_save := False\<rparr>) = Inr (ex_pref_files, None)"
proof -
  obtain fs' m where r: "user_preferences_view ex_pref_files ''ann''
      (ex_pref_untouched\<lparr>pref_numbers := [''price'' \<mapsto> 9], pref_save := False\<rparr>) = Inr (fs', m)"
    by (simp add: user_preferences_view_def ex_pref_files_def ex_files_def load_user_profile_eq
        user_dir_of_def user_dirs_def load_categorical_options_def ex_pref_untouched_def)
  with preferences_without_save [OF _ r] show ?thesis
    by (simp add: ex_pref_untouched_def)
qed

text \<open>C32. Errors of the preference view: the run fails exactly when the user's profile
  cannot be loaded, with that error, or when the profile loads and
  \<open>categoricals.json\<close> is missing, with that file's \<open>FileNotFoundError\<close>. Both files are
  read before the only write of the view, which is why a failed run returns no file
  system; saving itself cannot fail.\<close>

theorem preferences_errors:
  "user_preferences_view fs username inp = Inl e \<longleftrightarrow>
     load_user_profile fs username = Inl e
     \<or> (\<exists>p. load_user_profile fs username = Inr p) \<and> categoricals_json (app_files fs) = None
        \<and> e = File_Not_Found ''categoricals.json''"
  by (rule user_preferences_view_Inl)

end
