(* ===== verification/Match_Engine.thy ===== *)
theory Match_Engine
  imports Profile
begin

text \<open>
  The scoring function \<open>match_score\<close> of \<open>bu1.py\<close>, in three layers.

  \<^item> The code: the three loops of the function as it is written. \<open>required_tags_ok\<close> is
    the loop over the requester's tags, which returns \<open>None\<close> from the function at the
    first required tag the venue lacks; \<open>scalar_step\<close> and \<open>categorical_step\<close> are the
    bodies of the two accumulating loops; \<open>match_score\<close> runs them in the order of the
    source, the score starting at \<open>0.0\<close>. \<open>None\<close> is the disqualified venue, as in the
    source.
    \<open>categorical_step_checked\<close> is the categorical loop body with Python's division,
    which raises on a zero divisor; it never does.
  \<^item> Reference definitions: \<open>tags_required\<close>, \<open>scalar_score\<close>, \<open>categorical_bonus\<close> and
    \<open>categorical_score\<close> say what the loops compute without an accumulator.
  \<^item> The abstract specification: profiles as finite maps and sets (\<open>abs_profile\<close>), and
    \<open>spec_match\<close>, the rule of the specification over them. \<open>abs_of\<close> is the
    abstraction function.

  The lemmas connect the layers (each loop against its reference definition, each
  reference definition against the specification), bound the score, and describe how it
  depends on the venue.
\<close>

section \<open>The code\<close>

fun required_tags_ok :: "(string, int) dict \<Rightarrow> (string, int) dict \<Rightarrow> bool" where
  "required_tags_ok [] venue_tags = True"
| "required_tags_ok ((tag, required) # rest) venue_tags =
     (if required = 1 \<and> map_of venue_tags tag \<noteq> Some 1 then False
      else required_tags_ok rest venue_tags)"

definition scalar_step :: "(string, score) dict \<Rightarrow> string \<times> score \<Rightarrow> score \<Rightarrow> score" where
  "scalar_step venue_scalars = (\<lambda>(k, v) score. score + v * dict_get venue_scalars k 0)"

definition categorical_step ::
  "(string, string list) dict \<Rightarrow> string \<times> string list \<Rightarrow> score \<Rightarrow> score" where
  "categorical_step venue_cats = (\<lambda>(cat, user_vals) score.
     let venue_vals = dict_get venue_cats cat [] in
     if user_vals \<noteq> [] \<and> venue_vals \<noteq> [] then
       let overlap = set user_vals \<inter> set venue_vals in
       if overlap \<noteq> {} then score + of_nat (card overlap) / of_nat (length user_vals)
       else score
     else score)"

definition match_score :: "profile \<Rightarrow> profile \<Rightarrow> score option" where
  "match_score user_profile venue_profile =
     (if \<not> required_tags_ok (get_tags user_profile) (get_tags venue_profile) then None
      else Some (fold (categorical_step (get_categoricals venue_profile))
                   (get_categoricals user_profile)
                   (fold (scalar_step (get_scalars venue_profile))
                      (get_scalars user_profile) 0)))"

text \<open>
  Division is total in HOL and \<open>x / 0 = 0\<close>, where Python raises \<open>ZeroDivisionError\<close>.
  \<open>py_truediv\<close> is the division that fails on a zero divisor, and
  \<open>categorical_step_checked\<close> is the body of the categorical loop with it, the guards of
  the source as they are.
\<close>

datatype arith_error = Zero_Division_Error

definition py_truediv :: "score \<Rightarrow> score \<Rightarrow> arith_error + score" where
  "py_truediv x y = (if y = 0 then Inl Zero_Division_Error else Inr (x / y))"

definition categorical_step_checked ::
  "(string, string list) dict \<Rightarrow> string \<times> string list \<Rightarrow> score \<Rightarrow> arith_error + score" where
  "categorical_step_checked venue_cats = (\<lambda>(cat, user_vals) score.
     let venue_vals = dict_get venue_cats cat [] in
     if user_vals \<noteq> [] \<and> venue_vals \<noteq> [] then
       let overlap = set user_vals \<inter> set venue_vals in
       if overlap \<noteq> {}
       then (case py_truediv (of_nat (card overlap)) (of_nat (length user_vals)) of
               Inl e \<Rightarrow> Inl e
             | Inr share \<Rightarrow> Inr (score + share))
       else Inr score
     else Inr score)"

section \<open>Reference definitions\<close>

definition tags_required :: "(string, int) dict \<Rightarrow> string list" where
  "tags_required user_tags = map fst (filter (\<lambda>(tag, required). required = 1) user_tags)"

definition scalar_score :: "(string, score) dict \<Rightarrow> (string, score) dict \<Rightarrow> score" where
  "scalar_score user_scalars venue_scalars =
     (\<Sum>(k, v)\<leftarrow>user_scalars. v * dict_get venue_scalars k 0)"

definition categorical_bonus :: "string list \<Rightarrow> string list \<Rightarrow> score" where
  "categorical_bonus user_vals venue_vals =
     (if set user_vals \<inter> set venue_vals = {} then 0
      else of_nat (card (set user_vals \<inter> set venue_vals)) / of_nat (length user_vals))"

definition categorical_score ::
  "(string, string list) dict \<Rightarrow> (string, string list) dict \<Rightarrow> score" where
  "categorical_score user_cats venue_cats =
     (\<Sum>(cat, user_vals)\<leftarrow>user_cats. categorical_bonus user_vals (dict_get venue_cats cat []))"

section \<open>The abstract specification\<close>

record abs_profile =
  abs_scalars :: "string \<rightharpoonup> score"
  abs_tags :: "string \<rightharpoonup> int"
  abs_categoricals :: "string \<rightharpoonup> string set"

definition abs_of :: "profile \<Rightarrow> abs_profile" where
  "abs_of p = \<lparr>abs_scalars = map_of (get_scalars p), abs_tags = map_of (get_tags p),
     abs_categoricals = map_option set \<circ> map_of (get_categoricals p)\<rparr>"

definition spec_disqualified :: "abs_profile \<Rightarrow> abs_profile \<Rightarrow> bool" where
  "spec_disqualified r v \<longleftrightarrow> (\<exists>t. abs_tags r t = Some 1 \<and> abs_tags v t \<noteq> Some 1)"

definition spec_scalar :: "abs_profile \<Rightarrow> abs_profile \<Rightarrow> score" where
  "spec_scalar r v =
     (\<Sum>k\<in>dom (abs_scalars r).
        the (abs_scalars r k) * (case abs_scalars v k of None \<Rightarrow> 0 | Some x \<Rightarrow> x))"

definition overlap_share :: "string set \<Rightarrow> string set \<Rightarrow> score" where
  "overlap_share wanted offered =
     (if wanted \<inter> offered = {} then 0
      else of_nat (card (wanted \<inter> offered)) / of_nat (card wanted))"

definition spec_categorical :: "abs_profile \<Rightarrow> abs_profile \<Rightarrow> score" where
  "spec_categorical r v =
     (\<Sum>c\<in>dom (abs_categoricals r).
        overlap_share (the (abs_categoricals r c))
          (case abs_categoricals v c of None \<Rightarrow> {} | Some s \<Rightarrow> s))"

definition spec_match :: "abs_profile \<Rightarrow> abs_profile \<Rightarrow> score option" where
  "spec_match r v =
     (if spec_disqualified r v then None else Some (spec_scalar r v + spec_categorical r v))"

section \<open>Example profiles\<close>

text \<open>
  A requester and three venues used to instantiate the theorems: venue A has the required
  tag and half of the wanted music options, venue B has the tag switched off, venue C is
  venue B with the tag switched on.
\<close>

definition ex_requester :: profile where
  "ex_requester = \<lparr>scalars = Some [(''ambiance'', 8/10), (''price'', 5/10)],
     tags = Some [(''quiet'', 1), (''vip'', 0)],
     categoricals = Some [(''music'', [''jazz'', ''soul''])]\<rparr>"

definition ex_venue_a :: profile where
  "ex_venue_a = \<lparr>scalars = Some [(''ambiance'', 1), (''price'', 2/10)],
     tags = Some [(''quiet'', 1)],
     categoricals = Some [(''music'', [''jazz'', ''rock''])]\<rparr>"

definition ex_venue_b :: profile where
  "ex_venue_b = \<lparr>scalars = Some [(''ambiance'', 3/10), (''price'', 1)],
     tags = Some [(''quiet'', 0)], categoricals = None\<rparr>"

definition ex_venue_c :: profile where
  "ex_venue_c = ex_venue_b\<lparr>tags := Some [(''quiet'', 1)]\<rparr>"

lemmas ex_defs = ex_requester_def ex_venue_a_def ex_venue_b_def ex_venue_c_def

section \<open>The tag gate\<close>

lemma required_tags_ok_iff:
  "required_tags_ok user_tags venue_tags \<longleftrightarrow>
     (\<forall>tag \<in> set (tags_required user_tags). map_of venue_tags tag = Some 1)"
  by (induction user_tags venue_tags rule: required_tags_ok.induct)
     (auto simp: tags_required_def)

lemma tags_required_member:
  "tag \<in> set (tags_required user_tags) \<longleftrightarrow> (tag, 1) \<in> set user_tags"
  by (auto simp: tags_required_def image_iff)

lemma tags_required_map_of:
  "dict_wf user_tags \<Longrightarrow>
     tag \<in> set (tags_required user_tags) \<longleftrightarrow> map_of user_tags tag = Some 1"
  by (simp add: tags_required_member dict_wf_def)

lemma required_tags_ok_spec:
  "dict_wf (get_tags r) \<Longrightarrow>
     required_tags_ok (get_tags r) (get_tags v) \<longleftrightarrow> \<not> spec_disqualified (abs_of r) (abs_of v)"
  by (auto simp: required_tags_ok_iff tags_required_map_of spec_disqualified_def abs_of_def)

lemma required_tags_ok_none_required [simp]:
  "tags_required user_tags = [] \<Longrightarrow> required_tags_ok user_tags venue_tags"
  by (simp add: required_tags_ok_iff)

section \<open>The accumulating loops\<close>

lemma scalar_step_add:
  "scalar_step vs x acc = acc + snd x * dict_get vs (fst x) 0"
  by (simp add: scalar_step_def case_prod_unfold)

lemma categorical_step_add:
  "categorical_step vc x acc = acc + categorical_bonus (snd x) (dict_get vc (fst x) [])"
  by (auto simp: categorical_step_def categorical_bonus_def case_prod_unfold Let_def)

lemma categorical_step_checked_eq:
  "categorical_step_checked vc x acc = Inr (categorical_step vc x acc)"
  by (cases x) (simp add: categorical_step_checked_def categorical_step_def py_truediv_def Let_def)

lemma fold_scalar_step:
  "fold (scalar_step vs) us acc = acc + scalar_score us vs"
  by (simp add: scalar_step_add [abs_def] fold_add_sum_list scalar_score_def case_prod_unfold)

lemma fold_categorical_step:
  "fold (categorical_step vc) uc acc = acc + categorical_score uc vc"
  by (simp add: categorical_step_add [abs_def] fold_add_sum_list categorical_score_def
      case_prod_unfold)

lemma match_score_eq:
  "match_score r v =
     (if required_tags_ok (get_tags r) (get_tags v)
      then Some (scalar_score (get_scalars r) (get_scalars v)
                 + categorical_score (get_categoricals r) (get_categoricals v))
      else None)"
  by (simp add: match_score_def fold_scalar_step fold_categorical_step)

section \<open>Evaluation of the reference definitions\<close>

lemma scalar_score_simps [simp]:
  "scalar_score [] vs = 0"
  "scalar_score ((k, w) # us) vs = w * dict_get vs k 0 + scalar_score us vs"
  by (simp_all add: scalar_score_def)

lemma categorical_score_simps [simp]:
  "categorical_score [] vc = 0"
  "categorical_score ((c, sel) # uc) vc =
     categorical_bonus sel (dict_get vc c []) + categorical_score uc vc"
  by (simp_all add: categorical_score_def)

lemma tags_required_simps [simp]:
  "tags_required [] = []"
  "tags_required ((tag, required) # rest) =
     (if required = 1 then tag # tags_required rest else tags_required rest)"
  by (simp_all add: tags_required_def)

lemma categorical_bonus_Nil [simp]:
  "categorical_bonus [] venue_vals = 0" "categorical_bonus user_vals [] = 0"
  by (simp_all add: categorical_bonus_def)

section \<open>Bounds\<close>

lemma card_overlap_le: "card (set us \<inter> set vs) \<le> length us"
  by (meson List.finite_set card_length card_mono inf_le1 le_trans)

lemma categorical_bonus_ge0: "0 \<le> categorical_bonus us vs"
  by (simp add: categorical_bonus_def)

lemma categorical_bonus_le1: "categorical_bonus us vs \<le> 1"
proof (cases "us = []")
  case True
  then show ?thesis by simp
next
  case False
  then have "(of_nat (card (set us \<inter> set vs)) :: score) \<le> of_nat (length us)"
    using card_overlap_le [of us vs] by (simp only: of_nat_le_iff)
  with False show ?thesis
    by (simp add: categorical_bonus_def divide_le_eq_1)
qed

lemma categorical_bonus_pos_iff:
  "0 < categorical_bonus us vs \<longleftrightarrow> set us \<inter> set vs \<noteq> {}"
proof (cases "set us \<inter> set vs = {}")
  case True
  then show ?thesis by (simp add: categorical_bonus_def)
next
  case False
  then have "us \<noteq> []" and "0 < card (set us \<inter> set vs)"
    by (auto simp: card_gt_0_iff)
  with False show ?thesis
    by (simp add: categorical_bonus_def)
qed

lemma categorical_score_bounds:
  "0 \<le> categorical_score uc vc \<and> categorical_score uc vc \<le> of_nat (length uc)"
  using sum_list_bounds [of uc "\<lambda>(c, sel). categorical_bonus sel (dict_get vc c [])" 1]
  by (auto simp: categorical_score_def categorical_bonus_ge0 categorical_bonus_le1)

lemma scalar_term_bounds:
  "in_unit w \<Longrightarrow> wf_scalars vs \<Longrightarrow> 0 \<le> w * dict_get vs k 0 \<and> w * dict_get vs k 0 \<le> w"
  using wf_scalars_get [of vs k]
  by (auto simp: in_unit_def mult_left_le)

lemma scalar_score_bounds:
  assumes "wf_scalars us" and "wf_scalars vs"
  shows "0 \<le> scalar_score us vs \<and> scalar_score us vs \<le> sum_list (map snd us)"
  using assms(1)
proof (induction us)
  case Nil
  then show ?case by simp
next
  case (Cons a us)
  obtain k w where a: "a = (k, w)" by (cases a)
  with Cons.prems have "in_unit w" and "wf_scalars us" by simp_all
  with Cons.IH scalar_term_bounds [OF \<open>in_unit w\<close> assms(2), of k] a
  show ?case by auto
qed

lemma sum_weights_le_length:
  assumes "wf_scalars us"
  shows "sum_list (map snd us) \<le> of_nat (length us)"
proof -
  have "0 \<le> snd x \<and> snd x \<le> 1" if "x \<in> set us" for x
    using wf_scalarsD(2) [OF assms, of "fst x" "snd x"] that by (simp add: in_unit_def)
  from sum_list_bounds [of us snd 1, OF this] show ?thesis by simp
qed

section \<open>Against the abstract specification\<close>

lemma scalar_score_spec:
  assumes "dict_wf (get_scalars r)"
  shows "scalar_score (get_scalars r) (get_scalars v) = spec_scalar (abs_of r) (abs_of v)"
  using sum_list_dict_sum [OF assms, of "\<lambda>k w. w * dict_get (get_scalars v) k 0"]
  by (simp add: scalar_score_def spec_scalar_def abs_of_def dict_get_def)

lemma categorical_bonus_share:
  "distinct us \<Longrightarrow> categorical_bonus us vs = overlap_share (set us) (set vs)"
  by (simp add: categorical_bonus_def overlap_share_def distinct_card)

lemma set_dict_get_Nil:
  "set (dict_get d c []) = (case map_option set (map_of d c) of None \<Rightarrow> {} | Some s \<Rightarrow> s)"
  by (simp add: dict_get_def split: option.split)

lemma share_sum_spec:
  assumes "dict_wf (get_categoricals r)"
  shows "(\<Sum>(c, sel)\<leftarrow>get_categoricals r.
            overlap_share (set sel) (set (dict_get (get_categoricals v) c [])))
         = spec_categorical (abs_of r) (abs_of v)"
proof -
  let ?uc = "get_categoricals r" and ?vc = "get_categoricals v"
  have "(\<Sum>(c, sel)\<leftarrow>?uc. overlap_share (set sel) (set (dict_get ?vc c [])))
      = (\<Sum>c\<in>dom (map_of ?uc).
          overlap_share (set (the (map_of ?uc c))) (set (dict_get ?vc c [])))"
    by (rule sum_list_dict_sum) (rule assms)
  also have "\<dots> = spec_categorical (abs_of r) (abs_of v)"
    unfolding spec_categorical_def
    by (rule sum.cong) (auto simp: abs_of_def set_dict_get_Nil)
  finally show ?thesis .
qed

lemma categorical_score_spec:
  assumes "wf_categoricals (get_categoricals r)"
  shows "categorical_score (get_categoricals r) (get_categoricals v)
           = spec_categorical (abs_of r) (abs_of v)"
proof -
  let ?uc = "get_categoricals r" and ?vc = "get_categoricals v"
  have "categorical_score ?uc ?vc
          = (\<Sum>(c, sel)\<leftarrow>?uc. overlap_share (set sel) (set (dict_get ?vc c [])))"
    unfolding categorical_score_def
    using wf_categoricalsD(2) [OF assms]
    by (intro arg_cong [where f = sum_list] map_cong refl)
       (auto simp: categorical_bonus_share)
  also have "\<dots> = spec_categorical (abs_of r) (abs_of v)"
    by (rule share_sum_spec) (rule wf_categoricalsD(1) [OF assms])
  finally show ?thesis .
qed

text \<open>
  A selection that repeats an option: the code divides by the length of the list, the
  specification by the size of the set, so the bonus of the code is never above the
  share of the specification, and is below it exactly for a selection with a repetition
  that the venue overlaps.
\<close>

lemma categorical_bonus_vs_share:
  "categorical_bonus us vs \<le> overlap_share (set us) (set vs)"
  "categorical_bonus us vs < overlap_share (set us) (set vs)
     \<longleftrightarrow> \<not> distinct us \<and> set us \<inter> set vs \<noteq> {}"
proof -
  let ?k = "card (set us \<inter> set vs)"
  have le: "card (set us) \<le> length us"
    by (rule card_length)
  have eq: "card (set us) = length us \<longleftrightarrow> distinct us"
    by (auto simp: distinct_card card_distinct)
  show "categorical_bonus us vs \<le> overlap_share (set us) (set vs)"
  proof (cases "set us \<inter> set vs = {}")
    case False
    then have "0 < card (set us)"
      by (auto simp: card_gt_0_iff)
    with le False show ?thesis
      by (simp add: categorical_bonus_def overlap_share_def frac_le)
  qed (simp add: categorical_bonus_def overlap_share_def)
  show "categorical_bonus us vs < overlap_share (set us) (set vs)
     \<longleftrightarrow> \<not> distinct us \<and> set us \<inter> set vs \<noteq> {}"
  proof (cases "set us \<inter> set vs = {}")
    case False
    then have pos: "0 < card (set us)" "0 < ?k"
      by (auto simp: card_gt_0_iff)
    have "(of_nat ?k / of_nat (length us) :: score) < of_nat ?k / of_nat (card (set us))"
      if "card (set us) < length us"
      using that pos by (intro divide_strict_left_mono mult_pos_pos) auto
    moreover have "card (set us) < length us" if "\<not> distinct us"
      using that le eq by simp
    moreover have "card (set us) = length us" if "distinct us"
      using that by (rule distinct_card)
    ultimately show ?thesis
      using False by (auto simp: categorical_bonus_def overlap_share_def)
  qed (simp add: categorical_bonus_def overlap_share_def)
qed

section \<open>Dependence on the venue\<close>

lemma scalar_score_cong:
  "(\<And>k w. (k, w) \<in> set us \<Longrightarrow> map_of vs k = map_of vs' k) \<Longrightarrow>
     scalar_score us vs = scalar_score us vs'"
  unfolding scalar_score_def
  by (intro arg_cong [where f = sum_list] map_cong refl)
     (auto simp: dict_get_def)

lemma categorical_score_cong:
  "(\<And>c sel. (c, sel) \<in> set uc \<Longrightarrow> map_of vc c = map_of vc' c) \<Longrightarrow>
     categorical_score uc vc = categorical_score uc vc'"
  unfolding categorical_score_def
  by (intro arg_cong [where f = sum_list] map_cong refl)
     (auto simp: dict_get_def)

lemma required_tags_ok_cong:
  "(\<And>t r. (t, r) \<in> set ut \<Longrightarrow> map_of vt t = map_of vt' t) \<Longrightarrow>
     required_tags_ok ut vt = required_tags_ok ut vt'"
  by (auto simp: required_tags_ok_iff tags_required_member)

lemma scalar_score_mono:
  assumes "\<And>k w. (k, w) \<in> set us \<Longrightarrow> 0 \<le> w"
    and "\<And>k w. (k, w) \<in> set us \<Longrightarrow> dict_get vs k 0 \<le> dict_get vs' k 0"
  shows "scalar_score us vs \<le> scalar_score us vs'"
  unfolding scalar_score_def
  by (rule sum_list_mono) (auto intro!: mult_left_mono assms)

section \<open>Example scores\<close>

lemma ex_score_a: "match_score ex_requester ex_venue_a = Some (7/5)"
  by (simp add: match_score_def ex_defs scalar_step_def categorical_step_def)

lemma ex_score_b: "match_score ex_requester ex_venue_b = None"
  by (simp add: match_score_def ex_defs)

lemma ex_score_c: "match_score ex_requester ex_venue_c = Some (37/50)"
  by (simp add: match_score_def ex_defs scalar_step_def categorical_step_def)

lemmas ex_scores = ex_score_a ex_score_b ex_score_c

lemma ex_requester_wf: "wf_profile ex_requester"
  by (simp add: wf_profile_def ex_defs in_unit_def)

lemma ex_venue_a_wf: "wf_profile ex_venue_a"
  by (simp add: wf_profile_def ex_defs in_unit_def)

lemma ex_venue_b_wf: "wf_profile ex_venue_b"
  by (simp add: wf_profile_def ex_defs in_unit_def)

section \<open>Properties of the scoring function\<close>

text \<open>C1. Refinement: on a requester whose sections have unique keys and whose selections
  repeat no option, the three loops of \<open>match_score\<close> compute the rule of the
  specification over maps and sets, \<open>spec_match\<close>: disqualification exactly when a
  required tag is not set on the venue, otherwise the dot product over the requester's
  traits plus, per category, the share of the requester's selection the venue offers.
  Nothing is assumed of the venue.\<close>

theorem match_score_refines_spec:
  assumes "dict_wf (get_scalars r)" and "dict_wf (get_tags r)"
    and "wf_categoricals (get_categoricals r)"
  shows "match_score r v = spec_match (abs_of r) (abs_of v)"
  using assms
  by (simp add: match_score_eq spec_match_def required_tags_ok_spec scalar_score_spec
      categorical_score_spec)

theorem match_score_refines_spec_witness:
  "dict_wf (get_scalars ex_requester) \<and> dict_wf (get_tags ex_requester)
   \<and> wf_categoricals (get_categoricals ex_requester)
   \<and> spec_match (abs_of ex_requester) (abs_of ex_venue_a) = Some (7/5)
   \<and> spec_match (abs_of ex_requester) (abs_of ex_venue_b) = None"
  using match_score_refines_spec [of ex_requester ex_venue_a]
    match_score_refines_spec [of ex_requester ex_venue_b]
  by (simp add: ex_score_a ex_score_b) (simp add: ex_defs)

text \<open>C2. The tag gate: \<open>match_score\<close> returns \<open>None\<close> exactly when some tag of the
  requester has the flag \<open>1\<close> and the venue does not have that tag set to \<open>1\<close> (it lacks
  the tag, lacks the whole section, or has another value). Scalars and categoricals play
  no part in it.\<close>

theorem match_score_disqualified_iff:
  "match_score r v = None \<longleftrightarrow>
     (\<exists>(tag, required) \<in> set (get_tags r). required = 1 \<and> map_of (get_tags v) tag \<noteq> Some 1)"
  by (auto simp: match_score_eq required_tags_ok_iff tags_required_member)

theorem match_score_disqualified_iff_witness:
  "match_score ex_requester ex_venue_b = None
   \<and> (\<exists>(tag, required) \<in> set (get_tags ex_requester).
         required = 1 \<and> map_of (get_tags ex_venue_b) tag \<noteq> Some 1)
   \<and> match_score ex_requester \<lparr>scalars = Some [(''ambiance'', 1)], tags = None,
        categoricals = None\<rparr> = None"
  using match_score_disqualified_iff [of ex_requester ex_venue_b]
    match_score_disqualified_iff [of ex_requester
      "\<lparr>scalars = Some [(''ambiance'', 1)], tags = None, categoricals = None\<rparr>"]
  by (simp add: ex_score_b) (simp add: ex_defs)

text \<open>C3. The value of the score: for every pair of profiles the loops return, when the
  gate passes, the sum over the requester's scalars of weight times the venue's value
  (\<open>0\<close> for a trait the venue lacks) plus the sum over the requester's categories of
  the bonus: the number of distinct options both sides selected divided by the length of
  the requester's selection, and \<open>0\<close> when they share none.\<close>

theorem match_score_computes:
  "match_score r v =
     (if \<forall>(tag, required) \<in> set (get_tags r). required = 1 \<longrightarrow> map_of (get_tags v) tag = Some 1
      then Some ((\<Sum>(k, w)\<leftarrow>get_scalars r. w * dict_get (get_scalars v) k 0)
                 + (\<Sum>(c, sel)\<leftarrow>get_categoricals r.
                      categorical_bonus sel (dict_get (get_categoricals v) c [])))
      else None)"
  by (auto simp: match_score_eq required_tags_ok_iff tags_required_member scalar_score_def
      categorical_score_def)

theorem match_score_computes_witness:
  "match_score ex_requester ex_venue_a = Some (8/10 * 1 + 5/10 * (2/10) + 1/2)"
  using match_score_computes [of ex_requester ex_venue_a]
  by (simp add: ex_defs categorical_bonus_def)

text \<open>C7. Bounds: when the scalars of both profiles lie in \<open>[0, 1]\<close>, a score is never
  negative, is at most the sum of the requester's weights plus the number of the
  requester's categories, and so at most the number of the requester's scalars and
  categories together.\<close>

theorem match_score_bounds:
  assumes "wf_scalars (get_scalars r)" and "wf_scalars (get_scalars v)"
    and "match_score r v = Some s"
  shows "0 \<le> s \<and> s \<le> sum_list (map snd (get_scalars r)) + of_nat (length (get_categoricals r))
         \<and> s \<le> of_nat (length (get_scalars r) + length (get_categoricals r))"
  using assms scalar_score_bounds [OF assms(1,2)] sum_weights_le_length [OF assms(1)]
    categorical_score_bounds [of "get_categoricals r" "get_categoricals v"]
  by (auto simp: match_score_eq split: if_splits)

theorem match_score_bounds_witness:
  "wf_scalars (get_scalars ex_requester) \<and> wf_scalars (get_scalars ex_venue_a)
   \<and> match_score ex_requester ex_venue_a = Some (7/5)
   \<and> (0::score) \<le> 7/5 \<and> (7/5::score) \<le> 8/10 + 5/10 + 1 \<and> (7/5::score) \<le> 3"
  using match_score_bounds [of ex_requester ex_venue_a "7/5"] ex_score_a
  by (simp add: ex_defs in_unit_def)

text \<open>C8. The categorical bonus of one category: one pass of the categorical loop never
  lowers the score, raises it by at most \<open>1\<close>, and raises it exactly when the requester's
  selection and the venue's selection for that category share an option; an empty
  requester selection leaves the score unchanged. The division is never by zero: the
  pass with the division that fails on a zero divisor returns the same score, never the
  error.\<close>

theorem categorical_step_bounds:
  "acc \<le> categorical_step vc (c, sel) acc \<and> categorical_step vc (c, sel) acc \<le> acc + 1
   \<and> (acc < categorical_step vc (c, sel) acc \<longleftrightarrow> set sel \<inter> set (dict_get vc c []) \<noteq> {})
   \<and> categorical_step vc (c, []) acc = acc
   \<and> categorical_step_checked vc (c, sel) acc = Inr (categorical_step vc (c, sel) acc)"
  using categorical_bonus_ge0 [of sel "dict_get vc c []"]
    categorical_bonus_le1 [of sel "dict_get vc c []"]
    categorical_bonus_pos_iff [of sel "dict_get vc c []"]
  by (simp add: categorical_step_add categorical_step_checked_eq)

theorem categorical_step_bounds_witness:
  "categorical_step [(''music'', [''jazz'', ''rock''])] (''music'', [''jazz'', ''soul'']) 2 = 5/2
   \<and> categorical_step [(''music'', [''jazz'', ''rock''])] (''food'', [''thai'']) 2 = 2"
  using categorical_step_bounds [of 2 "[(''music'', [''jazz'', ''rock''])]" "''music''"
      "[''jazz'', ''soul'']"]
  by (simp add: categorical_step_def)

text \<open>C23. Only the requester's keys count: two venues that agree on every trait, tag
  and category the requester names get the same result, whatever else they hold. A venue
  is never rewarded or disqualified for an attribute the requester did not ask about.\<close>

theorem match_score_venue_frame:
  assumes "\<forall>(k, w) \<in> set (get_scalars r). map_of (get_scalars v) k = map_of (get_scalars v') k"
    and "\<forall>(t, req) \<in> set (get_tags r). map_of (get_tags v) t = map_of (get_tags v') t"
    and "\<forall>(c, sel) \<in> set (get_categoricals r).
           map_of (get_categoricals v) c = map_of (get_categoricals v') c"
  shows "match_score r v = match_score r v'"
proof -
  have "scalar_score (get_scalars r) (get_scalars v)
      = scalar_score (get_scalars r) (get_scalars v')"
    using assms(1) by (intro scalar_score_cong) auto
  moreover have "categorical_score (get_categoricals r) (get_categoricals v)
      = categorical_score (get_categoricals r) (get_categoricals v')"
    using assms(3) by (intro categorical_score_cong) auto
  moreover have "required_tags_ok (get_tags r) (get_tags v)
      = required_tags_ok (get_tags r) (get_tags v')"
    using assms(2) by (intro required_tags_ok_cong) auto
  ultimately show ?thesis
    by (simp add: match_score_eq)
qed

theorem match_score_venue_frame_witness:
  "match_score ex_requester
     (ex_venue_a\<lparr>scalars := Some ((''parking'', 1) # get_scalars ex_venue_a),
        tags := Some [(''quiet'', 1), (''rooftop'', 1)]\<rparr>) = Some (7/5)"
  using match_score_venue_frame [of ex_requester ex_venue_a
      "ex_venue_a\<lparr>scalars := Some ((''parking'', 1) # get_scalars ex_venue_a),
         tags := Some [(''quiet'', 1), (''rooftop'', 1)]\<rparr>"] ex_score_a
  by (simp add: ex_defs)

text \<open>No requirement, no gate: a requester none of whose tags has the flag \<open>1\<close>
  disqualifies no venue, and the requester with three empty sections (or with no
  section at all) scores every venue \<open>0\<close>.\<close>

theorem match_score_no_required_tags:
  assumes "\<forall>(tag, required) \<in> set (get_tags r). required \<noteq> 1"
  shows "(\<exists>s. match_score r v = Some s) \<and> match_score empty_sections v = Some 0
         \<and> match_score \<lparr>scalars = None, tags = None, categoricals = None\<rparr> v = Some 0"
  using assms
  by (auto simp: match_score_eq required_tags_ok_iff tags_required_member empty_sections_def)

theorem match_score_no_required_tags_witness:
  "match_score (ex_requester\<lparr>tags := Some [(''quiet'', 0), (''vip'', 0)]\<rparr>) ex_venue_b
     = Some (37/50)"
  using match_score_no_required_tags
    [of "ex_requester\<lparr>tags := Some [(''quiet'', 0), (''vip'', 0)]\<rparr>" ex_venue_b]
  by (simp add: match_score_eq ex_defs)

text \<open>The score is not symmetric in its arguments: the requester's weights and
  requirements drive it. The example requester is refused by venue B, while venue B as a
  requester accepts the example requester as a venue.\<close>

theorem match_score_not_commutative:
  "\<exists>r v. match_score r v \<noteq> match_score v r"
proof (intro exI)
  show "match_score ex_requester ex_venue_b \<noteq> match_score ex_venue_b ex_requester"
    by (simp add: match_score_eq ex_defs)
qed

text \<open>C24. Monotonicity: with requester weights in \<open>[0, 1]\<close>, a venue that is at least as
  strong on every trait the requester weighs, and equal in tags and categoricals, is
  qualified whenever the weaker one is and scores at least as much.\<close>

theorem match_score_monotone:
  assumes "wf_scalars (get_scalars r)"
    and "\<forall>(k, w) \<in> set (get_scalars r).
           dict_get (get_scalars v) k 0 \<le> dict_get (get_scalars v') k 0"
    and "tags v' = tags v" and "categoricals v' = categoricals v"
    and "match_score r v = Some s"
  shows "\<exists>s'. match_score r v' = Some s' \<and> s \<le> s'"
proof -
  have "scalar_score (get_scalars r) (get_scalars v)
      \<le> scalar_score (get_scalars r) (get_scalars v')"
    using assms(2) wf_scalarsD(2) [OF assms(1)]
    by (intro scalar_score_mono) (auto simp: in_unit_def)
  with assms(3-5) show ?thesis
    by (auto simp: match_score_eq split: if_splits)
qed

theorem match_score_monotone_witness:
  "match_score ex_requester (ex_venue_a\<lparr>scalars := Some [(''ambiance'', 1), (''price'', 1)]\<rparr>)
     = Some (9/5) \<and> (7/5 :: score) \<le> 9/5"
  using match_score_monotone [of ex_requester ex_venue_a
      "ex_venue_a\<lparr>scalars := Some [(''ambiance'', 1), (''price'', 1)]\<rparr>" "7/5"] ex_score_a
  by (simp add: match_score_eq ex_defs categorical_bonus_def in_unit_def)

end
