(* ===== verification/Ranking.thy ===== *)
theory Ranking
  imports Match_Engine
begin

text \<open>
  The ranking at the end of \<open>user_scenario_view\<close> in \<open>bu1.py\<close>: the loop that scores every
  venue of the collection and keeps the qualified ones, the descending sort, and the cut
  to the three best.

  \<^item> \<open>collect_scores\<close> is the loop over \<open>venues.items()\<close> with its accumulator \<open>scores\<close>;
    a venue whose score is \<open>None\<close> is skipped.
  \<^item> \<open>rank_venues\<close> is the loop followed by \<open>sorted(scores, key=lambda x: x[1],
    reverse=True)\<close>: the ranking of the specification.
  \<^item> \<open>match_venues\<close> is the whole block, with what it puts on the screen as a value of
    \<open>match_display\<close>: the warning when nothing matched, or the number of matches, the
    plural ending of the caption, the number shown and the rows shown. The formatting of
    a score with two decimals is not modelled.
  \<^item> \<open>qualified_scores\<close> is the reference definition of the loop, a comprehension.

  The lemmas give membership, length and key order of the collected scores; the claims
  are the three properties of a ranking (complete and sound, descending, stable) and the
  shape of the display.
\<close>

section \<open>The code\<close>

datatype match_display =
    No_Matches
  | Top_Matches nat string nat "(string \<times> score) list"

fun collect_scores :: "profile \<Rightarrow> venues \<Rightarrow> (string \<times> score) list \<Rightarrow> (string \<times> score) list" where
  "collect_scores session_profile [] scores = scores"
| "collect_scores session_profile ((name, profile) # rest) scores =
     (case match_score session_profile profile of
        None \<Rightarrow> collect_scores session_profile rest scores
      | Some s \<Rightarrow> collect_scores session_profile rest (scores @ [(name, s)]))"

definition rank_venues :: "profile \<Rightarrow> venues \<Rightarrow> (string \<times> score) list" where
  "rank_venues session_profile venues =
     py_sorted_reverse snd (collect_scores session_profile venues [])"

definition match_venues :: "profile \<Rightarrow> venues \<Rightarrow> match_display" where
  "match_venues session_profile venues =
     (let scores = collect_scores session_profile venues [];
          total_matches = length scores
      in if total_matches = 0 then No_Matches
         else let scores = py_sorted_reverse snd scores;
                  shown = min 3 total_matches
              in Top_Matches total_matches (if total_matches \<noteq> 1 then ''es'' else [])
                   shown (take shown scores))"

section \<open>Reference definitions\<close>

definition qualified_venues :: "profile \<Rightarrow> venues \<Rightarrow> venues" where
  "qualified_venues session_profile venues =
     filter (\<lambda>(name, profile). match_score session_profile profile \<noteq> None) venues"

definition qualified_scores :: "profile \<Rightarrow> venues \<Rightarrow> (string \<times> score) list" where
  "qualified_scores session_profile venues =
     map (\<lambda>(name, profile). (name, the (match_score session_profile profile)))
       (qualified_venues session_profile venues)"

definition ex_venues :: venues where
  "ex_venues = [(''A'', ex_venue_a), (''B'', ex_venue_b), (''C'', ex_venue_c)]"

section \<open>The collecting loop\<close>

lemma qualified_venues_simps [simp]:
  "qualified_venues sp [] = []"
  "qualified_venues sp ((name, p) # vs) =
     (if match_score sp p = None then qualified_venues sp vs
      else (name, p) # qualified_venues sp vs)"
  by (simp_all add: qualified_venues_def)

lemma qualified_scores_simps [simp]:
  "qualified_scores sp [] = []"
  "qualified_scores sp ((name, p) # vs) =
     (case match_score sp p of None \<Rightarrow> qualified_scores sp vs
      | Some s \<Rightarrow> (name, s) # qualified_scores sp vs)"
  by (auto simp: qualified_scores_def split: option.split)

lemma collect_scores_eq:
  "collect_scores sp venues scores = scores @ qualified_scores sp venues"
  by (induction sp venues scores rule: collect_scores.induct)
     (simp_all split: option.split)

lemma rank_venues_eq: "rank_venues sp venues = py_sorted_reverse snd (qualified_scores sp venues)"
  by (simp add: rank_venues_def collect_scores_eq)

lemma set_qualified_scores:
  "(name, s) \<in> set (qualified_scores sp venues) \<longleftrightarrow>
     (\<exists>p. (name, p) \<in> set venues \<and> match_score sp p = Some s)"
  by (induction venues) (auto split: option.splits)

lemma length_qualified_scores [simp]:
  "length (qualified_scores sp venues) = length (qualified_venues sp venues)"
  by (simp add: qualified_scores_def)

lemma qualified_scores_Nil_conv [simp]:
  "qualified_scores sp venues = [] \<longleftrightarrow> qualified_venues sp venues = []"
  by (simp add: qualified_scores_def)

lemma names_qualified_scores:
  "map fst (qualified_scores sp venues) = map fst (qualified_venues sp venues)"
  by (simp add: qualified_scores_def case_prod_unfold comp_def)

lemma qualified_scores_with_score:
  "map fst (filter (\<lambda>x. snd x = k) (qualified_scores sp venues))
     = map fst (filter (\<lambda>(name, p). match_score sp p = Some k) venues)"
  by (induction venues) (auto split: option.splits)

lemma qualified_scores_Nil_iff:
  "qualified_scores sp venues = [] \<longleftrightarrow> (\<forall>(name, p) \<in> set venues. match_score sp p = None)"
  by (auto simp: qualified_venues_def filter_empty_conv)

lemma distinct_names_qualified:
  "dict_wf venues \<Longrightarrow> distinct (map fst (qualified_scores sp venues))"
  by (simp add: names_qualified_scores qualified_venues_def dict_wf_def distinct_map_filter)

section \<open>The cut\<close>

lemma sorted_wrt_take_drop:
  assumes "sorted_wrt P xs" and "x \<in> set (take n xs)" and "y \<in> set (drop n xs)"
  shows "P x y"
proof -
  from assms(1) have "sorted_wrt P (take n xs @ drop n xs)" by simp
  with assms(2,3) show ?thesis
    unfolding sorted_wrt_append by blast
qed

lemma match_venues_eq:
  "match_venues sp venues =
     (let n = length (qualified_venues sp venues) in
      if n = 0 then No_Matches
      else Top_Matches n (if n \<noteq> 1 then ''es'' else []) (min 3 n)
             (take (min 3 n) (rank_venues sp venues)))"
  by (simp add: match_venues_def rank_venues_def collect_scores_eq Let_def)

section \<open>Example ranking\<close>

lemma ex_qualified_scores:
  "qualified_scores ex_requester ex_venues = [(''A'', 7/5), (''C'', 37/50)]"
  by (simp add: ex_venues_def ex_scores)

lemma ex_rank: "rank_venues ex_requester ex_venues = [(''A'', 7/5), (''C'', 37/50)]"
  by (simp add: rank_venues_eq ex_qualified_scores py_sorted_reverse_def)

lemma ex_rank_five:
  "rank_venues ex_requester ((''D'', ex_venue_c) # (''E'', ex_venue_a) # ex_venues)
     = [(''E'', 7/5), (''A'', 7/5), (''D'', 37/50), (''C'', 37/50)]"
  by (simp add: rank_venues_eq ex_qualified_scores ex_scores py_sorted_reverse_def)

lemma ex_match_venues:
  "match_venues ex_requester ex_venues = Top_Matches 2 ''es'' 2 [(''A'', 7/5), (''C'', 37/50)]"
  "match_venues ex_requester [] = No_Matches"
  "match_venues ex_requester [(''B'', ex_venue_b)] = No_Matches"
  "match_venues ex_requester ((''D'', ex_venue_c) # (''E'', ex_venue_a) # ex_venues)
     = Top_Matches 4 ''es'' 3 [(''E'', 7/5), (''A'', 7/5), (''D'', 37/50)]"
  by (simp_all add: match_venues_eq ex_rank ex_rank_five Let_def)
     (simp_all add: ex_venues_def ex_scores)

section \<open>Properties of the ranking\<close>

text \<open>C4. The ranking is in descending order of score: in \<open>rank_venues\<close> no venue stands
  before a venue with a strictly higher score.\<close>

theorem rank_venues_sorted:
  "sorted_wrt (\<lambda>x y. snd y \<le> snd x) (rank_venues sp venues)"
  unfolding rank_venues_def by (rule sorted_py_sorted_reverse)

theorem rank_venues_sorted_witness:
  "sorted_wrt (\<lambda>x y. snd y \<le> snd x) [(''A'', 7/5 :: score), (''C'', 37/50)]"
  using rank_venues_sorted [of ex_requester ex_venues] by (simp only: ex_rank)

text \<open>C5. The ranking is sound and complete: a pair (name, score) is in the ranking
  exactly when the collection holds a venue of that name whose \<open>match_score\<close> is that
  score, so disqualified venues are left out and no qualified venue is lost; the ranking
  has one entry per qualified venue, and each venue name occurs once when the names of
  the collection are unique.\<close>

theorem rank_venues_complete:
  "((name, s) \<in> set (rank_venues sp venues) \<longleftrightarrow>
      (\<exists>p. (name, p) \<in> set venues \<and> match_score sp p = Some s))
   \<and> length (rank_venues sp venues)
       = length (filter (\<lambda>(name, p). match_score sp p \<noteq> None) venues)
   \<and> (dict_wf venues \<longrightarrow> distinct (map fst (rank_venues sp venues)))"
  by (simp add: rank_venues_eq set_qualified_scores distinct_names_qualified)
     (simp add: qualified_venues_def)

theorem rank_venues_complete_witness:
  "(''A'', 7/5) \<in> set (rank_venues ex_requester ex_venues)
   \<and> (\<forall>s. (''B'', s) \<notin> set (rank_venues ex_requester ex_venues))
   \<and> length (rank_venues ex_requester ex_venues) = 2
   \<and> dict_wf ex_venues \<and> distinct (map fst (rank_venues ex_requester ex_venues))"
  using rank_venues_complete [of "''A''" "7/5" ex_requester ex_venues]
  by (simp add: ex_rank) (simp add: ex_venues_def)

text \<open>C6. The ranking is stable: the venues that share a score appear in the order in
  which the collection holds them. Ties are therefore decided by the insertion order of
  the venue dictionary, not by the venue name.\<close>

theorem rank_venues_stable:
  "map fst (filter (\<lambda>x. snd x = k) (rank_venues sp venues))
     = map fst (filter (\<lambda>(name, p). match_score sp p = Some k) venues)"
  by (simp add: rank_venues_eq stable_py_sorted_reverse qualified_scores_with_score)

theorem rank_venues_stable_witness:
  "map fst (filter (\<lambda>x. snd x = 0) (rank_venues empty_sections
      [(''zeta'', ex_venue_a), (''alpha'', ex_venue_b)])) = [''zeta'', ''alpha'']"
  using rank_venues_stable [of 0 empty_sections
      "[(''zeta'', ex_venue_a), (''alpha'', ex_venue_b)]"]
  by (simp add: match_score_eq empty_sections_def)

text \<open>C10. What the scenario view shows: the warning exactly when every venue of the
  collection is disqualified (an empty collection included); otherwise the number of
  qualified venues, the ending \<open>es\<close> unless that number is one, and the first
  \<open>min 3 n\<close> entries of the ranking.\<close>

theorem match_venues_display:
  "match_venues sp venues =
     (let n = length (filter (\<lambda>(name, p). match_score sp p \<noteq> None) venues) in
      if \<forall>(name, p) \<in> set venues. match_score sp p = None then No_Matches
      else Top_Matches n (if n \<noteq> 1 then ''es'' else []) (min 3 n)
             (take (min 3 n) (rank_venues sp venues)))"
  using qualified_scores_Nil_iff [of sp venues]
  by (simp add: match_venues_eq Let_def) (simp add: qualified_venues_def)

theorem match_venues_display_witness:
  "match_venues ex_requester ex_venues =
     (let n = length (filter (\<lambda>(name, p). match_score ex_requester p \<noteq> None) ex_venues) in
      if \<forall>(name, p) \<in> set ex_venues. match_score ex_requester p = None then No_Matches
      else Top_Matches n (if n \<noteq> 1 then ''es'' else []) (min 3 n)
             (take (min 3 n) (rank_venues ex_requester ex_venues)))
   \<and> match_venues ex_requester ex_venues
       = Top_Matches 2 ''es'' 2 [(''A'', 7/5), (''C'', 37/50)]
   \<and> match_venues ex_requester [] = No_Matches
   \<and> match_venues ex_requester [(''B'', ex_venue_b)] = No_Matches"
  using match_venues_display [of ex_requester ex_venues] ex_match_venues(1-3) by blast

text \<open>C11. The rows shown are the best: when the view shows rows, there are at most
  three of them, as many as it announces, and every qualified venue that is not shown
  scores no more than any venue that is shown.\<close>

theorem match_venues_top:
  assumes "match_venues sp venues = Top_Matches n sfx k rows"
  shows "length rows = k \<and> k \<le> 3 \<and> k \<le> n
         \<and> (\<forall>x \<in> set rows. \<forall>y \<in> set (drop k (rank_venues sp venues)). snd y \<le> snd x)"
proof -
  from assms have rows: "rows = take k (rank_venues sp venues)"
    and k: "k = min 3 n" and n: "n = length (rank_venues sp venues)"
    by (auto simp: match_venues_eq rank_venues_eq Let_def split: if_splits)
  have "snd y \<le> snd x"
    if "x \<in> set (take k (rank_venues sp venues))" "y \<in> set (drop k (rank_venues sp venues))"
    for x y
    using sorted_wrt_take_drop [OF sorted_py_sorted_reverse that [unfolded rank_venues_def]]
    by simp
  with rows k n show ?thesis by auto
qed

theorem match_venues_top_witness:
  "match_venues ex_requester ((''D'', ex_venue_c) # (''E'', ex_venue_a) # ex_venues)
     = Top_Matches 4 ''es'' 3 [(''E'', 7/5), (''A'', 7/5), (''D'', 37/50)]
   \<and> drop 3 (rank_venues ex_requester ((''D'', ex_venue_c) # (''E'', ex_venue_a) # ex_venues))
     = [(''C'', 37/50)]
   \<and> snd (''C'', 37/50 :: score) \<le> snd (''D'', 37/50 :: score)"
  using match_venues_top [OF ex_match_venues(4)] ex_match_venues(4)
  by (simp add: ex_rank_five)

end
