(* ===== verification/Scenario_View.thy ===== *)
theory Scenario_View
  imports Ranking User_Files
begin

text \<open>
  The scenario screen, \<open>user_scenario_view\<close> of \<open>bu1.py\<close>: one run as a function from
  the file system, the base profile, the user name and the user's input to the new file
  system and what is shown.

  The run reads \<open>venues.json\<close>, makes the user's template directory if it is missing,
  offers the templates found there, and takes a picked template in place of the base
  profile. It then builds the session profile from three widget loops: one number per
  scalar of the base profile, divided by ten (\<open>scenario_scalars\<close>), one check box per tag
  of the base profile (\<open>scenario_tags\<close>), one multi-select per configured category
  (\<open>scenario_categoricals\<close>). \<open>Save Scenario Template\<close> with a name writes the session
  profile as a template and restarts the script; otherwise the run ends in the ranking of
  theory \<open>Ranking\<close> on the session profile.

  The directory is made before the later reads can fail, so the function returns the
  file system beside the error. Templates are the \<open>.json\<close> files of the directory, named
  without the extension; other files there are not modelled.
\<close>

section \<open>Input and output\<close>

record scenario_input =
  template_picked :: "string option"
  sc_numbers :: "string \<rightharpoonup> int"
  sc_checks :: "string \<rightharpoonup> bool"
  sc_selected :: "string \<rightharpoonup> string list"
  template_name_typed :: "string option"
  save_template_pressed :: bool

datatype scenario_output =
    Template_Saved string
  | Scenario_Shown "string option" bool profile match_display

section \<open>The code\<close>

definition no_template :: string where
  "no_template = ''None''"

definition templates_of :: "files \<Rightarrow> string \<Rightarrow> (string, profile) dict" where
  "templates_of fs username =
     (case user_dir_of fs username of
        None \<Rightarrow> []
      | Some d \<Rightarrow> section_or_empty (templates_dir d))"

definition makedirs_templates :: "files \<Rightarrow> string \<Rightarrow> files" where
  "makedirs_templates fs username =
     (let fs = makedirs_user fs username
      in case user_dir_of fs username of
           None \<Rightarrow> fs
         | Some d \<Rightarrow> (case templates_dir d of
                        Some ts \<Rightarrow> fs
                      | None \<Rightarrow> put_user_dir fs username (d\<lparr>templates_dir := Some []\<rparr>)))"

definition template_path :: "string \<Rightarrow> string \<Rightarrow> string" where
  "template_path username name = ''users/'' @ username @ ''/templates/'' @ name @ ''.json''"

definition save_template :: "files \<Rightarrow> string \<Rightarrow> string \<Rightarrow> profile \<Rightarrow> error + files" where
  "save_template fs username name profile =
     (case user_dir_of fs username of
        None \<Rightarrow> Inl (File_Not_Found (template_path username name))
      | Some d \<Rightarrow> (case templates_dir d of
          None \<Rightarrow> Inl (File_Not_Found (template_path username name))
        | Some ts \<Rightarrow> Inr (put_user_dir fs username
            (d\<lparr>templates_dir := Some (dict_set ts name profile)\<rparr>))))"

definition scenario_scalars :: "scenario_input \<Rightarrow> profile \<Rightarrow> profile \<Rightarrow> profile" where
  "scenario_scalars inp base_profile session_profile =
     fold (\<lambda>(trait, value) session_profile.
        session_profile\<lparr>scalars := Some (dict_set (get_scalars session_profile) trait
          (of_int (widget_value (sc_numbers inp trait) (py_int (value * 10))) / 10))\<rparr>)
       (get_scalars base_profile) session_profile"

definition scenario_tags :: "scenario_input \<Rightarrow> profile \<Rightarrow> profile \<Rightarrow> profile" where
  "scenario_tags inp base_profile session_profile =
     fold (\<lambda>(tag, value) session_profile.
        session_profile\<lparr>tags := Some (dict_set (get_tags session_profile) tag
          (if widget_value (sc_checks inp tag) (value = 1) then 1 else 0))\<rparr>)
       (get_tags base_profile) session_profile"

definition scenario_categoricals ::
  "scenario_input \<Rightarrow> profile \<Rightarrow> (string, string list) dict \<Rightarrow> profile \<Rightarrow> profile" where
  "scenario_categoricals inp base_profile options session_profile =
     fold (\<lambda>(cat, choices) session_profile.
        let selected = widget_value (sc_selected inp cat)
              (dict_get (get_categoricals base_profile) cat [])
        in session_profile\<lparr>categoricals :=
             Some (dict_set (get_categoricals session_profile) cat selected)\<rparr>)
       options session_profile"

definition user_scenario_view ::
  "files \<Rightarrow> profile \<Rightarrow> string \<Rightarrow> scenario_input \<Rightarrow> files \<times> (error + scenario_output)" where
  "user_scenario_view fs base_profile username inp =
     (case load_json ''venues.json'' (venues_json (app_files fs)) of
        Inl e \<Rightarrow> (fs, Inl e)
      | Inr venues \<Rightarrow>
     let fs = makedirs_templates fs username;
         template_names = dict_keys (templates_of fs username);
         selected_template = widget_value (template_picked inp) no_template
     in case (if selected_template \<noteq> no_template
              then load_json (template_path username selected_template)
                     (map_of (templates_of fs username) selected_template)
              else Inr base_profile) of
          Inl e \<Rightarrow> (fs, Inl e)
        | Inr base_profile \<Rightarrow>
     let session_profile = empty_sections;
         session_profile = scenario_scalars inp base_profile session_profile;
         session_profile = scenario_tags inp base_profile session_profile
     in case load_categorical_options (app_files fs) of
          Inl e \<Rightarrow> (fs, Inl e)
        | Inr options \<Rightarrow>
     let session_profile = scenario_categoricals inp base_profile options session_profile;
         template_name = widget_value (template_name_typed inp) []
     in if save_template_pressed inp \<and> template_name \<noteq> [] then
          (case save_template fs username template_name session_profile of
             Inl e \<Rightarrow> (fs, Inl e)
           | Inr fs' \<Rightarrow> (fs', Inr (Template_Saved template_name)))
        else (fs, Inr (Scenario_Shown
                (if selected_template \<noteq> no_template then Some selected_template else None)
                (save_template_pressed inp) session_profile
                (match_venues session_profile venues))))"

section \<open>Reference definitions\<close>

definition tenths :: "scenario_input \<Rightarrow> string \<Rightarrow> score \<Rightarrow> score" where
  "tenths inp trait value = of_int (widget_value (sc_numbers inp trait) (py_int (value * 10))) / 10"

definition flag_of :: "scenario_input \<Rightarrow> string \<Rightarrow> int \<Rightarrow> int" where
  "flag_of inp tag value = (if widget_value (sc_checks inp tag) (value = 1) then 1 else 0)"

definition selected_of :: "scenario_input \<Rightarrow> profile \<Rightarrow> string \<Rightarrow> string list \<Rightarrow> string list" where
  "selected_of inp base cat choices =
     widget_value (sc_selected inp cat) (dict_get (get_categoricals base) cat [])"

definition session_of :: "scenario_input \<Rightarrow> profile \<Rightarrow> (string, string list) dict \<Rightarrow> profile" where
  "session_of inp base options =
     \<lparr>scalars = Some (dict_remap (tenths inp) (get_scalars base)),
      tags = Some (dict_remap (flag_of inp) (get_tags base)),
      categoricals = Some (dict_remap (selected_of inp base) options)\<rparr>"

definition build_session ::
  "scenario_input \<Rightarrow> profile \<Rightarrow> (string, string list) dict \<Rightarrow> profile" where
  "build_session inp base options =
     scenario_categoricals inp base options
       (scenario_tags inp base (scenario_scalars inp base empty_sections))"

definition picked_name :: "scenario_input \<Rightarrow> string option" where
  "picked_name inp =
     (let t = widget_value (template_picked inp) no_template
      in if t \<noteq> no_template then Some t else None)"

definition picked_base :: "files \<Rightarrow> string \<Rightarrow> scenario_input \<Rightarrow> profile \<Rightarrow> error + profile" where
  "picked_base fs username inp base =
     (case picked_name inp of
        None \<Rightarrow> Inr base
      | Some t \<Rightarrow> load_json (template_path username t) (map_of (templates_of fs username) t))"

definition valid_scenario_input :: "scenario_input \<Rightarrow> bool" where
  "valid_scenario_input inp \<longleftrightarrow>
     (\<forall>n \<in> ran (sc_numbers inp). 0 \<le> n \<and> n \<le> 10)
     \<and> (\<forall>sel \<in> ran (sc_selected inp). distinct sel)"

definition untouched :: scenario_input where
  "untouched = \<lparr>template_picked = None, sc_numbers = Map.empty, sc_checks = Map.empty,
     sc_selected = Map.empty, template_name_typed = None, save_template_pressed = False\<rparr>"

definition ex_scn_files :: files where
  "ex_scn_files = ex_files\<lparr>app_files := (app_files ex_files)\<lparr>venues_json := Some ex_venues\<rparr>\<rparr>"

definition ex_scn_input :: scenario_input where
  "ex_scn_input = untouched\<lparr>sc_numbers := [''ambiance'' \<mapsto> 8], sc_checks := [''quiet'' \<mapsto> True],
     sc_selected := [''music'' \<mapsto> [''jazz'', ''soul'']]\<rparr>"

definition ex_scn_save :: scenario_input where
  "ex_scn_save = ex_scn_input\<lparr>template_name_typed := Some ''date'', save_template_pressed := True\<rparr>"

lemmas scenario_eval = user_scenario_view_def makedirs_templates_def templates_of_def
  save_template_def template_path_def scenario_scalars_def scenario_tags_def
  scenario_categoricals_def no_template_def load_categorical_options_def user_files_eval

section \<open>The three loops\<close>

lemma session_loops_eq:
  assumes "dict_wf (get_scalars base)" and "dict_wf (get_tags base)" and "dict_wf options"
  shows "build_session inp base options = session_of inp base options"
  using assms
  by (simp add: build_session_def scenario_categoricals_def scenario_tags_def scenario_scalars_def
      fold_sections fold_items_into_empty
      session_of_def empty_sections_def tenths_def [abs_def] flag_of_def [abs_def]
      selected_of_def [abs_def] Let_def)

section \<open>The template directory\<close>

lemma user_dir_of_makedirs_templates:
  "user_dir_of (makedirs_templates fs username) name =
     (if name = username
      then Some ((case user_dir_of fs username of None \<Rightarrow> new_dir | Some d \<Rightarrow> d)
             \<lparr>templates_dir := Some (templates_of fs username)\<rparr>)
      else user_dir_of fs name)"
  by (auto simp: makedirs_templates_def makedirs_user_def templates_of_def new_dir_def Let_def
      split: option.splits)

lemma templates_of_makedirs [simp]:
  "templates_of (makedirs_templates fs username) name = templates_of fs name"
  by (simp add: templates_of_def [of "makedirs_templates fs username"] user_dir_of_makedirs_templates)
     (simp add: templates_of_def)

lemma load_user_profile_makedirs [simp]:
  "load_user_profile (makedirs_templates fs username) name = load_user_profile fs name"
  by (auto simp: load_user_profile_eq user_dir_of_makedirs_templates new_dir_def
      split: option.splits)

lemma makedirs_templates_other [simp]:
  "app_files (makedirs_templates fs username) = app_files fs"
  "default_profile_json (makedirs_templates fs username) = default_profile_json fs"
  by (simp_all add: makedirs_templates_def Let_def split: option.splits)

lemma makedirs_templates_idem [simp]:
  "makedirs_templates (makedirs_templates fs username) username = makedirs_templates fs username"
  by (simp add: makedirs_templates_def [of "makedirs_templates fs username"]
      user_dir_of_makedirs_templates makedirs_user_def Let_def)

lemma wf_files_makedirs_templates [wf_intros]:
  "wf_files fs \<Longrightarrow> wf_files (makedirs_templates fs username)"
  by (auto simp: makedirs_templates_def Let_def wf_user_dir_def
      intro!: wf_files_put wf_files_makedirs dest: wf_files_lookup [OF wf_files_makedirs]
      split: option.splits)

lemma save_template_after_makedirs:
  "save_template (makedirs_templates fs username) username name p
     = Inr (put_user_dir (makedirs_templates fs username) username
         ((case user_dir_of fs username of None \<Rightarrow> new_dir | Some d \<Rightarrow> d)
            \<lparr>templates_dir := Some (dict_set (templates_of fs username) name p)\<rparr>))"
  by (simp add: save_template_def user_dir_of_makedirs_templates)

lemma templates_of_put:
  "templates_of (put_user_dir fs username d) name
     = (if name = username then section_or_empty (templates_dir d) else templates_of fs name)"
  by (simp add: templates_of_def)

section \<open>The view\<close>

lemma user_scenario_view_cases:
  "user_scenario_view fs base username inp =
     (case venues_json (app_files fs) of
        None \<Rightarrow> (fs, Inl (File_Not_Found ''venues.json''))
      | Some venues \<Rightarrow>
     (case picked_base fs username inp base of
        Inl e \<Rightarrow> (makedirs_templates fs username, Inl e)
      | Inr b \<Rightarrow>
     (case categoricals_json (app_files fs) of
        None \<Rightarrow> (makedirs_templates fs username, Inl (File_Not_Found ''categoricals.json''))
      | Some options \<Rightarrow>
          if save_template_pressed inp \<and> widget_value (template_name_typed inp) [] \<noteq> []
          then (put_user_dir (makedirs_templates fs username) username
                  ((case user_dir_of fs username of None \<Rightarrow> new_dir | Some d \<Rightarrow> d)
                     \<lparr>templates_dir := Some (dict_set (templates_of fs username)
                        (widget_value (template_name_typed inp) []) (build_session inp b options))\<rparr>),
                Inr (Template_Saved (widget_value (template_name_typed inp) [])))
          else (makedirs_templates fs username,
                Inr (Scenario_Shown (picked_name inp) (save_template_pressed inp)
                       (build_session inp b options)
                       (match_venues (build_session inp b options) venues))))))"
  by (auto simp: user_scenario_view_def picked_base_def picked_name_def build_session_def
      load_categorical_options_def save_template_after_makedirs Let_def
      split: option.splits sum.splits)

lemma session_of_sections [simp]:
  "get_scalars (session_of inp base options) = dict_remap (tenths inp) (get_scalars base)"
  "get_tags (session_of inp base options) = dict_remap (flag_of inp) (get_tags base)"
  "get_categoricals (session_of inp base options) = dict_remap (selected_of inp base) options"
  by (simp_all add: session_of_def)

lemma tenths_in_unit:
  assumes "valid_scenario_input inp" and "in_unit v"
  shows "in_unit (tenths inp trait v)"
proof (cases "sc_numbers inp trait")
  case None
  with py_int_unit [OF assms(2)] show ?thesis
    by (simp add: tenths_def in_unit_def)
next
  case (Some n)
  with assms(1) have "0 \<le> n \<and> n \<le> 10"
    by (auto simp: valid_scenario_input_def ran_def)
  with Some show ?thesis
    by (simp add: tenths_def in_unit_def)
qed

lemma selected_of_distinct:
  assumes "valid_scenario_input inp" and "wf_categoricals (get_categoricals base)"
  shows "distinct (selected_of inp base cat choices)"
proof (cases "sc_selected inp cat")
  case None
  from assms(2) have "list_all (\<lambda>(k, sel). distinct sel) (get_categoricals base)"
    by (simp add: wf_categoricals_def)
  then have "distinct (dict_get (get_categoricals base) cat [])"
    by (rule dict_get_range [where P = distinct, rotated]) simp
  with None show ?thesis
    by (simp add: selected_of_def)
next
  case (Some sel)
  with assms(1) show ?thesis
    by (auto simp: valid_scenario_input_def ran_def selected_of_def)
qed

lemma wf_session_of:
  assumes "valid_scenario_input inp" and "wf_profile base" and "dict_wf options"
  shows "wf_profile (session_of inp base options)"
proof -
  from assms(2) have base: "wf_scalars (get_scalars base)" "wf_tags (get_tags base)"
    "wf_categoricals (get_categoricals base)"
    by (simp_all add: wf_profile_def)
  have "in_unit (tenths inp k v)" if "(k, v) \<in> set (get_scalars base)" for k v
    using wf_scalarsD(2) [OF base(1) that] by (rule tenths_in_unit [OF assms(1)])
  then have "wf_scalars (dict_remap (tenths inp) (get_scalars base))"
    using wf_scalarsD(1) [OF base(1)]
    by (auto simp: wf_scalars_def list_all_iff dict_remap_values)
  moreover have "wf_tags (dict_remap (flag_of inp) (get_tags base))"
    using wf_tagsD(1) [OF base(2)]
    by (auto simp: wf_tags_def list_all_iff dict_remap_values flag_of_def)
  moreover have "wf_categoricals (dict_remap (selected_of inp base) options)"
    using assms(3) selected_of_distinct [OF assms(1) base(3)]
    by (auto simp: wf_categoricals_def list_all_iff dict_remap_values)
  ultimately show ?thesis
    by (simp add: wf_profile_def)
qed

lemma session_of_fixed:
  assumes "dict_wf options"
  shows "session_of untouched (session_of inp base options) options = session_of inp base options"
proof -
  have "dict_get (dict_remap (selected_of inp base) options) cat [] = selected_of inp base cat choices"
    if "(cat, choices) \<in> set options" for cat choices
    using that assms by (simp add: dict_get_def map_of_dict_remap dict_wf_def)
  then have "selected_of untouched (session_of inp base options) cat choices
      = selected_of inp base cat choices" if "(cat, choices) \<in> set options" for cat choices
    using that unfolding selected_of_def [of untouched] by (simp add: untouched_def)
  then have "dict_remap (selected_of untouched (session_of inp base options)) options
      = dict_remap (selected_of inp base) options"
    by (auto simp: dict_remap_def)
  moreover have "tenths untouched k (tenths inp k v) = tenths inp k v" for k v
    by (simp add: tenths_def untouched_def)
  moreover have "flag_of untouched k (flag_of inp k v) = flag_of inp k v" for k v
    by (simp add: flag_of_def untouched_def)
  ultimately show ?thesis
    by (simp add: session_of_def [of untouched] dict_remap_remap) (simp add: session_of_def)
qed

lemma ex_build_session:
  "build_session ex_scn_input ex_default [(''music'', [''jazz'', ''rock''])]
     = ex_requester"
  by (simp add: ex_requester_def build_session_def scenario_scalars_def scenario_tags_def scenario_categoricals_def
      ex_scn_input_def untouched_def ex_default_def empty_sections_def py_int_def)

lemma ex_scn_files_simps:
  "venues_json (app_files ex_scn_files) = Some ex_venues"
  "categoricals_json (app_files ex_scn_files) = Some [(''music'', [''jazz'', ''rock''])]"
  "user_dir_of ex_scn_files ''ann''
     = Some \<lparr>base_profile_json = Some empty_sections, templates_dir = None\<rparr>"
  by (simp_all add: ex_scn_files_def ex_files_def user_dir_of_def user_dirs_def)

section \<open>Properties of the scenario view\<close>

text \<open>C19. The scenario view ranks the venues for the session profile: with the venue
  file and the category file in place, no template picked and no template being saved,
  the run shows the session profile built by the three loops from the base profile and
  the result of \<open>match_venues\<close> for that session profile over the venues of the file.
  The only change to the file system is that the user's template directory exists
  afterwards.\<close>

theorem scenario_view_ranks:
  assumes "venues_json (app_files fs) = Some venues"
    and "categoricals_json (app_files fs) = Some options"
    and "template_picked inp = None"
    and "save_template_pressed inp \<longrightarrow> widget_value (template_name_typed inp) [] = []"
  shows "user_scenario_view fs base username inp =
     (makedirs_templates fs username,
      Inr (Scenario_Shown None (save_template_pressed inp)
             (scenario_categoricals inp base options
                (scenario_tags inp base (scenario_scalars inp base empty_sections)))
             (match_venues
                (scenario_categoricals inp base options
                   (scenario_tags inp base (scenario_scalars inp base empty_sections)))
                venues)))"
  using assms
  by (auto simp: user_scenario_view_cases picked_base_def picked_name_def build_session_def)

theorem scenario_view_ranks_witness:
  "snd (user_scenario_view ex_scn_files ex_default ''ann'' ex_scn_input)
     = Inr (Scenario_Shown None False ex_requester
              (Top_Matches 2 ''es'' 2 [(''A'', 7/5), (''C'', 37/50)]))"
  using scenario_view_ranks [of ex_scn_files ex_venues "[(''music'', [''jazz'', ''rock''])]"
      ex_scn_input ex_default "''ann''"] ex_build_session ex_match_venues(1)
  by (simp add: ex_scn_files_simps build_session_def)
     (simp add: ex_scn_input_def untouched_def ex_requester_def)

text \<open>C20. The session profile is well-formed: for a well-formed base profile, unique
  category keys in the category file, and widget values in the ranges the widgets
  enforce (numbers from 0 to 10, selections without repetition), the session profile the
  three loops build has unique keys, scalars in \<open>[0, 1]\<close>, tag flags \<open>0\<close> or \<open>1\<close>, and
  selections without repetition. Its scalars and tags are those of the base profile,
  its categories are the configured ones.\<close>

theorem scenario_session_wf:
  assumes "valid_scenario_input inp" and "wf_profile base" and "dict_wf options"
    and "s = scenario_categoricals inp base options
               (scenario_tags inp base (scenario_scalars inp base empty_sections))"
  shows "wf_profile s \<and> dict_keys (get_scalars s) = dict_keys (get_scalars base)
     \<and> dict_keys (get_tags s) = dict_keys (get_tags base)
     \<and> dict_keys (get_categoricals s) = dict_keys options"
proof -
  from assms(2) have "dict_wf (get_scalars base)" "dict_wf (get_tags base)"
    by (auto simp: wf_profile_def dest: wf_scalarsD(1) wf_tagsD(1))
  then have "s = session_of inp base options"
    using assms(3,4) by (simp add: session_loops_eq [unfolded build_session_def])
  then show ?thesis
    using wf_session_of [OF assms(1-3)] by simp
qed

theorem scenario_session_wf_witness:
  "valid_scenario_input ex_scn_input \<and> wf_profile ex_default
   \<and> wf_profile (scenario_categoricals ex_scn_input ex_default [(''music'', [''jazz'', ''rock''])]
        (scenario_tags ex_scn_input ex_default
           (scenario_scalars ex_scn_input ex_default empty_sections)))"
  using scenario_session_wf [of ex_scn_input ex_default "[(''music'', [''jazz'', ''rock''])]", OF _ _ _ refl]
  by (simp add: valid_scenario_input_def ex_scn_input_def untouched_def wf_profile_def
      ex_default_def in_unit_def)

text \<open>What the loops put into the session profile, for a base profile and a
  category file with unique keys: each scalar of the base profile becomes the number of
  its widget divided by ten (the user's entry, or \<open>int(v * 10)\<close> of the base value), each
  tag becomes \<open>1\<close> or \<open>0\<close> as its check box stands, and each configured category gets
  the selection of its widget, by default the base profile's selection for it. A category
  of the base profile that is not configured does not reach the session profile.\<close>

theorem scenario_session_values:
  assumes "dict_wf (get_scalars base)" and "dict_wf (get_tags base)" and "dict_wf options"
    and "s = scenario_categoricals inp base options
               (scenario_tags inp base (scenario_scalars inp base empty_sections))"
  shows "map_of (get_scalars s) trait
       = map_option (\<lambda>v. of_int (widget_value (sc_numbers inp trait) (py_int (v * 10))) / 10)
           (map_of (get_scalars base) trait)
     \<and> map_of (get_tags s) tag
       = map_option (\<lambda>v. if widget_value (sc_checks inp tag) (v = 1) then 1 else 0)
           (map_of (get_tags base) tag)
     \<and> map_of (get_categoricals s) cat
       = map_option (\<lambda>choices. widget_value (sc_selected inp cat)
                       (dict_get (get_categoricals base) cat []))
           (map_of options cat)"
  using assms
  by (simp add: session_loops_eq [unfolded build_session_def] map_of_dict_remap
      tenths_def [abs_def] flag_of_def [abs_def] selected_of_def [abs_def])

theorem scenario_session_values_witness:
  "map_of (get_scalars (scenario_categoricals ex_scn_input ex_default [(''music'', [''jazz''])]
       (scenario_tags ex_scn_input ex_default
          (scenario_scalars ex_scn_input ex_default empty_sections)))) ''price'' = Some (1/2)
   \<and> map_of (get_scalars (scenario_categoricals ex_scn_input ex_default [(''music'', [''jazz''])]
       (scenario_tags ex_scn_input ex_default
          (scenario_scalars ex_scn_input ex_default empty_sections)))) ''ambiance'' = Some (4/5)"
  using scenario_session_values [of ex_default "[(''music'', [''jazz''])]" _ ex_scn_input
      "''price''" "''quiet''" "''music''", OF _ _ _ refl]
    scenario_session_values [of ex_default "[(''music'', [''jazz''])]" _ ex_scn_input
      "''ambiance''" "''quiet''" "''music''", OF _ _ _ refl]
  by (simp add: ex_default_def ex_scn_input_def untouched_def py_int_def)

lemma picked_name_simps [simp]:
  "picked_name (inp\<lparr>template_picked := None\<rparr>) = None"
  "picked_name (inp\<lparr>template_picked := Some t\<rparr>) = (if t = no_template then None else Some t)"
  "template_picked inp = None \<Longrightarrow> picked_name inp = None"
  by (simp_all add: picked_name_def)

lemma build_session_cong:
  "sc_numbers a = sc_numbers b \<Longrightarrow> sc_checks a = sc_checks b \<Longrightarrow> sc_selected a = sc_selected b
   \<Longrightarrow> build_session a = build_session b"
  by (simp add: build_session_def scenario_scalars_def scenario_tags_def scenario_categoricals_def
      fun_eq_iff)

lemma build_session_picked [simp]:
  "build_session (inp\<lparr>template_picked := t\<rparr>) = build_session inp"
  by (rule build_session_cong) simp_all

lemma ex_build_session_save: "build_session ex_scn_save = build_session ex_scn_input"
  by (rule build_session_cong) (simp_all add: ex_scn_save_def)

lemma picked_base_found:
  "map_of (templates_of fs username) t = Some p \<Longrightarrow> t \<noteq> no_template \<Longrightarrow>
   picked_base fs username (inp\<lparr>template_picked := Some t\<rparr>) base = Inr p"
  by (simp add: picked_base_def)

text \<open>C25. A saved template reproduces its scenario: \<open>Save Scenario Template\<close> with a
  name other than the empty string and \<open>None\<close> stores the session profile of the run
  under that name; a later run that picks the template and touches no widget shows
  exactly that session profile and its ranking, whatever the base profile is, and leaves
  the file system as it is.\<close>

theorem template_roundtrip:
  assumes "venues_json (app_files fs) = Some venues"
    and "categoricals_json (app_files fs) = Some options" and "dict_wf options"
    and "dict_wf (get_scalars base)" and "dict_wf (get_tags base)"
    and "template_picked inp = None" and "save_template_pressed inp"
    and "template_name_typed inp = Some name" and "name \<noteq> []" and "name \<noteq> no_template"
    and "user_scenario_view fs base username inp = (fs', r)"
  shows "r = Inr (Template_Saved name)
     \<and> (\<exists>s. map_of (templates_of fs' username) name = Some s
          \<and> s = scenario_categoricals inp base options
                  (scenario_tags inp base (scenario_scalars inp base empty_sections))
          \<and> user_scenario_view fs' base' username (untouched\<lparr>template_picked := Some name\<rparr>)
              = (fs', Inr (Scenario_Shown (Some name) False s (match_venues s venues))))"
proof -
  let ?s = "session_of inp base options"
  let ?d = "(case user_dir_of fs username of None \<Rightarrow> new_dir | Some d \<Rightarrow> d)
              \<lparr>templates_dir := Some (dict_set (templates_of fs username) name ?s)\<rparr>"
  have s: "build_session inp base options = ?s"
    using assms(3-5) by (simp add: session_loops_eq)
  from assms have r: "r = Inr (Template_Saved name)"
    and fs': "fs' = put_user_dir (makedirs_templates fs username) username ?d"
    by (simp_all add: user_scenario_view_cases picked_base_def s)
  have found: "map_of (templates_of fs' username) name = Some ?s"
    by (simp add: fs' templates_of_put update_conv')
  have dir: "user_dir_of fs' username = Some ?d"
    by (simp add: fs')
  have same: "makedirs_templates fs' username = fs'"
    by (simp add: makedirs_templates_def makedirs_user_def dir Let_def)
  have again: "build_session untouched ?s options = ?s"
    using session_of_fixed [OF assms(3), of inp base] assms(3-5)
    by (simp add: session_loops_eq)
  have files: "app_files fs' = app_files fs"
    by (simp add: fs')
  have quiet: "\<not> save_template_pressed (untouched\<lparr>template_picked := Some name\<rparr>)"
    by (simp add: untouched_def)
  have "user_scenario_view fs' base' username (untouched\<lparr>template_picked := Some name\<rparr>)
      = (fs', Inr (Scenario_Shown (Some name) False ?s (match_venues ?s venues)))"
    using assms(1,2,10) picked_base_found [OF found assms(10), of "untouched" base'] quiet
    by (simp add: user_scenario_view_cases same again files)
  with r found s show ?thesis
    by (simp add: build_session_def)
qed

theorem template_roundtrip_witness:
  "snd (user_scenario_view ex_scn_files ex_default ''ann'' ex_scn_save)
     = Inr (Template_Saved ''date'')
   \<and> user_scenario_view (fst (user_scenario_view ex_scn_files ex_default ''ann'' ex_scn_save))
       empty_sections ''ann'' (untouched\<lparr>template_picked := Some ''date''\<rparr>)
     = (fst (user_scenario_view ex_scn_files ex_default ''ann'' ex_scn_save),
        Inr (Scenario_Shown (Some ''date'') False ex_requester
               (Top_Matches 2 ''es'' 2 [(''A'', 7/5), (''C'', 37/50)])))"
proof -
  have "build_session ex_scn_save ex_default [(''music'', [''jazz'', ''rock''])] = ex_requester"
    by (simp add: ex_build_session_save ex_build_session)
  with template_roundtrip [of ex_scn_files ex_venues "[(''music'', [''jazz'', ''rock''])]"
      ex_default ex_scn_save "''date''" "''ann''"
      "fst (user_scenario_view ex_scn_files ex_default ''ann'' ex_scn_save)"
      "snd (user_scenario_view ex_scn_files ex_default ''ann'' ex_scn_save)" empty_sections]
    ex_match_venues(1)
  show ?thesis
    by (simp add: ex_scn_files_simps build_session_def no_template_def)
       (simp add: ex_scn_save_def ex_scn_input_def untouched_def ex_default_def)
qed

lemma picked_base_Inl:
  "picked_base fs username inp base = Inl e \<longleftrightarrow>
     (\<exists>t. template_picked inp = Some t \<and> t \<noteq> no_template
          \<and> map_of (templates_of fs username) t = None
          \<and> e = File_Not_Found (template_path username t))"
  by (cases "template_picked inp")
     (auto simp: picked_base_def picked_name_def load_json_Inl_iff)

lemma wf_templates_of: "wf_files fs \<Longrightarrow> dict_wf (templates_of fs username)"
  by (auto simp: templates_of_def wf_user_dir_def dest: wf_files_lookup split: option.splits)

text \<open>C31. Errors of the scenario view, in the order the code meets them: a missing
  \<open>venues.json\<close>; a picked template whose file is missing; a missing
  \<open>categoricals.json\<close>. Each is the \<open>FileNotFoundError\<close> of the file concerned, and the
  view raises no other \<open>FileNotFoundError\<close>.\<close>

theorem scenario_errors:
  "snd (user_scenario_view fs base username inp) = Inl e \<longleftrightarrow>
     venues_json (app_files fs) = None \<and> e = File_Not_Found ''venues.json''
   \<or> venues_json (app_files fs) \<noteq> None
       \<and> (\<exists>t. template_picked inp = Some t \<and> t \<noteq> no_template
              \<and> map_of (templates_of fs username) t = None
              \<and> e = File_Not_Found (template_path username t))
   \<or> venues_json (app_files fs) \<noteq> None
       \<and> (\<exists>b. picked_base fs username inp base = Inr b)
       \<and> categoricals_json (app_files fs) = None \<and> e = File_Not_Found ''categoricals.json''"
proof -
  have "snd (user_scenario_view fs base username inp) = Inl e \<longleftrightarrow>
     venues_json (app_files fs) = None \<and> e = File_Not_Found ''venues.json''
   \<or> venues_json (app_files fs) \<noteq> None \<and> picked_base fs username inp base = Inl e
   \<or> venues_json (app_files fs) \<noteq> None
       \<and> (\<exists>b. picked_base fs username inp base = Inr b)
       \<and> categoricals_json (app_files fs) = None \<and> e = File_Not_Found ''categoricals.json''"
    by (cases "venues_json (app_files fs)"; cases "picked_base fs username inp base";
        cases "categoricals_json (app_files fs)")
       (simp_all add: user_scenario_view_cases eq_commute [of e])
  then show ?thesis
    unfolding picked_base_Inl .
qed

theorem scenario_errors_witness:
  "snd (user_scenario_view (ex_scn_files\<lparr>app_files := (app_files ex_scn_files)\<lparr>venues_json := None\<rparr>\<rparr>)
          ex_default ''ann'' untouched) = Inl (File_Not_Found ''venues.json'')
   \<and> snd (user_scenario_view ex_scn_files ex_default ''ann''
            (untouched\<lparr>template_picked := Some ''gone''\<rparr>))
       = Inl (File_Not_Found ''users/ann/templates/gone.json'')"
  using scenario_errors [of "ex_scn_files\<lparr>app_files := (app_files ex_scn_files)\<lparr>venues_json := None\<rparr>\<rparr>"
      ex_default "''ann''" untouched "File_Not_Found ''venues.json''"]
    scenario_errors [of ex_scn_files ex_default "''ann''" "untouched\<lparr>template_picked := Some ''gone''\<rparr>"
      "File_Not_Found ''users/ann/templates/gone.json''"]
  by (simp add: ex_scn_files_simps templates_of_def no_template_def template_path_def)

text \<open>
  What a run of the scenario view can change: nothing outside the user's template
  directory.
\<close>

lemma keys_makedirs_templates:
  "fst ` set (user_dirs (makedirs_templates fs username))
     = insert username (fst ` set (user_dirs fs))"
  by (simp add: makedirs_templates_def Let_def dom_dict_set set_keys_makedirs_user
      split: option.splits)

lemma user_scenario_view_state_cases:
  assumes "user_scenario_view fs base username inp = (fs', r)"
  obtains (unchanged) "fs' = fs"
  | (made) "venues_json (app_files fs) \<noteq> None" and "fs' = makedirs_templates fs username"
  | (saved) name s where "venues_json (app_files fs) \<noteq> None"
      and "fs' = put_user_dir (makedirs_templates fs username) username
             ((case user_dir_of fs username of None \<Rightarrow> new_dir | Some d \<Rightarrow> d)
                \<lparr>templates_dir := Some (dict_set (templates_of fs username) name s)\<rparr>)"
      and "r = Inr (Template_Saved name)"
  using assms
  by (cases "venues_json (app_files fs)"; cases "picked_base fs username inp base";
      cases "categoricals_json (app_files fs)";
      cases "save_template_pressed inp \<and> widget_value (template_name_typed inp) [] \<noteq> []")
     (simp_all add: user_scenario_view_cases, blast+)

lemma template_put_frame:
  fixes fs username name s
  defines "fs' \<equiv> put_user_dir (makedirs_templates fs username) username
      ((case user_dir_of fs username of None \<Rightarrow> new_dir | Some d \<Rightarrow> d)
         \<lparr>templates_dir := Some (dict_set (templates_of fs username) name s)\<rparr>)"
  shows "app_files fs' = app_files fs \<and> default_profile_json fs' = default_profile_json fs
     \<and> (\<forall>n. load_user_profile fs' n = load_user_profile fs n)
     \<and> (\<forall>n. n \<noteq> username \<longrightarrow> templates_of fs' n = templates_of fs n)
     \<and> templates_of fs' username = dict_set (templates_of fs username) name s
     \<and> fst ` set (user_dirs fs') = insert username (fst ` set (user_dirs fs))
     \<and> (wf_files fs \<longrightarrow> wf_files fs')"
proof -
  have "load_user_profile fs' n = load_user_profile fs n" for n
    unfolding fs'_def
    by (simp add: load_user_profile_eq user_dir_of_makedirs_templates new_dir_def
        split: option.splits)
  moreover have "wf_files fs'" if "wf_files fs"
    unfolding fs'_def using that wf_templates_of [OF that, of username]
    by (intro wf_files_put wf_files_makedirs_templates) (simp_all add: wf_user_dir_def dict_wf_set)
  ultimately show ?thesis
    by (simp add: fs'_def templates_of_put keys_makedirs_templates dom_dict_set)
qed

lemma user_scenario_view_frame:
  assumes "user_scenario_view fs base username inp = (fs', r)"
  shows "app_files fs' = app_files fs \<and> default_profile_json fs' = default_profile_json fs
     \<and> (\<forall>name. load_user_profile fs' name = load_user_profile fs name)
     \<and> (\<forall>name. name \<noteq> username \<longrightarrow> templates_of fs' name = templates_of fs name)
     \<and> (templates_of fs' username = templates_of fs username
          \<or> (\<exists>name s. r = Inr (Template_Saved name)
                \<and> templates_of fs' username = dict_set (templates_of fs username) name s))
     \<and> (fs' = fs \<or> fst ` set (user_dirs fs') = insert username (fst ` set (user_dirs fs)))
     \<and> (venues_json (app_files fs) = None \<longrightarrow> fs' = fs)
     \<and> (wf_files fs \<longrightarrow> wf_files fs')"
  using assms
proof (cases rule: user_scenario_view_state_cases)
  case unchanged
  then show ?thesis by simp
next
  case made
  then show ?thesis
    by (auto simp: wf_files_makedirs_templates keys_makedirs_templates)
next
  case (saved name s)
  with template_put_frame [of fs username name s] show ?thesis
    by auto
qed

lemma user_scenario_view_grows:
  assumes "user_scenario_view fs base username inp = (fs', r)"
  shows "fst ` set (user_dirs fs) \<subseteq> fst ` set (user_dirs fs')"
    and "fst ` set (templates_of fs u) \<subseteq> fst ` set (templates_of fs' u)"
proof -
  note frame = user_scenario_view_frame [OF assms]
  from frame show "fst ` set (user_dirs fs) \<subseteq> fst ` set (user_dirs fs')"
    by blast
  show "fst ` set (templates_of fs u) \<subseteq> fst ` set (templates_of fs' u)"
  proof (cases "u = username")
    case False
    with frame show ?thesis by simp
  next
    case True
    from frame consider "templates_of fs' username = templates_of fs username"
      | name s where "templates_of fs' username = dict_set (templates_of fs username) name s"
      by blast
    then show ?thesis
      by cases (auto simp: True dom_dict_set)
  qed
qed

lemma user_scenario_view_cong:
  assumes "picked_name a = picked_name b" and "sc_numbers a = sc_numbers b"
    and "sc_checks a = sc_checks b" and "sc_selected a = sc_selected b"
    and "template_name_typed a = template_name_typed b"
    and "save_template_pressed a = save_template_pressed b"
  shows "user_scenario_view fs base username a = user_scenario_view fs base username b"
  using assms build_session_cong [OF assms(2-4)]
  by (simp add: user_scenario_view_cases picked_base_def
      cong del: option.case_cong_weak sum.case_cong_weak if_weak_cong)

text \<open>C38. The template named \<open>None\<close>: the select box uses the entry \<open>None\<close> for "no
  template", and the view accepts \<open>None\<close> as a template name. Such a template is saved
  and listed, but picking it cannot be told from picking no template: every later run
  shows what it would show with nothing picked.\<close>

theorem none_template_shadowed:
  assumes "venues_json (app_files fs) = Some venues"
    and "categoricals_json (app_files fs) = Some options"
    and "template_picked inp = None" and "save_template_pressed inp"
    and "template_name_typed inp = Some no_template"
    and "user_scenario_view fs base username inp = (fs', r)"
  shows "r = Inr (Template_Saved no_template)
     \<and> no_template \<in> set (dict_keys (templates_of fs' username))
     \<and> user_scenario_view fs' base' username (inp'\<lparr>template_picked := Some no_template\<rparr>)
         = user_scenario_view fs' base' username (inp'\<lparr>template_picked := None\<rparr>)"
proof -
  have "user_scenario_view fs' base' username (inp'\<lparr>template_picked := Some no_template\<rparr>)
      = user_scenario_view fs' base' username (inp'\<lparr>template_picked := None\<rparr>)"
    by (rule user_scenario_view_cong) simp_all
  moreover from assms have "r = Inr (Template_Saved no_template)"
    and "no_template \<in> set (dict_keys (templates_of fs' username))"
    by (auto simp: user_scenario_view_cases picked_base_def templates_of_put no_template_def
        keys_dict_set [simplified])
  ultimately show ?thesis
    by simp
qed

theorem none_template_shadowed_witness:
  "snd (user_scenario_view ex_scn_files ex_default ''ann''
          (ex_scn_save\<lparr>template_name_typed := Some ''None''\<rparr>)) = Inr (Template_Saved ''None'')
   \<and> ''None'' \<in> set (dict_keys (templates_of (fst (user_scenario_view ex_scn_files ex_default ''ann''
          (ex_scn_save\<lparr>template_name_typed := Some ''None''\<rparr>))) ''ann''))"
  using none_template_shadowed [of ex_scn_files ex_venues "[(''music'', [''jazz'', ''rock''])]"
      "ex_scn_save\<lparr>template_name_typed := Some ''None''\<rparr>" ex_default "''ann''"
      "fst (user_scenario_view ex_scn_files ex_default ''ann''
          (ex_scn_save\<lparr>template_name_typed := Some ''None''\<rparr>))"
      "snd (user_scenario_view ex_scn_files ex_default ''ann''
          (ex_scn_save\<lparr>template_name_typed := Some ''None''\<rparr>))"]
  by (simp add: ex_scn_files_simps no_template_def ex_scn_save_def ex_scn_input_def untouched_def)

end
