(* ===== verification/App.thy ===== *)
theory App
  imports Venue_Manager Preferences_View Scenario_View
begin

text \<open>
  The main script of \<open>bu1.py\<close>: one run of the application as a function \<open>main\<close> from
  the file system and everything the user did in this run to the new file system and the
  screen shown, and sequences of runs as the relation \<open>reachable\<close>.

  The script asks for a role. For a user it lists the directories below \<open>users\<close>,
  offers them after the entry \<open>Create new user...\<close> (preselecting the user when there is
  exactly one), and either creates a user from the typed name or loads the selected
  user's profile and runs the view chosen in the menu. For a vendor it runs the venue
  manager on the files of the working directory.

  \<open>reachable fs0 fs\<close> holds when \<open>fs\<close> is the file system after some sequence of runs
  from \<open>fs0\<close>, each with widget values in the ranges the widgets enforce
  (\<open>valid_app_input\<close>) and each with any outcome, errors included. The invariants of
  the file system are proved by induction over it.

  \<open>main\<close> has the exceptions of the code, which are those of missing files. That the
  widgets take the defaults the views hand them is the predicate \<open>profiles_in_range\<close>
  on the file system; it is kept by every run that does not save preferences, and
  under it a listed user obtains a ranking after any sequence of such runs.
\<close>

section \<open>Input and output\<close>

datatype role = Select_Role | User | Vendor

datatype menu_choice = Choose_Task | Start_Scenario | Update_Preferences | Manage_Templates

datatype vendor_choice = Choose_Option | Manage_Venues

record app_input =
  user_type :: role
  user_picked :: "string option"
  new_username_typed :: "string option"
  menu_picked :: menu_choice
  vendor_picked :: vendor_choice
  scenario_in :: scenario_input
  pref_in :: pref_input
  venue_in :: vm_input

datatype screen =
    Select_Role_Warning
  | New_User_Prompt
  | User_Exists_Error
  | User_Created string
  | Select_Task_Warning
  | Templates_Notice
  | Scenario_Screen scenario_output
  | Preferences_Screen "pref_message option"
  | Venues_Screen "vm_message option"
  | Vendor_Info

section \<open>The code\<close>

definition create_new_user_option :: string where
  "create_new_user_option = ''Create new user...''"

definition user_templates_view :: screen where
  "user_templates_view = Templates_Notice"

definition main :: "files \<Rightarrow> app_input \<Rightarrow> files \<times> (error + screen)" where
  "main fs inp =
     (case user_type inp of
        User \<Rightarrow>
          (case get_user_list fs of
             Inl e \<Rightarrow> (fs, Inl e)
           | Inr user_list \<Rightarrow>
          let user_options = create_new_user_option # user_list;
              default_index = (if length user_list = 1 then 1 else 0);
              user_select = widget_value (user_picked inp) (user_options ! default_index)
          in if user_select = create_new_user_option then
               let new_username = widget_value (new_username_typed inp) []
               in if new_username \<noteq> [] then
                    if new_username \<in> set user_list then (fs, Inr User_Exists_Error)
                    else (case create_new_user fs new_username of
                            (fs', Inl e) \<Rightarrow> (fs', Inl e)
                          | (fs', Inr base_profile) \<Rightarrow> (fs', Inr (User_Created new_username)))
                  else (fs, Inr New_User_Prompt)
             else
               (case load_user_profile fs user_select of
                  Inl e \<Rightarrow> (fs, Inl e)
                | Inr base_profile \<Rightarrow>
                    (case menu_picked inp of
                       Start_Scenario \<Rightarrow>
                         (case user_scenario_view fs base_profile user_select (scenario_in inp) of
                            (fs', Inl e) \<Rightarrow> (fs', Inl e)
                          | (fs', Inr shown) \<Rightarrow> (fs', Inr (Scenario_Screen shown)))
                     | Update_Preferences \<Rightarrow>
                         (case user_preferences_view fs user_select (pref_in inp) of
                            Inl e \<Rightarrow> (fs, Inl e)
                          | Inr (fs', msg) \<Rightarrow> (fs', Inr (Preferences_Screen msg)))
                     | Manage_Templates \<Rightarrow> (fs, Inr user_templates_view)
                     | Choose_Task \<Rightarrow> (fs, Inr Select_Task_Warning))))
      | Vendor \<Rightarrow>
          (case vendor_picked inp of
             Manage_Venues \<Rightarrow>
               (case venue_management_view (app_files fs) (venue_in inp) of
                  Inl e \<Rightarrow> (fs, Inl e)
                | Inr (st, msg) \<Rightarrow> (fs\<lparr>app_files := st\<rparr>, Inr (Venues_Screen msg)))
           | Choose_Option \<Rightarrow> (fs, Inr Vendor_Info))
      | Select_Role \<Rightarrow> (fs, Inr Select_Role_Warning))"

section \<open>Sequences of runs\<close>

definition valid_app_input :: "app_input \<Rightarrow> bool" where
  "valid_app_input inp \<longleftrightarrow>
     valid_input (venue_in inp) \<and> valid_pref_input (pref_in inp)
     \<and> valid_scenario_input (scenario_in inp)"

inductive reachable :: "files \<Rightarrow> files \<Rightarrow> bool" for fs0 :: files where
  start: "reachable fs0 fs0"
| run: "reachable fs0 fs \<Longrightarrow> valid_app_input inp \<Longrightarrow> main fs inp = (fs', r) \<Longrightarrow> reachable fs0 fs'"

fun run_all :: "files \<Rightarrow> app_input list \<Rightarrow> files" where
  "run_all fs [] = fs"
| "run_all fs (inp # inps) = run_all (fst (main fs inp)) inps"

definition config_of ::
  "files \<Rightarrow> string list option \<times> string list option \<times> (string, string list) dict option
     \<times> profile option" where
  "config_of fs = (scalars_json (app_files fs), tags_json (app_files fs),
     categoricals_json (app_files fs), default_profile_json fs)"

definition users_have_profiles :: "files \<Rightarrow> bool" where
  "users_have_profiles fs \<longleftrightarrow>
     list_all (\<lambda>name. \<not> isl (load_user_profile fs name)) (dict_keys (user_dirs fs))"

definition selected_user :: "files \<Rightarrow> app_input \<Rightarrow> string" where
  "selected_user fs inp =
     widget_value (user_picked inp)
       ((create_new_user_option # dict_keys (user_dirs fs))
          ! (if length (user_dirs fs) = 1 then 1 else 0))"

text \<open>
  An installation is \<open>healthy\<close> when every file the application reads without a fallback
  is there: the directory \<open>users\<close>, the default profile, the venue file, the three option
  files, and a base profile for every listed user. An input is \<open>offered\<close> when the user
  and the template it picks are entries the select boxes of this run show.
\<close>

definition healthy :: "files \<Rightarrow> bool" where
  "healthy fs \<longleftrightarrow>
     users_dir fs \<noteq> None \<and> default_profile_json fs \<noteq> None
     \<and> venues_json (app_files fs) \<noteq> None \<and> scalars_json (app_files fs) \<noteq> None
     \<and> tags_json (app_files fs) \<noteq> None \<and> categoricals_json (app_files fs) \<noteq> None
     \<and> users_have_profiles fs"

definition offered :: "files \<Rightarrow> app_input \<Rightarrow> bool" where
  "offered fs inp \<longleftrightarrow>
     (case user_picked inp of
        None \<Rightarrow> True
      | Some u \<Rightarrow> u \<in> set (create_new_user_option # dict_keys (user_dirs fs)))
     \<and> (case template_picked (scenario_in inp) of
          None \<Rightarrow> True
        | Some t \<Rightarrow> t \<in> set (no_template # dict_keys (templates_of fs (selected_user fs inp))))"

text \<open>
  The number widgets of the views take the range 0 to 10 and the default
  \<open>int(value * 10)\<close>, the multi-selects take the configured choices and the stored
  selection as default. \<open>widgets_accept\<close> says of a base profile that these defaults lie
  in the range and among the choices, and \<open>profiles_in_range\<close> says it of the default
  profile and of every listed user's profile.
\<close>

definition widgets_accept :: "(string, string list) dict \<Rightarrow> profile \<Rightarrow> bool" where
  "widgets_accept options b \<longleftrightarrow>
     list_all (\<lambda>(trait, value). 0 \<le> py_int (value * 10) \<and> py_int (value * 10) \<le> 10)
       (get_scalars b)
     \<and> list_all (\<lambda>(cat, choices). set (dict_get (get_categoricals b) cat []) \<subseteq> set choices)
         options"

definition profiles_in_range :: "files \<Rightarrow> bool" where
  "profiles_in_range fs \<longleftrightarrow>
     (let options = section_or_empty (categoricals_json (app_files fs))
      in (case default_profile_json fs of None \<Rightarrow> True | Some dp \<Rightarrow> widgets_accept options dp)
         \<and> list_all (\<lambda>name. case load_user_profile fs name of
                                 Inl e \<Rightarrow> True
                               | Inr b \<Rightarrow> widgets_accept options b)
             (dict_keys (user_dirs fs)))"

definition scenario_request :: "string \<Rightarrow> app_input" where
  "scenario_request u = \<lparr>user_type = User, user_picked = Some u, new_username_typed = None,
     menu_picked = Start_Scenario, vendor_picked = Choose_Option, scenario_in = untouched,
     pref_in = ex_pref_untouched\<lparr>pref_save := False\<rparr>, venue_in = ex_untouched\<rparr>"

definition ex_vendor_run :: app_input where
  "ex_vendor_run = (scenario_request ''ann'')\<lparr>user_type := Vendor, vendor_picked := Manage_Venues,
     venue_in := ex_rename\<rparr>"

definition ex_create_run :: "string \<Rightarrow> app_input" where
  "ex_create_run name = (scenario_request create_new_user_option)\<lparr>new_username_typed := Some name\<rparr>"

definition ex_template_run :: app_input where
  "ex_template_run = (scenario_request ''ann'')\<lparr>scenario_in := ex_scn_save\<rparr>"

lemmas app_eval = main_def valid_app_input_def selected_user_def scenario_request_def
  ex_vendor_run_def ex_create_run_def ex_template_run_def create_new_user_option_def

section \<open>The file system after one run\<close>

lemma main_Select_Role: "user_type inp = Select_Role \<Longrightarrow> main fs inp = (fs, Inr Select_Role_Warning)"
  by (simp add: main_def)

lemma main_Vendor:
  "user_type inp = Vendor \<Longrightarrow> main fs inp =
     (case vendor_picked inp of
        Manage_Venues \<Rightarrow>
          (case venue_management_view (app_files fs) (venue_in inp) of
             Inl e \<Rightarrow> (fs, Inl e)
           | Inr (st, msg) \<Rightarrow> (fs\<lparr>app_files := st\<rparr>, Inr (Venues_Screen msg)))
      | Choose_Option \<Rightarrow> (fs, Inr Vendor_Info))"
  by (simp add: main_def)

lemma main_User_no_listing:
  "user_type inp = User \<Longrightarrow> users_dir fs = None \<Longrightarrow>
   main fs inp = (fs, Inl (File_Not_Found ''users''))"
  by (simp add: main_def get_user_list_def)

lemma main_User:
  assumes "user_type inp = User" and "users_dir fs \<noteq> None"
  shows "main fs inp =
     (if selected_user fs inp = create_new_user_option then
        let new_username = widget_value (new_username_typed inp) []
        in if new_username \<noteq> [] then
             if new_username \<in> set (dict_keys (user_dirs fs)) then (fs, Inr User_Exists_Error)
             else (case create_new_user fs new_username of
                     (fs', Inl e) \<Rightarrow> (fs', Inl e)
                   | (fs', Inr base_profile) \<Rightarrow> (fs', Inr (User_Created new_username)))
           else (fs, Inr New_User_Prompt)
      else
        (case load_user_profile fs (selected_user fs inp) of
           Inl e \<Rightarrow> (fs, Inl e)
         | Inr base_profile \<Rightarrow>
             (case menu_picked inp of
                Start_Scenario \<Rightarrow>
                  (case user_scenario_view fs base_profile (selected_user fs inp) (scenario_in inp) of
                     (fs', Inl e) \<Rightarrow> (fs', Inl e)
                   | (fs', Inr shown) \<Rightarrow> (fs', Inr (Scenario_Screen shown)))
              | Update_Preferences \<Rightarrow>
                  (case user_preferences_view fs (selected_user fs inp) (pref_in inp) of
                     Inl e \<Rightarrow> (fs, Inl e)
                   | Inr (fs', msg) \<Rightarrow> (fs', Inr (Preferences_Screen msg)))
              | Manage_Templates \<Rightarrow> (fs, Inr Templates_Notice)
              | Choose_Task \<Rightarrow> (fs, Inr Select_Task_Warning))))"
proof -
  from assms(2) obtain us where "users_dir fs = Some us"
    by auto
  with assms(1) show ?thesis
    unfolding main_def selected_user_def user_templates_view_def
    by (simp add: get_user_list_def user_dirs_def Let_def
        cong del: if_weak_cong sum.case_cong_weak menu_choice.case_cong_weak)
qed

lemma main_User_create:
  assumes "user_type inp = User" and "users_dir fs \<noteq> None"
    and "selected_user fs inp = create_new_user_option"
  shows "main fs inp =
     (let new_username = widget_value (new_username_typed inp) []
      in if new_username = [] then (fs, Inr New_User_Prompt)
         else if new_username \<in> set (dict_keys (user_dirs fs)) then (fs, Inr User_Exists_Error)
         else (fst (create_new_user fs new_username),
               map_sum id (\<lambda>p. User_Created new_username) (snd (create_new_user fs new_username))))"
  unfolding main_User [OF assms(1,2)] using assms(3)
  by (cases "create_new_user fs (widget_value (new_username_typed inp) [])")
     (simp add: Let_def split: sum.splits)

lemma main_User_selected:
  assumes "user_type inp = User" and "users_dir fs \<noteq> None"
    and "selected_user fs inp \<noteq> create_new_user_option"
  shows "main fs inp =
     (case load_user_profile fs (selected_user fs inp) of
        Inl e \<Rightarrow> (fs, Inl e)
      | Inr base_profile \<Rightarrow>
          (case menu_picked inp of
             Start_Scenario \<Rightarrow>
               (fst (user_scenario_view fs base_profile (selected_user fs inp) (scenario_in inp)),
                map_sum id Scenario_Screen
                  (snd (user_scenario_view fs base_profile (selected_user fs inp) (scenario_in inp))))
           | Update_Preferences \<Rightarrow>
               (case user_preferences_view fs (selected_user fs inp) (pref_in inp) of
                  Inl e \<Rightarrow> (fs, Inl e)
                | Inr (fs', msg) \<Rightarrow> (fs', Inr (Preferences_Screen msg)))
           | Manage_Templates \<Rightarrow> (fs, Inr Templates_Notice)
           | Choose_Task \<Rightarrow> (fs, Inr Select_Task_Warning)))"
  unfolding main_User [OF assms(1,2)] using assms(3)
  by (simp split: sum.splits prod.splits menu_choice.splits)

lemmas main_simps = main_Select_Role main_Vendor main_User_no_listing main_User_create
  main_User_selected

lemma main_Vendor_state:
  assumes "user_type inp = Vendor" and "main fs inp = (fs', r)"
  shows "fs' = fs \<or> (\<exists>st msg.
      venue_management_view (app_files fs) (venue_in inp) = Inr (st, msg)
      \<and> fs' = fs\<lparr>app_files := st\<rparr>)"
  using assms by (auto simp: main_Vendor split: vendor_choice.splits sum.splits)

lemma main_User_state:
  assumes "user_type inp = User" and "main fs inp = (fs', r)"
  shows "fs' = fs
    \<or> (\<exists>name. name \<notin> set (dict_keys (user_dirs fs)) \<and> fs' = fst (create_new_user fs name))
    \<or> (\<exists>u b. load_user_profile fs u = Inr b
          \<and> fs' = fst (user_scenario_view fs b u (scenario_in inp)))
    \<or> (\<exists>u msg. user_preferences_view fs u (pref_in inp) = Inr (fs', msg))"
proof (cases "users_dir fs = None")
  case True
  with assms show ?thesis
    by (simp add: main_simps)
next
  case False
  with assms show ?thesis
    by (cases "selected_user fs inp = create_new_user_option")
      (auto simp: main_User_create main_User_selected Let_def
        split: if_splits sum.splits menu_choice.splits)
qed

lemma main_state_cases:
  assumes "main fs inp = (fs', r)"
  obtains (same) "fs' = fs"
  | (created) name where "name \<notin> set (dict_keys (user_dirs fs))"
      and "fs' = fst (create_new_user fs name)"
  | (scenario) u b where "load_user_profile fs u = Inr b"
      and "fs' = fst (user_scenario_view fs b u (scenario_in inp))"
  | (prefs) u msg where "user_preferences_view fs u (pref_in inp) = Inr (fs', msg)"
  | (venues) st msg where "venue_management_view (app_files fs) (venue_in inp) = Inr (st, msg)"
      and "fs' = fs\<lparr>app_files := st\<rparr>"
proof (cases "user_type inp")
  case Select_Role
  with assms show ?thesis
    by (intro same) (simp add: main_simps)
next
  case User
  from main_User_state [OF this assms] show ?thesis
    using same created scenario prefs by blast
next
  case Vendor
  from main_Vendor_state [OF this assms] show ?thesis
    using same venues by blast
qed

section \<open>What one run preserves\<close>

lemma app_files_update_simps [simp]:
  "user_dirs (fs\<lparr>app_files := st\<rparr>) = user_dirs fs"
  "user_dir_of (fs\<lparr>app_files := st\<rparr>) name = user_dir_of fs name"
  "templates_of (fs\<lparr>app_files := st\<rparr>) name = templates_of fs name"
  "load_user_profile (fs\<lparr>app_files := st\<rparr>) name = load_user_profile fs name"
  "wf_files (fs\<lparr>app_files := st\<rparr>) = wf_files fs"
  by (simp_all add: user_dirs_def user_dir_of_def templates_of_def load_user_profile_def
      wf_files_def)

lemma templates_of_cong:
  "map_option templates_dir (user_dir_of fs' u) = map_option templates_dir (user_dir_of fs u)
   \<Longrightarrow> templates_of fs' u = templates_of fs u"
  by (cases "user_dir_of fs u"; cases "user_dir_of fs' u") (auto simp: templates_of_def)

lemma templates_of_create:
  assumes "create_new_user fs name = (fs', r)"
  shows "templates_of fs' u = templates_of fs u"
proof (cases "u = name")
  case True
  with create_new_user_frame(5) [OF assms] show ?thesis
    by (cases "user_dir_of fs' name"; cases "user_dir_of fs name") (auto simp: templates_of_def)
next
  case False
  with create_new_user_frame(4) [OF assms] show ?thesis
    by (simp add: templates_of_def)
qed

lemma main_config:
  assumes "main fs inp = (fs', r)"
  shows "config_of fs' = config_of fs"
  using assms
proof (cases rule: main_state_cases)
  case (created name)
  then show ?thesis
    using create_new_user_frame(1,2) [of fs name fs' "snd (create_new_user fs name)"]
    by (simp add: config_of_def)
next
  case (scenario u b)
  then show ?thesis
    using user_scenario_view_frame [of fs b u "scenario_in inp" fs'
        "snd (user_scenario_view fs b u (scenario_in inp))"]
    by (simp add: config_of_def)
next
  case (prefs u msg)
  then show ?thesis
    by (simp add: config_of_def user_preferences_view_frame(1,2))
next
  case (venues st msg)
  then show ?thesis
    by (simp add: config_of_def venue_management_view_other_files)
qed simp

lemma main_grows:
  assumes "main fs inp = (fs', r)"
  shows "fst ` set (user_dirs fs) \<subseteq> fst ` set (user_dirs fs')"
    and "fst ` set (templates_of fs u) \<subseteq> fst ` set (templates_of fs' u)"
    and "wf_files fs \<Longrightarrow> wf_files fs'"
proof -
  have "fst ` set (user_dirs fs) \<subseteq> fst ` set (user_dirs fs')
      \<and> fst ` set (templates_of fs u) \<subseteq> fst ` set (templates_of fs' u)
      \<and> (wf_files fs \<longrightarrow> wf_files fs')"
    using assms
  proof (cases rule: main_state_cases)
    case (created name)
    then show ?thesis
      using create_new_user_frame(3,6) [of fs name fs' "snd (create_new_user fs name)"]
        templates_of_create [of fs name fs' "snd (create_new_user fs name)" u]
      by auto
  next
    case (scenario v b)
    then have view: "user_scenario_view fs b v (scenario_in inp)
        = (fs', snd (user_scenario_view fs b v (scenario_in inp)))"
      by simp
    from user_scenario_view_grows [OF view] user_scenario_view_frame [OF view]
    show ?thesis
      by simp
  next
    case (prefs v msg)
    have "set (dict_keys (user_dirs fs')) = set (dict_keys (user_dirs fs))"
      using user_preferences_view_frame(3) [OF prefs] by (rule arg_cong)
    with user_preferences_view_frame(6,7) [OF prefs] show ?thesis
      by (simp add: templates_of_cong [of fs' u fs])
  qed simp_all
  then show "fst ` set (user_dirs fs) \<subseteq> fst ` set (user_dirs fs')"
    "fst ` set (templates_of fs u) \<subseteq> fst ` set (templates_of fs' u)"
    "wf_files fs \<Longrightarrow> wf_files fs'"
    by blast+
qed

lemma users_have_profiles_iff:
  "users_have_profiles fs \<longleftrightarrow>
     (\<forall>name \<in> fst ` set (user_dirs fs). \<exists>p. load_user_profile fs name = Inr p)"
proof -
  have "\<not> isl x \<longleftrightarrow> (\<exists>p. x = Inr p)" for x :: "error + profile"
    by (cases x) simp_all
  then show ?thesis
    by (simp add: users_have_profiles_def list_all_iff)
qed

lemma load_user_profile_cong:
  "user_dir_of fs' name = user_dir_of fs name \<Longrightarrow> load_user_profile fs' name = load_user_profile fs name"
  by (simp add: load_user_profile_eq)

lemma users_have_profiles_step:
  assumes "users_have_profiles fs"
    and "fst ` set (user_dirs fs') \<subseteq> insert u (fst ` set (user_dirs fs))"
    and "\<And>name. name \<noteq> u \<Longrightarrow> load_user_profile fs' name = load_user_profile fs name"
    and "\<exists>p. load_user_profile fs' u = Inr p"
  shows "users_have_profiles fs'"
  unfolding users_have_profiles_iff
proof
  fix name
  assume name: "name \<in> fst ` set (user_dirs fs')"
  show "\<exists>p. load_user_profile fs' name = Inr p"
  proof (cases "name = u")
    case True
    with assms(4) show ?thesis by simp
  next
    case False
    with name assms(2) have "name \<in> fst ` set (user_dirs fs)"
      by blast
    with assms(1) obtain p where "load_user_profile fs name = Inr p"
      unfolding users_have_profiles_iff by blast
    with assms(3) [OF False] show ?thesis by simp
  qed
qed

lemma create_new_user_keeps_profiles:
  assumes "create_new_user fs name = (fs', r)" and "default_profile_json fs = Some dp"
    and "users_have_profiles fs"
  shows "users_have_profiles fs'"
proof -
  have "load_user_profile fs' n = load_user_profile fs n" if "n \<noteq> name" for n
    using create_new_user_frame(4) [OF assms(1) that] by (rule load_user_profile_cong)
  moreover have "fst ` set (user_dirs fs') \<subseteq> insert name (fst ` set (user_dirs fs))"
    using create_new_user_frame(3) [OF assms(1)] by simp
  moreover have "\<exists>p. load_user_profile fs' name = Inr p"
    using create_new_user_frame(7) [OF assms(1,2)] by simp
  ultimately show ?thesis
    using assms(3) by (intro users_have_profiles_step [of fs fs' name]) auto
qed

lemma user_scenario_view_keeps_profiles:
  assumes "user_scenario_view fs b u inp = (fs', r)" and "load_user_profile fs u = Inr b"
    and "users_have_profiles fs"
  shows "users_have_profiles fs'"
proof -
  note frame = user_scenario_view_frame [OF assms(1)]
  from frame have "fst ` set (user_dirs fs') \<subseteq> insert u (fst ` set (user_dirs fs))"
    by blast
  moreover have "\<exists>p. load_user_profile fs' u = Inr p"
    using frame assms(2) by simp
  moreover have "load_user_profile fs' n = load_user_profile fs n" for n
    using frame by simp
  ultimately show ?thesis
    using assms(3) by (intro users_have_profiles_step [of fs fs' u]) auto
qed

lemma user_preferences_view_keeps_profiles:
  assumes "user_preferences_view fs u inp = Inr (fs', msg)" and "users_have_profiles fs"
  shows "users_have_profiles fs'"
proof -
  have "fst ` set (user_dirs fs') = fst ` set (user_dirs fs)"
    using arg_cong [OF user_preferences_view_frame(3) [OF assms(1)], of set] by simp
  then have "fst ` set (user_dirs fs') \<subseteq> insert u (fst ` set (user_dirs fs))"
    by blast
  with assms(2) show ?thesis
    using user_preferences_view_frame(4,5) [OF assms(1)]
    by (intro users_have_profiles_step [of fs fs' u]) auto
qed

lemma main_profiles:
  assumes "main fs inp = (fs', r)" and "default_profile_json fs \<noteq> None"
    and "users_have_profiles fs"
  shows "users_have_profiles fs'"
  using assms(1)
proof (cases rule: main_state_cases)
  case same
  with assms(3) show ?thesis by simp
next
  case (created name)
  from assms(2) obtain dp where dp: "default_profile_json fs = Some dp"
    by auto
  from created have "create_new_user fs name = (fs', snd (create_new_user fs name))"
    by simp
  from this dp assms(3) show ?thesis
    by (rule create_new_user_keeps_profiles)
next
  case (scenario u b)
  then have "user_scenario_view fs b u (scenario_in inp)
      = (fs', snd (user_scenario_view fs b u (scenario_in inp)))"
    by simp
  then show ?thesis
    using scenario(1) assms(3) by (rule user_scenario_view_keeps_profiles)
next
  case (prefs u msg)
  from this assms(3) show ?thesis
    by (rule user_preferences_view_keeps_profiles)
next
  case (venues st msg)
  with assms(3) show ?thesis
    by (simp add: users_have_profiles_iff)
qed

lemma main_venues_wf:
  assumes "main fs inp = (fs', r)" and "valid_app_input inp"
    and "wf_venues (load_venues (app_files fs))"
  shows "wf_venues (load_venues (app_files fs'))"
  using assms(1)
proof (cases rule: main_state_cases)
  case (venues st msg)
  with assms(2,3) show ?thesis
    by (auto simp: valid_app_input_def intro: venue_management_view_wf)
next
  case (created name)
  with assms(3) create_new_user_frame(1) [of fs name fs' "snd (create_new_user fs name)"]
  show ?thesis by simp
next
  case (scenario u b)
  with assms(3) user_scenario_view_frame [of fs b u "scenario_in inp" fs'
      "snd (user_scenario_view fs b u (scenario_in inp))"]
  show ?thesis by simp
next
  case (prefs u msg)
  with assms(3) show ?thesis
    by (simp add: user_preferences_view_frame(1))
next
  case same
  with assms(3) show ?thesis by simp
qed

lemma users_dir_listed:
  "user_dir_of fs u = Some d \<Longrightarrow> users_dir fs \<noteq> None"
  "fst ` set (user_dirs fs) = insert u A \<Longrightarrow> users_dir fs \<noteq> None"
  by (cases "users_dir fs"; auto simp: user_dir_of_def user_dirs_def)+

lemma main_users_dir:
  assumes "main fs inp = (fs', r)" and "users_dir fs \<noteq> None"
  shows "users_dir fs' \<noteq> None"
proof -
  note listed = users_dir_listed(2)
  from assms(1) show ?thesis
  proof (cases rule: main_state_cases)
    case same
    with assms(2) show ?thesis by simp
  next
    case (created name)
    then show ?thesis
      using create_new_user_frame(3) [of fs name fs' "snd (create_new_user fs name)"]
      by (intro listed) simp
  next
    case (scenario u b)
    then have "fs' = fs \<or> fst ` set (user_dirs fs') = insert u (fst ` set (user_dirs fs))"
      using user_scenario_view_frame [of fs b u "scenario_in inp" fs'
          "snd (user_scenario_view fs b u (scenario_in inp))"]
      by simp
    with assms(2) listed show ?thesis
      by blast
  next
    case (prefs u msg)
    from user_preferences_view_frame(5) [OF prefs]
    obtain d where "user_dir_of fs' u = Some d"
      unfolding load_user_profile_Inr by blast
    then show ?thesis
      by (rule users_dir_listed(1))
  next
    case (venues st msg)
    with assms(2) show ?thesis by simp
  qed
qed

lemma main_venue_file:
  assumes "main fs inp = (fs', r)" and "venues_json (app_files fs) \<noteq> None"
  shows "venues_json (app_files fs') \<noteq> None"
  using assms(1)
proof (cases rule: main_state_cases)
  case same
  with assms(2) show ?thesis by simp
next
  case (created name)
  with assms(2) create_new_user_frame(1) [of fs name fs' "snd (create_new_user fs name)"]
  show ?thesis by simp
next
  case (scenario u b)
  with assms(2) user_scenario_view_frame [of fs b u "scenario_in inp" fs'
      "snd (user_scenario_view fs b u (scenario_in inp))"]
  show ?thesis by simp
next
  case (prefs u msg)
  with assms(2) show ?thesis
    by (simp add: user_preferences_view_frame(1))
next
  case (venues st msg)
  with assms(2) show ?thesis
    by (auto dest: venue_management_view_keeps_venue_file)
qed

lemma main_healthy:
  assumes "main fs inp = (fs', r)" and "healthy fs"
  shows "healthy fs'"
proof -
  from main_config [OF assms(1)] assms(2)
  have "default_profile_json fs' \<noteq> None" "scalars_json (app_files fs') \<noteq> None"
    "tags_json (app_files fs') \<noteq> None" "categoricals_json (app_files fs') \<noteq> None"
    by (simp_all add: config_of_def healthy_def)
  moreover have "users_dir fs' \<noteq> None" "venues_json (app_files fs') \<noteq> None"
    "users_have_profiles fs'"
    using main_users_dir [OF assms(1)] main_venue_file [OF assms(1)] main_profiles [OF assms(1)]
      assms(2)
    by (simp_all add: healthy_def)
  ultimately show ?thesis
    by (simp add: healthy_def)
qed

section \<open>Sequences of runs\<close>

text \<open>
  A property of the file system that every run preserves holds after every sequence of
  runs. The invariants below are instances of this rule.
\<close>

lemma reachable_invariant [consumes 1, case_names start run]:
  assumes "reachable fs0 fs" and "P fs0"
    and "\<And>fs inp fs' r. P fs \<Longrightarrow> valid_app_input inp \<Longrightarrow> main fs inp = (fs', r) \<Longrightarrow> P fs'"
  shows "P fs"
  using assms by induction blast+

lemma reachable_step: "valid_app_input inp \<Longrightarrow> reachable fs (fst (main fs inp))"
  by (rule reachable.run [OF reachable.start, of inp _ _ "snd (main fs inp)"]) simp_all

lemma reachable_trans: "reachable fs1 fs2 \<Longrightarrow> reachable fs0 fs1 \<Longrightarrow> reachable fs0 fs2"
  by (induction rule: reachable.induct) (auto intro: reachable.intros)

text \<open>
  \<open>reachable\<close> is what sequences of runs reach: \<open>run_all\<close> executes a list of inputs, one
  run after the other, and a file system is reachable exactly when some list of inputs
  in range leads to it.
\<close>

lemma run_all_append [simp]: "run_all fs (xs @ ys) = run_all (run_all fs xs) ys"
  by (induction xs arbitrary: fs) simp_all

lemma reachable_run_all:
  "list_all valid_app_input inps \<Longrightarrow> reachable fs0 fs \<Longrightarrow> reachable fs0 (run_all fs inps)"
proof (induction inps arbitrary: fs)
  case (Cons inp inps)
  from Cons.prems have "reachable fs0 (fst (main fs inp))"
    by (auto intro: reachable.run [of fs0 fs inp _ "snd (main fs inp)"])
  with Cons show ?case
    by simp
qed simp

lemma reachable_iff_run_all:
  "reachable fs0 fs \<longleftrightarrow> (\<exists>inps. list_all valid_app_input inps \<and> run_all fs0 inps = fs)"
proof
  assume "reachable fs0 fs"
  then show "\<exists>inps. list_all valid_app_input inps \<and> run_all fs0 inps = fs"
  proof induction
    case start
    have "list_all valid_app_input [] \<and> run_all fs0 [] = fs0"
      by simp
    then show ?case ..
  next
    case (run fs inp fs' r)
    then obtain inps where "list_all valid_app_input inps" "run_all fs0 inps = fs"
      by blast
    with run(2,3) have "list_all valid_app_input (inps @ [inp]) \<and> run_all fs0 (inps @ [inp]) = fs'"
      by simp
    then show ?case ..
  qed
next
  assume "\<exists>inps. list_all valid_app_input inps \<and> run_all fs0 inps = fs"
  then show "reachable fs0 fs"
    using reachable_run_all [OF _ reachable.start] by blast
qed

lemma rank_venues_lookup:
  assumes "dict_wf venues" and "map_of venues name = Some p"
  shows "(name, s) \<in> set (rank_venues sp venues) \<longleftrightarrow> match_score sp p = Some s"
  using assms
  by (auto simp: rank_venues_eq set_qualified_scores dict_wf_def
      dest: map_of_SomeD eq_key_imp_eq_value)

lemma ex_range: "profiles_in_range ex_scn_files"
  by (simp add: profiles_in_range_def widgets_accept_def ex_scn_files_def ex_files_def
      ex_default_def empty_sections_def user_files_eval load_json_def section_or_empty_def
      py_int_def dict_get_def)

lemma ex_app_facts:
  "healthy ex_scn_files" "wf_files ex_scn_files" "wf_venues (load_venues (app_files ex_scn_files))"
  "valid_app_input ex_vendor_run" "valid_app_input (ex_create_run name)"
  "valid_app_input ex_template_run" "valid_app_input (scenario_request u)"
  by (simp_all add: healthy_def users_have_profiles_def wf_files_def wf_user_dir_def
      ex_scn_files_def ex_files_def ex_venues_def user_files_eval load_json_def load_venues_def
      ex_defs wf_profile_def in_unit_def empty_sections_def app_eval valid_input_def
      valid_pref_input_def valid_scenario_input_def ex_vm_defs ex_pref_untouched_def
      untouched_def ex_scn_save_def ex_scn_input_def)

section \<open>Runs that cannot fail\<close>

lemma selected_user_offered:
  assumes "offered fs inp" and "selected_user fs inp \<noteq> create_new_user_option"
  shows "selected_user fs inp \<in> set (dict_keys (user_dirs fs))"
proof (cases "user_picked inp")
  case None
  with assms(2) have "length (user_dirs fs) = 1"
    by (auto simp: selected_user_def split: if_splits)
  with None show ?thesis
    by (cases "user_dirs fs") (auto simp: selected_user_def)
next
  case (Some u)
  with assms show ?thesis
    by (auto simp: offered_def selected_user_def)
qed

lemma user_scenario_view_succeeds:
  assumes "venues_json (app_files fs) \<noteq> None" and "categoricals_json (app_files fs) \<noteq> None"
    and "case template_picked inp of None \<Rightarrow> True
         | Some t \<Rightarrow> t \<in> set (no_template # dict_keys (templates_of fs username))"
  shows "\<exists>fs' shown. user_scenario_view fs base username inp = (fs', Inr shown)"
proof -
  have "picked_base fs username inp base \<noteq> Inl e" for e
    using assms(3) unfolding picked_base_Inl
    by (auto simp: map_of_eq_None_iff split: option.splits)
  then obtain b where "picked_base fs username inp base = Inr b"
    by (cases "picked_base fs username inp base") auto
  with assms(1,2) show ?thesis
    by (auto simp: user_scenario_view_cases)
qed

lemma user_preferences_view_succeeds:
  assumes "load_user_profile fs username = Inr p" and "categoricals_json (app_files fs) \<noteq> None"
  shows "\<exists>fs' msg. user_preferences_view fs username inp = Inr (fs', msg)"
proof (cases "user_preferences_view fs username inp")
  case (Inl e)
  with assms show ?thesis
    by (simp add: user_preferences_view_Inl)
next
  case (Inr r)
  then show ?thesis
    by (cases r) simp
qed

lemma main_Vendor_succeeds:
  assumes "user_type inp = Vendor" and "healthy fs"
  shows "\<exists>fs' scr. main fs inp = (fs', Inr scr)"
proof -
  from assms(2) obtain st msg
    where "venue_management_view (app_files fs) (venue_in inp) = Inr (st, msg)"
    using venue_management_view_succeeds [of "app_files fs" "venue_in inp"]
    by (auto simp: healthy_def)
  with assms(1) show ?thesis
    by (simp add: main_Vendor split: vendor_choice.splits)
qed

lemma main_create_succeeds:
  assumes "user_type inp = User" and "healthy fs"
    and "selected_user fs inp = create_new_user_option"
  shows "\<exists>fs' scr. main fs inp = (fs', Inr scr)"
proof -
  from assms(2) obtain dp where "users_dir fs \<noteq> None" "default_profile_json fs = Some dp"
    by (auto simp: healthy_def)
  with assms(1,3) show ?thesis
    by (simp add: main_User_create create_new_user_eq Let_def)
qed

lemma main_selected_succeeds:
  assumes "user_type inp = User" and "healthy fs" and "offered fs inp"
    and "selected_user fs inp \<noteq> create_new_user_option"
  shows "\<exists>fs' scr. main fs inp = (fs', Inr scr)"
proof -
  let ?u = "selected_user fs inp"
  from assms(2) have files: "users_dir fs \<noteq> None" "venues_json (app_files fs) \<noteq> None"
    "categoricals_json (app_files fs) \<noteq> None" "users_have_profiles fs"
    by (simp_all add: healthy_def)
  from selected_user_offered [OF assms(3,4)] files(4)
  obtain b where b: "load_user_profile fs ?u = Inr b"
    by (auto simp: users_have_profiles_iff)
  from assms(3) obtain fs1 shown
    where "user_scenario_view fs b ?u (scenario_in inp) = (fs1, Inr shown)"
    using user_scenario_view_succeeds [OF files(2,3), where inp = "scenario_in inp"
        and username = ?u and base = b]
    by (auto simp: offered_def)
  moreover obtain fs2 msg where "user_preferences_view fs ?u (pref_in inp) = Inr (fs2, msg)"
    using user_preferences_view_succeeds [OF b files(3)] by blast
  ultimately show ?thesis
    using assms(1,4) files(1) b by (simp add: main_User_selected split: menu_choice.splits)
qed

lemma main_scenario_request:
  assumes "healthy fs" and "u \<in> set (dict_keys (user_dirs fs))" and "u \<noteq> create_new_user_option"
  shows "\<exists>b options venues. load_user_profile fs u = Inr b
     \<and> categoricals_json (app_files fs) = Some options
     \<and> venues_json (app_files fs) = Some venues
     \<and> main fs (scenario_request u) = (makedirs_templates fs u,
           Inr (Scenario_Screen (Scenario_Shown None False (build_session untouched b options)
              (match_venues (build_session untouched b options) venues))))"
proof -
  from assms(1,2) obtain b options venues where files: "users_dir fs \<noteq> None"
    "load_user_profile fs u = Inr b" "categoricals_json (app_files fs) = Some options"
    "venues_json (app_files fs) = Some venues"
    by (auto simp: healthy_def users_have_profiles_iff)
  have request: "user_type (scenario_request u) = User"
    "selected_user fs (scenario_request u) = u" "menu_picked (scenario_request u) = Start_Scenario"
    "scenario_in (scenario_request u) = untouched"
    by (simp_all add: scenario_request_def selected_user_def)
  have "user_scenario_view fs b u untouched = (makedirs_templates fs u,
      Inr (Scenario_Shown None False (build_session untouched b options)
        (match_venues (build_session untouched b options) venues)))"
    using files(3,4)
    by (simp add: user_scenario_view_cases picked_base_def untouched_def picked_name_def)
  with assms(3) files(1,2) request
  have "main fs (scenario_request u) = (makedirs_templates fs u,
      Inr (Scenario_Screen (Scenario_Shown None False (build_session untouched b options)
        (match_venues (build_session untouched b options) venues))))"
    by (simp add: main_User_selected)
  with files(2-4) show ?thesis
    by blast
qed

section \<open>Profiles the widgets accept\<close>

lemma profiles_in_range_iff:
  "profiles_in_range fs \<longleftrightarrow>
     (\<forall>dp. default_profile_json fs = Some dp \<longrightarrow>
        widgets_accept (section_or_empty (categoricals_json (app_files fs))) dp)
     \<and> (\<forall>u b. load_user_profile fs u = Inr b \<longrightarrow>
          widgets_accept (section_or_empty (categoricals_json (app_files fs))) b)"
proof -
  have "u \<in> fst ` set (user_dirs fs)" if "load_user_profile fs u = Inr b" for u b
    using that user_dir_of_eq_None_iff [of fs u] by (auto simp: load_user_profile_Inr)
  then show ?thesis
    by (auto simp: profiles_in_range_def list_all_iff Let_def split: option.splits sum.splits)
qed

lemma create_new_user_loads:
  assumes "create_new_user fs name = (fs', r)" and "name \<notin> set (dict_keys (user_dirs fs))"
    and "load_user_profile fs' u = Inr b"
  shows "default_profile_json fs = Some b \<or> load_user_profile fs u = Inr b"
proof (cases "u = name")
  case True
  show ?thesis
  proof (cases "default_profile_json fs")
    case None
    from assms(2) have "user_dir_of fs name = None"
      by (rule iffD2 [OF user_dir_of_eq_None_iff])
    with None assms(1,3) True show ?thesis
      by (auto simp: create_new_user_eq makedirs_user_def load_user_profile_eq new_dir_def)
  next
    case (Some dp)
    with create_new_user_frame(7) [OF assms(1) Some] True assms(3) show ?thesis
      by simp
  qed
next
  case False
  with create_new_user_frame(4) [OF assms(1) False] assms(3) show ?thesis
    by (simp add: load_user_profile_eq)
qed

lemma main_loads:
  assumes "main fs inp = (fs', r)" and "\<not> pref_save (pref_in inp)"
    and "load_user_profile fs' u = Inr b"
  shows "default_profile_json fs = Some b \<or> load_user_profile fs u = Inr b"
  using assms(1)
proof (cases rule: main_state_cases)
  case same
  with assms(3) show ?thesis by simp
next
  case (created name)
  then have "create_new_user fs name = (fs', snd (create_new_user fs name))"
    by simp
  from create_new_user_loads [OF this created(1) assms(3)] show ?thesis .
next
  case (scenario v b')
  with assms(3) user_scenario_view_frame [of fs b' v "scenario_in inp" fs'
      "snd (user_scenario_view fs b' v (scenario_in inp))"]
  show ?thesis by simp
next
  case (prefs v msg)
  with assms(2) have "fs' = fs"
    by (auto dest: preferences_without_save)
  with assms(3) show ?thesis by simp
next
  case (venues st msg)
  with assms(3) show ?thesis by simp
qed

lemma main_keeps_range:
  assumes "main fs inp = (fs', r)" and "\<not> pref_save (pref_in inp)"
    and "profiles_in_range fs"
  shows "profiles_in_range fs'"
proof -
  have "categoricals_json (app_files fs') = categoricals_json (app_files fs)"
    "default_profile_json fs' = default_profile_json fs"
    using main_config [OF assms(1)] by (simp_all add: config_of_def)
  with assms(3) main_loads [OF assms(1,2)] show ?thesis
    unfolding profiles_in_range_iff by metis
qed

lemma run_all_keeps:
  assumes "list_all (\<lambda>inp. valid_app_input inp \<and> \<not> pref_save (pref_in inp)) inps"
    and "healthy fs" and "profiles_in_range fs"
  shows "healthy (run_all fs inps) \<and> profiles_in_range (run_all fs inps)"
  using assms
proof (induction inps arbitrary: fs)
  case (Cons inp inps)
  from Cons.prems have "healthy (fst (main fs inp))" "profiles_in_range (fst (main fs inp))"
    using main_healthy [of fs inp _ "snd (main fs inp)"]
      main_keeps_range [of fs inp _ "snd (main fs inp)"]
    by simp_all
  with Cons show ?case
    by simp
qed simp

section \<open>Properties of the application\<close>

text \<open>C12. The venue file stays well-formed: after any sequence of runs of the
  application, whatever the role, the view, the widget values in range and the buttons
  pressed, and whether or not a run failed, a venue file that had unique venue names,
  unique keys, scalars in \<open>[0, 1]\<close> and flags \<open>0\<close> or \<open>1\<close> still has them. Only the venue
  manager writes the file, and the user views never do.\<close>

theorem reachable_venues_wf:
  assumes "reachable fs0 fs" and "wf_venues (load_venues (app_files fs0))"
  shows "wf_venues (load_venues (app_files fs))"
  using assms by (induction rule: reachable_invariant) (auto intro: main_venues_wf)

theorem reachable_venues_wf_witness:
  "wf_venues (load_venues (app_files (fst (main ex_scn_files ex_vendor_run))))
   \<and> map_of (load_venues (app_files (fst (main ex_scn_files ex_vendor_run)))) ''A2'' \<noteq> None"
proof -
  have "map_of (load_venues (app_files (fst (main ex_scn_files ex_vendor_run)))) ''A2'' \<noteq> None"
    by (simp add: app_eval vm_eval ex_vm_defs ex_scn_files_def ex_files_def ex_venues_def)
  with reachable_venues_wf [OF reachable_step ex_app_facts(3), OF ex_app_facts(4)]
  show ?thesis by simp
qed

text \<open>The configuration is constant: no sequence of runs changes \<open>scalars.json\<close>,
  \<open>tags.json\<close>, \<open>categoricals.json\<close> or the default profile; the application only
  reads them.\<close>

theorem reachable_config_constant:
  assumes "reachable fs0 fs"
  shows "config_of fs = config_of fs0"
  using assms by (induction rule: reachable_invariant) (auto dest: main_config)

theorem reachable_config_constant_witness:
  "config_of (fst (main ex_scn_files ex_vendor_run)) = (Some [''ambiance'', ''price''],
     Some [''quiet''], Some [(''music'', [''jazz'', ''rock''])], Some ex_default)"
  using reachable_config_constant [OF reachable_step, OF ex_app_facts(4), of ex_scn_files]
  by (simp add: config_of_def ex_scn_files_def ex_files_def)

text \<open>C33. Nothing is lost: no sequence of runs removes a user from the listing or a
  template from a user's template directory, and a file system in which user names and
  template names are unique stays so. The application has no operation that deletes a
  user or a template.\<close>

theorem reachable_grows:
  assumes "reachable fs0 fs"
  shows "set (dict_keys (user_dirs fs0)) \<subseteq> set (dict_keys (user_dirs fs))
     \<and> set (dict_keys (templates_of fs0 u)) \<subseteq> set (dict_keys (templates_of fs u))
     \<and> (wf_files fs0 \<longrightarrow> wf_files fs)"
  using assms
proof (induction rule: reachable_invariant)
  case start
  show ?case by simp
next
  case (run fs inp fs' r)
  note step = main_grows(1,3) [OF run(3)] main_grows(2) [OF run(3), of u]
  from run(1) have before: "fst ` set (user_dirs fs0) \<subseteq> fst ` set (user_dirs fs)"
    "fst ` set (templates_of fs0 u) \<subseteq> fst ` set (templates_of fs u)"
    "wf_files fs0 \<longrightarrow> wf_files fs"
    by simp_all
  from before step have "fst ` set (user_dirs fs0) \<subseteq> fst ` set (user_dirs fs')"
    "fst ` set (templates_of fs0 u) \<subseteq> fst ` set (templates_of fs' u)"
    "wf_files fs0 \<longrightarrow> wf_files fs'"
    by blast+
  then show ?case
    by simp
qed

theorem reachable_grows_witness:
  "''ann'' \<in> set (dict_keys (user_dirs (fst (main ex_scn_files ex_template_run))))
   \<and> wf_files (fst (main ex_scn_files ex_template_run))"
  using reachable_grows [OF reachable_step, OF ex_app_facts(6), of ex_scn_files] ex_app_facts(2)
  by (auto simp: ex_scn_files_def ex_files_def user_dirs_def)

text \<open>C21. A healthy installation stays healthy: when the directory \<open>users\<close>, the
  default profile, the venue file and the three option files exist and every listed
  user has a base profile, the same holds after any sequence of runs. In particular a
  user created by the application always gets a profile.\<close>

theorem reachable_healthy:
  assumes "reachable fs0 fs" and "healthy fs0"
  shows "healthy fs"
  using assms by (induction rule: reachable_invariant) (auto intro: main_healthy)

theorem reachable_healthy_witness:
  "healthy (fst (main ex_scn_files (ex_create_run ''bob'')))"
  using reachable_healthy [OF reachable_step ex_app_facts(1), OF ex_app_facts(5)] .

text \<open>C13. A healthy installation finds every file it opens: on a healthy file system, a
  run in which the user and the template picked are entries the select boxes offer ends
  with a screen, never with \<open>FileNotFoundError\<close>, whatever the role, the view and the
  other widget values are; and the file system it leaves is healthy again, so that this
  holds for every later run too. The statement is about the files: what Streamlit does
  with a default outside the range of a widget is not part of it.\<close>

theorem healthy_run_succeeds:
  assumes "healthy fs" and "offered fs inp"
  shows "\<exists>fs' scr. main fs inp = (fs', Inr scr) \<and> healthy fs'"
proof -
  have "\<exists>fs' scr. main fs inp = (fs', Inr scr)"
  proof (cases "user_type inp")
    case Select_Role
    then show ?thesis
      by (simp add: main_Select_Role)
  next
    case User
    with assms show ?thesis
      by (cases "selected_user fs inp = create_new_user_option")
        (auto intro: main_create_succeeds main_selected_succeeds)
  next
    case Vendor
    from this assms(1) show ?thesis
      by (rule main_Vendor_succeeds)
  qed
  with assms(1) show ?thesis
    by (auto intro: main_healthy)
qed

theorem healthy_run_succeeds_witness:
  "healthy ex_scn_files \<and> offered ex_scn_files ex_template_run
   \<and> (\<exists>fs'. main ex_scn_files ex_template_run = (fs', Inr (Scenario_Screen (Template_Saved ''date'')))
          \<and> healthy fs')"
proof -
  have offered: "offered ex_scn_files ex_template_run"
    by (simp add: offered_def app_eval ex_scn_save_def ex_scn_input_def untouched_def
        ex_scn_files_def ex_files_def user_dirs_def)
  have "snd (main ex_scn_files ex_template_run) = Inr (Scenario_Screen (Template_Saved ''date''))"
    by (simp add: app_eval ex_scn_files_def ex_files_def scenario_eval load_json_def save_json_def
        ex_scn_save_def ex_scn_input_def untouched_def)
  with healthy_run_succeeds [OF ex_app_facts(1) offered] ex_app_facts(1) offered show ?thesis
    by auto
qed

text \<open>C22. A ranking stays available: take a healthy installation in which the default
  profile and every user's base profile are profiles the widgets accept (scalars that
  the number widget shows between 0 and 10, selections among the configured choices),
  and any sequence of runs with widget values in range in which \<open>Save Preferences\<close> is
  not pressed. Afterwards every listed user, other than one named like the create entry
  of the select box, can obtain a ranking: the run in which that user is selected,
  \<open>Start a Scenario\<close> is chosen and no widget is touched is a run the application offers;
  the user's base profile is still one the widgets accept, so that every widget of the
  run returns its default; the run shows the session profile built from the base
  profile and the result of \<open>match_venues\<close> for it over the venue file, and it only
  makes the user's template directory. Runs that save preferences are left out because
  the preference view stores weights on the scale 0 to 10, after which the defaults of
  the number widgets are out of range.\<close>

theorem scenario_always_available:
  fixes fs0 inps
  defines "fs \<equiv> run_all fs0 inps"
  assumes "healthy fs0" and "profiles_in_range fs0"
    and "list_all (\<lambda>inp. valid_app_input inp \<and> \<not> pref_save (pref_in inp)) inps"
    and "u \<in> set (dict_keys (user_dirs fs))" and "u \<noteq> create_new_user_option"
  shows "valid_app_input (scenario_request u) \<and> offered fs (scenario_request u)
     \<and> (\<exists>b options venues. load_user_profile fs u = Inr b
           \<and> categoricals_json (app_files fs) = Some options
           \<and> venues_json (app_files fs) = Some venues
           \<and> widgets_accept options b
           \<and> main fs (scenario_request u) = (makedirs_templates fs u,
                 Inr (Scenario_Screen (Scenario_Shown None False (build_session untouched b options)
                    (match_venues (build_session untouched b options) venues)))))"
proof -
  from run_all_keeps [OF assms(4,2,3)] have ok: "healthy fs" "profiles_in_range fs"
    by (simp_all add: fs_def)
  from main_scenario_request [OF ok(1) assms(5,6)]
  obtain b options venues where shown: "load_user_profile fs u = Inr b"
    "categoricals_json (app_files fs) = Some options" "venues_json (app_files fs) = Some venues"
    "main fs (scenario_request u) = (makedirs_templates fs u,
       Inr (Scenario_Screen (Scenario_Shown None False (build_session untouched b options)
          (match_venues (build_session untouched b options) venues))))"
    by blast
  from ok(2) shown(1,2) have "widgets_accept options b"
    by (auto simp: profiles_in_range_iff)
  moreover from assms(5) have "offered fs (scenario_request u)"
    by (simp add: offered_def scenario_request_def untouched_def)
  ultimately show ?thesis
    using shown ex_app_facts(7) by blast
qed

theorem scenario_always_available_witness:
  "\<exists>shown. snd (main (run_all ex_scn_files [ex_create_run ''bob'']) (scenario_request ''bob''))
      = Inr (Scenario_Screen (Scenario_Shown None False
          (ex_default\<lparr>categoricals := Some [(''music'', [])]\<rparr>) shown))"
proof -
  let ?fs = "run_all ex_scn_files [ex_create_run ''bob'']"
  have runs: "list_all (\<lambda>inp. valid_app_input inp \<and> \<not> pref_save (pref_in inp))
      [ex_create_run ''bob'']"
    by (simp add: ex_app_facts) (simp add: app_eval)
  have listed: "''bob'' \<in> set (dict_keys (user_dirs ?fs))" "''bob'' \<noteq> create_new_user_option"
    "load_user_profile ?fs ''bob'' = Inr ex_default"
    "categoricals_json (app_files ?fs) = Some [(''music'', [''jazz'', ''rock''])]"
    by (simp_all add: app_eval ex_scn_files_def ex_files_def user_files_eval load_json_def
        save_json_def)
  have "build_session untouched ex_default [(''music'', [''jazz'', ''rock''])]
      = ex_default\<lparr>categoricals := Some [(''music'', [])]\<rparr>"
    by (simp add: build_session_def scenario_scalars_def scenario_tags_def
        scenario_categoricals_def untouched_def ex_default_def empty_sections_def py_int_def)
  with scenario_always_available [OF ex_app_facts(1) ex_range runs listed(1,2)] listed(3,4)
  show ?thesis
    by auto
qed

text \<open>Creating a user from the main script: with the create entry selected, an
  empty name only shows the prompt; a name that is listed is refused and nothing is
  written; any other name becomes a new directory at the end of the listing, holding the
  default profile and no templates, or, when the default profile is missing, an empty
  directory and the error for \<open>defaults/base_profile.json\<close>.\<close>

theorem main_create_user:
  fixes fs inp
  defines "name \<equiv> widget_value (new_username_typed inp) []"
  assumes "user_type inp = User" and "users_dir fs \<noteq> None"
    and "selected_user fs inp = create_new_user_option"
  shows "main fs inp =
     (if name = [] then (fs, Inr New_User_Prompt)
      else if name \<in> set (dict_keys (user_dirs fs)) then (fs, Inr User_Exists_Error)
      else case default_profile_json fs of
             None \<Rightarrow> (put_user_dir fs name new_dir, Inl (File_Not_Found ''defaults/base_profile.json''))
           | Some dp \<Rightarrow> (put_user_dir fs name (new_dir\<lparr>base_profile_json := Some dp\<rparr>),
                        Inr (User_Created name)))"
proof -
  have "create_new_user fs name =
      (case default_profile_json fs of
         None \<Rightarrow> (put_user_dir fs name new_dir, Inl (File_Not_Found ''defaults/base_profile.json''))
       | Some dp \<Rightarrow> (put_user_dir fs name (new_dir\<lparr>base_profile_json := Some dp\<rparr>), Inr dp))"
    if "name \<notin> set (dict_keys (user_dirs fs))"
  proof -
    from that have "user_dir_of fs name = None"
      by (rule iffD2 [OF user_dir_of_eq_None_iff])
    then show ?thesis
      by (simp add: create_new_user_eq makedirs_user_def split: option.splits)
  qed
  with assms(2-4) show ?thesis
    by (simp add: main_User_create name_def Let_def split: option.splits)
qed

theorem main_create_user_witness:
  "main ex_scn_files (ex_create_run ''bob'') =
     (ex_scn_files\<lparr>users_dir := Some
         [(''ann'', \<lparr>base_profile_json = Some empty_sections, templates_dir = None\<rparr>),
          (''bob'', \<lparr>base_profile_json = Some ex_default, templates_dir = None\<rparr>)]\<rparr>,
      Inr (User_Created ''bob''))
   \<and> main ex_scn_files (ex_create_run ''ann'') = (ex_scn_files, Inr User_Exists_Error)"
proof -
  have run: "user_type (ex_create_run n) = User" "users_dir ex_scn_files \<noteq> None"
    "selected_user ex_scn_files (ex_create_run n) = create_new_user_option"
    "widget_value (new_username_typed (ex_create_run n)) [] = n" for n
    by (simp_all add: app_eval ex_scn_files_def ex_files_def)
  have files: "dict_keys (user_dirs ex_scn_files) = [''ann'']"
    "default_profile_json ex_scn_files = Some ex_default"
    by (simp_all add: ex_scn_files_def ex_files_def user_dirs_def)
  from main_create_user [OF run(1-3), of "''bob''"] main_create_user [OF run(1-3), of "''ann''"]
  show ?thesis
    unfolding run(4) files
    by (simp add: put_user_dir_def new_dir_def user_dirs_def ex_scn_files_def ex_files_def)
qed

text \<open>C39. The name of the create entry is a user name the application accepts and can
  never serve: typing \<open>Create new user...\<close> as the name of a new user creates that
  user, with the default profile; but in every later run in which this entry of the
  select box is picked the script shows the creation form again, so the user's profile
  is never loaded and none of the user views is reached for it.\<close>

theorem create_option_shadows_user:
  assumes "user_type inp = User" and "users_dir fs \<noteq> None"
    and "default_profile_json fs = Some dp"
    and "selected_user fs inp = create_new_user_option"
    and "new_username_typed inp = Some create_new_user_option"
    and "create_new_user_option \<notin> set (dict_keys (user_dirs fs))"
    and "user_type inp' = User" and "user_picked inp' = Some create_new_user_option"
  shows "\<exists>fs'. main fs inp = (fs', Inr (User_Created create_new_user_option))
     \<and> load_user_profile fs' create_new_user_option = Inr dp
     \<and> snd (main fs' inp') =
         (let name = widget_value (new_username_typed inp') []
          in if name = [] then Inr New_User_Prompt
             else if name = create_new_user_option \<or> name \<in> set (dict_keys (user_dirs fs))
             then Inr User_Exists_Error else Inr (User_Created name))"
proof -
  let ?fs = "fst (create_new_user fs create_new_user_option)"
  have result: "snd (create_new_user fs create_new_user_option) = Inr dp"
    using assms(3) by (simp add: create_new_user_eq)
  then have created: "create_new_user fs create_new_user_option = (?fs, Inr dp)"
    by (simp add: prod_eq_iff)
  note frame = create_new_user_frame(2,3) [OF created]
  have "create_new_user_option \<noteq> []"
    by (simp add: create_new_user_option_def)
  with assms(1-6) result
  have "main fs inp = (?fs, Inr (User_Created create_new_user_option))"
    by (simp add: main_User_create Let_def)
  moreover have "load_user_profile ?fs create_new_user_option = Inr dp"
    using created assms(3) by (rule create_new_user_frame(7))
  moreover have "snd (main ?fs inp') =
      (let name = widget_value (new_username_typed inp') []
       in if name = [] then Inr New_User_Prompt
          else if name = create_new_user_option \<or> name \<in> set (dict_keys (user_dirs fs))
          then Inr User_Exists_Error else Inr (User_Created name))"
  proof -
    have "users_dir ?fs \<noteq> None"
      using frame(2) by (rule users_dir_listed(2))
    moreover from frame(1) assms(3) have "default_profile_json ?fs = Some dp"
      by simp
    moreover from assms(8) have "selected_user ?fs inp' = create_new_user_option"
      by (simp add: selected_user_def)
    ultimately show ?thesis
      using assms(7) frame(2) by (simp add: main_User_create create_new_user_eq Let_def)
  qed
  ultimately show ?thesis
    by blast
qed

theorem create_option_shadows_user_witness:
  "\<exists>fs'. main ex_scn_files (ex_create_run create_new_user_option)
        = (fs', Inr (User_Created create_new_user_option))
     \<and> load_user_profile fs' create_new_user_option = Inr ex_default
     \<and> snd (main fs' (scenario_request create_new_user_option)) = Inr New_User_Prompt"
proof -
  have "user_type (ex_create_run n) = User" "users_dir ex_scn_files \<noteq> None"
    "default_profile_json ex_scn_files = Some ex_default"
    "selected_user ex_scn_files (ex_create_run n) = create_new_user_option"
    "new_username_typed (ex_create_run n) = Some n"
    "create_new_user_option \<notin> set (dict_keys (user_dirs ex_scn_files))"
    "user_type (scenario_request u) = User" "user_picked (scenario_request u) = Some u" for n u
    by (simp_all add: app_eval ex_scn_files_def ex_files_def user_dirs_def)
  from create_option_shadows_user [OF this] show ?thesis
    by (auto simp: scenario_request_def)
qed

text \<open>C14. From the vendor's screen to the user's ranking: on a healthy installation
  with a well-formed venue file, a vendor's run that saves a venue under a name that is
  not blank stores well-formed venue data under the stripped name; and in a following
  run the scenario view of any listed user computes the ranking over the venue file the
  vendor left, in which the saved venue stands with a score exactly when \<open>match_score\<close>
  of the session profile qualifies its stored data, with that score. The user's profile
  is any that loads: that the widgets take its values as defaults, so that the ranking
  is also displayed, holds for the profiles of \<open>profiles_in_range\<close>.\<close>

theorem saved_venue_is_ranked:
  fixes fs v u
  defines "typed \<equiv> widget_value (name_typed (venue_in v))
      (if picked (venue_in v) = add_new_venue then [] else picked (venue_in v))"
  assumes "healthy fs" and "wf_venues (load_venues (app_files fs))"
    and "user_type v = Vendor" and "vendor_picked v = Manage_Venues"
    and "valid_input (venue_in v)" and "pressed (venue_in v) = Save_Venue"
    and "py_strip typed \<noteq> []"
    and "u \<in> set (dict_keys (user_dirs fs))" and "u \<noteq> create_new_user_option"
  shows "\<exists>fs1 fs2 vd session.
      main fs v = (fs1, Inr (Venues_Screen (Some (Saved_Message typed))))
      \<and> map_of (load_venues (app_files fs1)) (py_strip typed) = Some vd \<and> wf_profile vd
      \<and> main fs1 (scenario_request u) = (fs2, Inr (Scenario_Screen (Scenario_Shown None False
            session (match_venues session (load_venues (app_files fs1))))))
      \<and> (\<forall>s. (py_strip typed, s) \<in> set (rank_venues session (load_venues (app_files fs1)))
             \<longleftrightarrow> match_score session vd = Some s)"
proof -
  from assms(2) obtain ts tg cs where "configured (app_files fs) ts tg cs"
    by (auto simp: healthy_def configured_def)
  from venue_management_view_saves [OF this assms(7)] assms(8)
  obtain st vd where view: "venue_management_view (app_files fs) (venue_in v)
      = Inr (st, Some (Saved_Message typed))"
    and stored: "map_of (load_venues st) (py_strip typed) = Some vd"
    unfolding typed_def by blast
  let ?fs1 = "fs\<lparr>app_files := st\<rparr>"
  from view assms(4,5) have run: "main fs v = (?fs1, Inr (Venues_Screen (Some (Saved_Message typed))))"
    by (simp add: main_Vendor)
  from assms(3,6) view have wf: "wf_venues (load_venues st)"
    by (rule venue_management_view_wf)
  from main_healthy [OF run assms(2)] assms(9,10)
  obtain b options venues where "venues_json (app_files ?fs1) = Some venues"
    and shown: "main ?fs1 (scenario_request u) = (makedirs_templates ?fs1 u,
      Inr (Scenario_Screen (Scenario_Shown None False (build_session untouched b options)
        (match_venues (build_session untouched b options) venues))))"
    using main_scenario_request [of ?fs1 u] by auto
  then have "load_venues (app_files ?fs1) = venues"
    by (simp add: load_venues_def)
  with run stored wf shown rank_venues_lookup [of "load_venues st" "py_strip typed" vd]
    wf_venues_lookup [OF wf stored]
  show ?thesis
    by (auto simp: wf_venues_def)
qed

theorem saved_venue_is_ranked_witness:
  "\<exists>fs1 fs2 vd session.
      main ex_scn_files ex_vendor_run = (fs1, Inr (Venues_Screen (Some (Saved_Message ''  A2 ''))))
      \<and> map_of (load_venues (app_files fs1)) ''A2'' = Some vd \<and> wf_profile vd
      \<and> main fs1 (scenario_request ''ann'') = (fs2, Inr (Scenario_Screen (Scenario_Shown None False
            session (match_venues session (load_venues (app_files fs1))))))
      \<and> (\<forall>s. (''A2'', s) \<in> set (rank_venues session (load_venues (app_files fs1)))
             \<longleftrightarrow> match_score session vd = Some s)"
proof -
  have run: "user_type ex_vendor_run = Vendor" "vendor_picked ex_vendor_run = Manage_Venues"
    "valid_input (venue_in ex_vendor_run)" "pressed (venue_in ex_vendor_run) = Save_Venue"
    "widget_value (name_typed (venue_in ex_vendor_run))
      (if picked (venue_in ex_vendor_run) = add_new_venue then []
       else picked (venue_in ex_vendor_run)) = ''  A2 ''"
    "py_strip ''  A2 '' = ''A2''"
    by (simp_all add: app_eval ex_vm_defs valid_input_def in_unit_def py_strip_def is_space_def)
  have user: "''ann'' \<in> set (dict_keys (user_dirs ex_scn_files))" "''ann'' \<noteq> create_new_user_option"
    by (simp_all add: ex_scn_files_def ex_files_def user_dirs_def create_new_user_option_def)
  from saved_venue_is_ranked [OF ex_app_facts(1,3) run(1-4) _ user] show ?thesis
    unfolding run(5,6) by simp
qed

end
