(* ===== verification/Spec2Isabelle.thy ===== *)
theory Spec2Isabelle
  imports Legacy_Scripts App
begin

text \<open>
  \<^bold>\<open>A verification library for the Affinari venue matcher.\<close>

  \<^bold>\<open>The program.\<close> A Streamlit application that matches a requester's preference profile
  against venue profiles and ranks the venues.
  \<^item> \<open>src/bu1.py\<close> is the application: \<open>match_score\<close> (required tags, weighted scalars,
    categorical overlap), the handling of user profiles on disk, the preference and
    scenario views (the scenario view builds a session profile from widgets, scores every
    venue, sorts and shows the best three), and the routing between the screens.
  \<^item> \<open>src/venue_manager.py\<close> is the vendor's screen: it loads the venue collection from
    \<open>venues.json\<close>, edits one venue through widgets, and saves or deletes it.
  \<^item> \<open>src/helpers.py\<close> reads and writes JSON files.
  \<^item> \<open>src/affinari_match.py\<close> and \<open>src/streamlit_app.py\<close> are the earlier flat variant:
    a base profile plus context modifiers, clamped, and a plain dot product.

  \<^bold>\<open>The theories.\<close>
  \<^item> \<open>Prelude\<close>: Python values and builtins. Dictionaries are association lists in
    insertion order with unique keys (\<open>dict_wf\<close>); \<open>dict_get\<close>, \<open>dict_set\<close>, \<open>dict_pop\<close>;
    floats are rationals with exact arithmetic; \<open>py_sorted_reverse\<close> is
    \<open>sorted(_, key=_, reverse=True)\<close>; \<open>clamp01\<close>. Lemmas: lookup rules, preservation of
    unique keys, loops against \<open>sum_list\<close>, sums over a dictionary against sums over its
    map, and permutation, order and stability of the sort.
  \<^item> \<open>Profile\<close>: the record \<open>profile\<close> with its three optional sections, the venue
    collection \<open>venues\<close>, and the invariants \<open>wf_scalars\<close>, \<open>wf_tags\<close>,
    \<open>wf_categoricals\<close>, \<open>wf_profile\<close>, \<open>wf_venues\<close>.
  \<^item> \<open>Match_Engine\<close>: \<open>match_score\<close> of \<open>bu1.py\<close> loop by loop (\<open>required_tags_ok\<close>,
    \<open>scalar_step\<close>, \<open>categorical_step\<close>), reference definitions without accumulators,
    and the specification over maps and sets (\<open>spec_match\<close> over \<open>abs_profile\<close>) with
    the refinement theorem; the gate, the value, bounds, frame and monotonicity of the
    score. \<open>categorical_step_checked\<close> is the categorical loop body with a division that
    fails on a zero divisor (\<open>py_truediv\<close>); it is shown never to fail.
  \<^item> \<open>Ranking\<close>: the end of \<open>user_scenario_view\<close>: \<open>collect_scores\<close>, \<open>rank_venues\<close>,
    \<open>match_venues\<close> with the display as a value; the ranking is complete, sound,
    descending and stable, and the rows shown are the best.
  \<^item> \<open>Legacy_Match\<close>: \<open>session_profile\<close>, \<open>slider_modifier\<close>, \<open>match_score_flat\<close>,
    \<open>score_all\<close> and \<open>rank_flat\<close> of the two flat scripts; clamping establishes the
    scalar invariant and the flat ranking lists every venue.
  \<^item> \<open>Legacy_Scripts\<close>: the two flat scripts as whole runs, \<open>affinari_match_script\<close> and
    \<open>streamlit_app_script\<close>, from the files they read (\<open>legacy_files\<close>) and the sliders
    to what they show (\<open>flat_output\<close>) or the error of the first missing file; \<open>py_round\<close>
    is \<open>round(x, 2)\<close>. The two scripts agree when the sliders stand at the values of
    the modifier file; the printed profile is within \<open>0.005\<close> of the session profile.
  \<^item> \<open>Storage\<close>: the JSON files as a record \<open>store\<close> with one typed slot per file,
    \<open>load_json\<close> and \<open>save_json\<close> of \<open>helpers.py\<close> on a slot, the three option loaders;
    a missing file is the error value \<open>File_Not_Found\<close>.
  \<^item> \<open>Venue_Manager\<close>: one run of \<open>venue_management_view\<close> of \<open>venue_manager.py\<close> as a
    function from the store and the user's input (\<open>vm_input\<close>) to the new store and
    the message, with \<open>load_venues\<close>, \<open>save_venues\<close>, the three widget loops and the
    in-place edit of the loaded venue. The run keeps \<open>wf_venues\<close>; \<open>Save\<close>, \<open>Delete\<close>,
    the runs that write nothing and the errors are characterised.
  \<^item> \<open>User_Files\<close>: the files below \<open>users/\<close> and \<open>defaults/\<close>. The record \<open>files\<close>
    is the whole file system of the application: the \<open>store\<close> of the working directory,
    the directory \<open>users\<close> in listing order with one \<open>user_dir\<close> (base profile,
    template directory) per user, and the default profile. \<open>get_user_list\<close>,
    \<open>load_user_profile\<close>, \<open>save_user_profile\<close> and \<open>create_new_user\<close> of \<open>bu1.py\<close>;
    creation, the save/load round trip, the half-made user a failed creation leaves,
    and the refinement of a map from user names to profiles (\<open>profile_store\<close>).
  \<^item> \<open>Preferences_View\<close>: one run of \<open>user_preferences_view\<close> as a function from the
    file system, the user name and the widget values (\<open>pref_input\<close>) to the new file
    system and the message; its three loops (\<open>pref_scalars\<close>, \<open>pref_tags\<close>,
    \<open>pref_categoricals\<close>) against the reference \<open>edited_preferences\<close>; what \<open>Save\<close>
    stores, that the scalars are stored on the widget's scale of 0 to 10, the errors.
  \<^item> \<open>Scenario_View\<close>: one run of \<open>user_scenario_view\<close> from the venue file to the
    ranking: \<open>makedirs_templates\<close>, the template choice (\<open>picked_base\<close>), the session
    profile of the three loops (\<open>scenario_scalars\<close>, \<open>scenario_tags\<close>,
    \<open>scenario_categoricals\<close>) against the reference \<open>session_of\<close>, \<open>save_template\<close>, and
    \<open>match_venues\<close> of \<open>Ranking\<close> on the session profile. The session profile is
    well-formed; a saved template reproduces its scenario; the errors in the order the
    code meets them; what the run leaves on disk.
  \<^item> \<open>App\<close>: the main script of \<open>bu1.py\<close> as the function \<open>main\<close> from the file system
    and the input of one run (\<open>app_input\<close>: role, user, typed name, menu, and the inputs
    of the views) to the new file system and the \<open>screen\<close>, calling \<open>create_new_user\<close>,
    the three user views and the venue manager. Sequences of runs are the inductive
    relation \<open>reachable\<close>, which holds exactly of what \<open>run_all\<close> computes from lists of
    inputs in range; \<open>reachable_invariant\<close> is its induction rule for properties every
    run preserves. Invariants: the venue file stays well-formed, the configuration
    is constant, users and templates are never lost, a \<open>healthy\<close> installation stays
    healthy. On a healthy installation no run with \<open>offered\<close> picks ends with a file
    error, and a venue the vendor saves is ranked in the user's next scenario by its
    \<open>match_score\<close>. \<open>widgets_accept\<close> says of a base profile that every default the
    scenario view hands to a widget is one the widget takes (a weight between 0 and 10
    after scaling, selections among the choices), \<open>profiles_in_range\<close> that the default
    profile and every user's profile are such; runs that do not press
    \<open>Save Preferences\<close> keep it, and after them every listed user other than the create
    entry obtains a ranking.
  \<^item> This theory: what spans the two generations of the matcher. The flat score is the
    scalar stage of the sectioned score and the two rankings agree (\<open>flat_profile\<close>
    embeds a flat profile); and two places where the code and the specification part: a
    selection that repeats an option, where the score of the code is below that of the
    specification (\<open>repeated_option_lowers_score\<close>), and equal scores.

  \<^bold>\<open>How the components interact.\<close> \<open>main\<close> (App) reads the listing and the selected
  user's profile (User_Files) and passes them to a view. The scenario view
  (Scenario_View) reads the venue file that the venue manager (Venue_Manager) writes,
  both through \<open>load_json\<close> and \<open>save_json\<close> (Storage), builds the session profile and
  hands it to \<open>match_venues\<close> (Ranking), which calls \<open>match_score\<close> (Match_Engine) on
  every venue. The preference view writes the base profile the scenario view starts
  from. Each view has a frame lemma (\<open>venue_management_view_other_files\<close>,
  \<open>user_preferences_view_frame\<close>, \<open>user_scenario_view_frame\<close>, \<open>create_new_user_frame\<close>)
  saying what it leaves alone; the invariants of \<open>reachable\<close> are proved from these by
  the case rule \<open>main_state_cases\<close>.

  \<^bold>\<open>Choices.\<close> Scores are rationals, so every statement about a value is about exact
  arithmetic; binary rounding of Python floats is outside the model. This shows in
  three places: \<open>py_int\<close> truncates the exact product, where \<open>int(value * 10)\<close>
  truncates the rounded one; \<open>py_round\<close> rounds the exact value with ties to the even
  neighbour, where \<open>round(x, 2)\<close> rounds the binary float, which for a decimal tie is
  not a tie; and division is total in HOL, so that the guards before the division of
  \<open>match_score\<close> are justified by \<open>categorical_step_checked\<close> and not by
  \<open>categorical_step\<close> itself. \<open>py_strip\<close> strips the ASCII white space. No definition uses
  fuel: every loop of the modelled code runs over a finite dictionary or list and is a
  structural recursion or a \<open>fold\<close>, so every function of the model is total and a run
  always ends, with a screen or with an error value.

  Widgets are not modelled: what a widget returns is an argument of the function that
  models the code reading it (\<open>widget_value\<close>: the user's value, or the default the code
  passes), and the range the widget enforces is a hypothesis where a theorem needs it
  (\<open>valid_input\<close>, \<open>valid_pref_input\<close>, \<open>valid_scenario_input\<close>, \<open>valid_app_input\<close>).
  These hypotheses constrain the widgets the user has set; an untouched widget returns
  the default of the code, whatever it is. That a select box returns one of its options
  is the separate hypothesis \<open>offered\<close>, used only where it is needed; the invariants
  hold without it. The only exception of the model is \<open>FileNotFoundError\<close>, the one the
  code of the repository can raise by itself on files of the expected shape: where a
  theorem says that a run succeeds or lists its errors, it speaks of this exception.
  The exceptions Streamlit raises when the code hands a widget a default outside its
  range or its options are not in the functions of the views; where a theorem is to
  hold of the running application, that no widget refuses its default is the
  hypothesis \<open>widgets_accept\<close> on the profile the defaults come from.

  A function that can fail returns \<open>error + _\<close>; one that can fail after it has written
  returns the file system it leaves together with the result (\<open>create_new_user\<close>,
  \<open>user_scenario_view\<close>, \<open>main\<close>). \<open>st.rerun()\<close> after a user is created or a template is
  saved ends the run; the rerun is the next step of \<open>reachable\<close>.

  JSON files are taken to hold data of the shape the code expects (the code does not
  validate it); a profile whose section is missing is modelled, a profile whose scalar
  is a string is not. Every entry of \<open>users/\<close> is taken to be a directory (the
  \<open>isdir\<close> filter of \<open>get_user_list\<close> keeps every entry), every file of a template
  directory to end in \<open>.json\<close> (so is the filter of the template listing), and names to
  contain no path separator. \<open>os.listdir\<close> promises no order; the model lists a
  directory in the order in which its entries were made, a new entry last. Of a
  statement about the position of a name in a listing only the membership carries over
  to the code, and no theorem about scores or rankings depends on the position.

  \<^bold>\<open>Not modelled.\<close> Rendering: captions, labels, layout, the \<open>:.2f\<close> formatting of
  scores and the text of the printed lines. The Streamlit runtime: widget state between
  reruns, the identity of widgets, and the exceptions Streamlit raises when a widget is
  given a default outside its range or its options; the preference view can provoke the
  former after it has stored a weight above 1, and the theorems say which default the
  code hands to the widget, not what the widget does with it. Files whose content is
  not JSON of the expected shape.
\<close>

section \<open>Embedding flat profiles\<close>

definition flat_profile :: "(string, score) dict \<Rightarrow> profile" where
  "flat_profile d = \<lparr>scalars = Some d, tags = None, categoricals = None\<rparr>"

definition flat_venues :: "(string, (string, score) dict) dict \<Rightarrow> venues" where
  "flat_venues vs = map (\<lambda>(name, d). (name, flat_profile d)) vs"

definition ex_repeating :: profile where
  "ex_repeating = \<lparr>scalars = None, tags = None,
     categoricals = Some [(''music'', [''jazz'', ''jazz''])]\<rparr>"

definition ex_jazz :: profile where
  "ex_jazz = \<lparr>scalars = None, tags = None, categoricals = Some [(''music'', [''jazz''])]\<rparr>"

section \<open>The flat score inside the sectioned score\<close>

lemma match_score_flat_profile:
  "dict_wf u \<Longrightarrow> match_score (flat_profile u) (flat_profile v) = Some (match_score_flat u v)"
  by (simp add: match_score_eq flat_profile_def match_score_flat_items scalar_score_def)

lemma qualified_scores_flat:
  "dict_wf u \<Longrightarrow> qualified_scores (flat_profile u) (flat_venues vs)
     = map (\<lambda>(name, d). (name, match_score_flat u d)) vs"
  by (induction vs) (auto simp: flat_venues_def match_score_flat_profile)

text \<open>C9. The flat variant is the scalar stage of the sectioned scorer: for a user profile
  with unique traits, \<open>match_score\<close> on the flat profiles wrapped as scalar sections is
  never \<open>None\<close> and is the flat dot product, whatever tags and categoricals the venue
  has; and ranking the wrapped venues gives the flat ranking.\<close>

theorem flat_score_is_scalar_stage:
  assumes "dict_wf u"
  shows "match_score (flat_profile u) \<lparr>scalars = Some v, tags = t, categoricals = c\<rparr>
           = Some (match_score_flat u v)
         \<and> rank_venues (flat_profile u) (flat_venues vs) = rank_flat u vs"
  using assms
  by (simp add: rank_venues_eq rank_flat_eq qualified_scores_flat)
     (simp add: match_score_eq flat_profile_def match_score_flat_items scalar_score_def)

theorem flat_score_is_scalar_stage_witness:
  "match_score (flat_profile ex_flat_user)
     \<lparr>scalars = Some [(''ambiance'', 1), (''price'', 2/10)], tags = Some [(''quiet'', 0)],
      categoricals = None\<rparr> = Some (9/10)
   \<and> rank_venues (flat_profile ex_flat_user) (flat_venues ex_flat_venues)
     = [(''A'', 9/10), (''B'', 37/50)]"
  using flat_score_is_scalar_stage [of ex_flat_user "[(''ambiance'', 1), (''price'', 2/10)]"
      "Some [(''quiet'', 0)]" None ex_flat_venues]
  by (simp add: ex_rank_flat) (simp add: ex_flat_user_def match_score_flat_def)

section \<open>Where code and specification part\<close>

text \<open>C40. A selection that repeats an option lowers the score: the code divides the
  number of distinct shared options by the length of the requester's list, the
  specification by the size of the selection as a set. For a requester whose sections
  have unique keys, whatever the selections are, the code disqualifies exactly when the
  specification does; a score of the code is never above the score of the
  specification; and it is below it exactly when some category of the requester holds
  a selection that repeats an option and shares an option with the venue. The hypothesis
  of the refinement theorem on selections cannot be dropped.\<close>

theorem repeated_option_lowers_score:
  assumes "dict_wf (get_scalars r)" and "dict_wf (get_tags r)"
    and "dict_wf (get_categoricals r)"
  shows "(match_score r v = None \<longleftrightarrow> spec_match (abs_of r) (abs_of v) = None)
     \<and> (\<forall>s s'. match_score r v = Some s \<longrightarrow> spec_match (abs_of r) (abs_of v) = Some s' \<longrightarrow>
          s \<le> s'
          \<and> (s < s' \<longleftrightarrow> (\<exists>(c, sel) \<in> set (get_categoricals r).
                \<not> distinct sel \<and> set sel \<inter> set (dict_get (get_categoricals v) c []) \<noteq> {})))"
proof -
  let ?uc = "get_categoricals r" and ?vc = "get_categoricals v"
  let ?code = "\<lambda>(c, sel). categorical_bonus sel (dict_get ?vc c [])"
  let ?spec = "\<lambda>(c, sel). overlap_share (set sel) (set (dict_get ?vc c []))"
  let ?rep = "\<lambda>(c, sel). \<not> distinct sel \<and> set sel \<inter> set (dict_get ?vc c []) \<noteq> {}"
  have le: "?code x \<le> ?spec x" and less: "?code x < ?spec x \<longleftrightarrow> ?rep x" for x
    by (cases x; simp add: categorical_bonus_vs_share)+
  from sum_list_less_iff [of ?uc ?code ?spec, OF le]
  have "categorical_score ?uc ?vc \<le> spec_categorical (abs_of r) (abs_of v)"
    and "categorical_score ?uc ?vc < spec_categorical (abs_of r) (abs_of v)
      \<longleftrightarrow> (\<exists>x \<in> set ?uc. ?rep x)"
    unfolding share_sum_spec [OF assms(3), symmetric] categorical_score_def less
    by simp_all
  then show ?thesis
    using assms(1,2)
    by (auto simp: match_score_eq spec_match_def required_tags_ok_spec scalar_score_spec)
qed

theorem repeated_option_lowers_score_witness:
  "match_score ex_repeating ex_jazz = Some (1/2)
   \<and> spec_match (abs_of ex_repeating) (abs_of ex_jazz) = Some 1
   \<and> \<not> distinct [''jazz'', ''jazz'']
   \<and> match_score (ex_repeating\<lparr>categoricals := Some [(''music'', [''jazz'', ''jazz'', ''jazz''])]\<rparr>)
        ex_jazz = Some (1/3)"
proof -
  have code: "match_score ex_repeating ex_jazz = Some (1/2)"
    "match_score (ex_repeating\<lparr>categoricals := Some [(''music'', [''jazz'', ''jazz'', ''jazz''])]\<rparr>)
        ex_jazz = Some (1/3)"
    by (simp_all add: match_score_eq ex_jazz_def ex_repeating_def categorical_bonus_def)
  have "spec_match (abs_of ex_jazz) (abs_of ex_jazz) = match_score ex_jazz ex_jazz"
    using required_tags_ok_spec [of ex_jazz ex_jazz] scalar_score_spec [of ex_jazz ex_jazz]
      categorical_score_spec [of ex_jazz ex_jazz]
    by (simp add: match_score_eq spec_match_def ex_jazz_def)
  then have spec: "spec_match (abs_of ex_repeating) (abs_of ex_jazz) = Some 1"
    by (simp add: abs_of_def ex_repeating_def)
       (simp add: abs_of_def match_score_eq ex_jazz_def categorical_bonus_def)
  from repeated_option_lowers_score [of ex_repeating ex_jazz] code spec show ?thesis
    by (simp add: ex_repeating_def)
qed

text \<open>Equal scores: venues with the same score are ranked in the order in which
  the venue file lists them, not by name. Two venues that score the same under the empty
  requester come out as stored, \<open>zeta\<close> before \<open>alpha\<close>; the specification asks for
  ascending venue identifiers.\<close>

theorem ties_keep_file_order:
  "rank_venues empty_sections [(''zeta'', p), (''alpha'', q)] = [(''zeta'', 0), (''alpha'', 0)]
   \<and> rank_venues empty_sections [(''alpha'', q), (''zeta'', p)] = [(''alpha'', 0), (''zeta'', 0)]"
  by (simp add: rank_venues_eq match_score_eq empty_sections_def py_sorted_reverse_def)

end
